theory Spec2Isabelle
  imports Complex_Main
begin

section \<open>Numbers and constants\<close>

text \<open>
  The two scripts of the site (the portfolio page script and the later "spatial
  environment" script) share the ball physics and differ in their constants and in a few
  extra stages. JavaScript numbers are modelled as real numbers: rounding of IEEE doubles,
  infinities and NaN are outside the model. The constants of a script are collected in a
  record so that the shared functions are written once.
\<close>

record params =
  maxBalls :: nat
  gravity :: real
  airResistance :: real
  bounceFactor :: real
  ballBounceFactor :: real
  ballRadius :: real
  stopVelocity :: real
  maxVelocity :: real

definition portfolio :: params where
  "portfolio = \<lparr> maxBalls = 20, gravity = 0.6, airResistance = 0.992, bounceFactor = 0.45,
     ballBounceFactor = 0.35, ballRadius = 10, stopVelocity = 0.2, maxVelocity = 30 \<rparr>"

definition spatial :: params where
  "spatial = \<lparr> maxBalls = 15, gravity = 0.7, airResistance = 0.995, bounceFactor = 0.6,
     ballBounceFactor = 0.5, ballRadius = 12, stopVelocity = 0.15, maxVelocity = 35 \<rparr>"

definition magneticRadius :: real where "magneticRadius = 150"
definition magneticStrength :: real where "magneticStrength = 0.3"
definition maskAlphaThreshold :: nat where "maskAlphaThreshold = 10"

section \<open>Balls\<close>

text \<open>
  A ball object. \<open>element\<close> identifies the DOM node the ball owns. \<open>prevX\<close>, \<open>prevY\<close> and
  \<open>restingStartTime\<close> exist only in the spatial script and are \<open>undefined\<close> (\<open>None\<close>) until
  first written. The rotation angle and spin speed of the spatial script are written to
  the element's transform only and never read by the physics; they are left out, as are
  the \<open>stopping\<close> flag, which is set at creation and never read, CSS class toggles and
  squash transforms.
\<close>

record ball =
  element :: nat
  ball_x :: real
  ball_y :: real
  ball_vx :: real
  ball_vy :: real
  active :: bool
  prevX :: "real option"
  prevY :: "real option"
  restingStartTime :: "real option"

definition speed :: "ball \<Rightarrow> real" where
  "speed b = sqrt (ball_vx b * ball_vx b + ball_vy b * ball_vy b)"

definition centerDistance :: "ball \<Rightarrow> ball \<Rightarrow> real" where
  "centerDistance a b =
     sqrt ((ball_x b - ball_x a) * (ball_x b - ball_x a) + (ball_y b - ball_y a) * (ball_y b - ball_y a))"

section \<open>Ball-ball collision\<close>

text \<open>
  \<open>resolveBallCollision(a, b)\<close> mutates both balls; the model returns the pair. The early
  \<open>return\<close> for a separating pair happens after the positions were moved apart.
\<close>

definition resolveBallCollision :: "params \<Rightarrow> ball \<Rightarrow> ball \<Rightarrow> ball \<times> ball" where
  "resolveBallCollision p a b =
     (let dx = ball_x b - ball_x a;
          dy = ball_y b - ball_y a;
          minDist = ballRadius p * 2;
          dist0 = sqrt (dx * dx + dy * dy);
          dist = (if dist0 = 0 then 0.01 else dist0)
      in if dist < minDist then
           (let nx = dx / dist;
                ny = dy / dist;
                overlap = minDist - dist;
                separation = overlap / 2;
                a1 = a\<lparr>ball_x := ball_x a - nx * separation, ball_y := ball_y a - ny * separation\<rparr>;
                b1 = b\<lparr>ball_x := ball_x b + nx * separation, ball_y := ball_y b + ny * separation\<rparr>;
                rvx = ball_vx b1 - ball_vx a1;
                rvy = ball_vy b1 - ball_vy a1;
                velAlongNormal = rvx * nx + rvy * ny
            in if velAlongNormal > 0 then (a1, b1)
               else
                 (let impulse = - (1 + ballBounceFactor p) * velAlongNormal / 2;
                      ix = impulse * nx;
                      iy = impulse * ny
                  in (a1\<lparr>ball_vx := ball_vx a1 - ix, ball_vy := ball_vy a1 - iy\<rparr>,
                      b1\<lparr>ball_vx := ball_vx b1 + ix, ball_vy := ball_vy b1 + iy\<rparr>)))
         else (a, b))"

section \<open>Obstacles\<close>

text \<open>
  The alpha map of a masked image: \<open>mask_data\<close> is the RGBA byte array read back from the
  offscreen canvas, \<open>mask_width\<close> and \<open>mask_height\<close> the natural size of the image.
\<close>

record mask =
  mask_data :: "nat list"
  mask_width :: int
  mask_height :: int

text \<open>
  An obstacle object is tagged by its \<open>type\<close> field (\<open>'rect'\<close> or \<open>'mask'\<close>). The
  \<open>element\<close> reference of a rectangular obstacle is used for a CSS class toggle only and
  is left out.
\<close>

datatype obstacle =
  RectObs (obs_left: real) (obs_right: real) (obs_top: real) (obs_bottom: real)
| MaskObs (obs_left: real) (obs_right: real) (obs_top: real) (obs_bottom: real)
    (obs_width: real) (obs_height: real) (obs_mask: mask)

section \<open>Rectangle collision\<close>

text \<open>The four penetration depths and their per-axis minima, as \<open>checkRectCollision\<close> names them.\<close>

definition overlapLeft :: "params \<Rightarrow> ball \<Rightarrow> obstacle \<Rightarrow> real" where
  "overlapLeft p ballObj obs = (ball_x ballObj + ballRadius p) - obs_left obs"

definition overlapRight :: "params \<Rightarrow> ball \<Rightarrow> obstacle \<Rightarrow> real" where
  "overlapRight p ballObj obs = obs_right obs - (ball_x ballObj - ballRadius p)"

definition overlapTop :: "params \<Rightarrow> ball \<Rightarrow> obstacle \<Rightarrow> real" where
  "overlapTop p ballObj obs = (ball_y ballObj + ballRadius p) - obs_top obs"

definition overlapBottom :: "params \<Rightarrow> ball \<Rightarrow> obstacle \<Rightarrow> real" where
  "overlapBottom p ballObj obs = obs_bottom obs - (ball_y ballObj - ballRadius p)"

definition minOverlapX :: "params \<Rightarrow> ball \<Rightarrow> obstacle \<Rightarrow> real" where
  "minOverlapX p ballObj obs = min (overlapLeft p ballObj obs) (overlapRight p ballObj obs)"

definition minOverlapY :: "params \<Rightarrow> ball \<Rightarrow> obstacle \<Rightarrow> real" where
  "minOverlapY p ballObj obs = min (overlapTop p ballObj obs) (overlapBottom p ballObj obs)"

text \<open>The bounding-square test that guards the resolution.\<close>

definition boxesOverlap :: "params \<Rightarrow> ball \<Rightarrow> obstacle \<Rightarrow> bool" where
  "boxesOverlap p ballObj obs =
     (ball_x ballObj + ballRadius p > obs_left obs \<and> ball_x ballObj - ballRadius p < obs_right obs \<and>
      ball_y ballObj + ballRadius p > obs_top obs \<and> ball_y ballObj - ballRadius p < obs_bottom obs)"

text \<open>
  \<open>checkRectCollision(ballObj, obs)\<close> returns whether it hit and mutates the ball; the
  model returns both.
\<close>

definition checkRectCollision :: "params \<Rightarrow> ball \<Rightarrow> obstacle \<Rightarrow> bool \<times> ball" where
  "checkRectCollision p ballObj obs =
     (case obs of
        MaskObs l r t b w h m \<Rightarrow> (False, ballObj)
      | RectObs l r t b \<Rightarrow>
          if boxesOverlap p ballObj obs then
            (if minOverlapX p ballObj obs < minOverlapY p ballObj obs then
               (let b1 = (if overlapLeft p ballObj obs < overlapRight p ballObj obs
                          then ballObj\<lparr>ball_x := l - ballRadius p,
                                       ball_vx := - \<bar>ball_vx ballObj\<bar> * bounceFactor p\<rparr>
                          else ballObj\<lparr>ball_x := r + ballRadius p,
                                       ball_vx := \<bar>ball_vx ballObj\<bar> * bounceFactor p\<rparr>)
                in (True, if \<bar>ball_vx b1\<bar> < stopVelocity p then b1\<lparr>ball_vx := 0\<rparr> else b1))
             else
               (let b1 = (if overlapTop p ballObj obs < overlapBottom p ballObj obs
                          then ballObj\<lparr>ball_y := t - ballRadius p,
                                       ball_vy := - \<bar>ball_vy ballObj\<bar> * bounceFactor p\<rparr>
                          else ballObj\<lparr>ball_y := b + ballRadius p,
                                       ball_vy := \<bar>ball_vy ballObj\<bar> * bounceFactor p\<rparr>)
                in (True, if \<bar>ball_vy b1\<bar> < stopVelocity p then b1\<lparr>ball_vy := 0\<rparr> else b1)))
          else (False, ballObj))"

text \<open>Concrete balls for the examples below.\<close>

definition mkBall :: "nat \<Rightarrow> real \<Rightarrow> real \<Rightarrow> real \<Rightarrow> real \<Rightarrow> ball" where
  "mkBall e x y vx vy = \<lparr> element = e, ball_x = x, ball_y = y, ball_vx = vx, ball_vy = vy,
     active = True, prevX = None, prevY = None, restingStartTime = None \<rparr>"

section \<open>Velocity clamp and cursor magnetism\<close>

definition clampVelocity :: "params \<Rightarrow> ball \<Rightarrow> ball" where
  "clampVelocity p ballObj =
     (let speed = sqrt (ball_vx ballObj * ball_vx ballObj + ball_vy ballObj * ball_vy ballObj)
      in if speed > maxVelocity p then
           (let scale = maxVelocity p / speed
            in ballObj\<lparr>ball_vx := ball_vx ballObj * scale, ball_vy := ball_vy ballObj * scale\<rparr>)
         else ballObj)"

text \<open>\<open>Math.atan2(y, x)\<close> on finite arguments.\<close>

definition Math_atan2 :: "real \<Rightarrow> real \<Rightarrow> real" where
  "Math_atan2 y x =
     (if x > 0 then arctan (y / x)
      else if x < 0 then (if y \<ge> 0 then arctan (y / x) + pi else arctan (y / x) - pi)
      else if y > 0 then pi / 2
      else if y < 0 then - pi / 2
      else 0)"

text \<open>
  \<open>applyCursorMagnetism(ballObj)\<close> of the spatial script; \<open>mouseX\<close> and \<open>mouseY\<close> are the
  smoothed cursor position kept by the script.
\<close>

definition applyCursorMagnetism :: "real \<Rightarrow> real \<Rightarrow> ball \<Rightarrow> ball" where
  "applyCursorMagnetism mouseX mouseY ballObj =
     (let dx = mouseX - ball_x ballObj;
          dy = mouseY - ball_y ballObj;
          distanceSq = dx * dx + dy * dy;
          magneticRadiusSq = magneticRadius * magneticRadius
      in if distanceSq < magneticRadiusSq \<and> distanceSq > 25 then
           (let distance = sqrt distanceSq;
                force = (1 - distance / magneticRadius) * magneticStrength;
                angle = Math_atan2 dy dx;
                forceX = cos angle * force;
                forceY = sin angle * force
            in ballObj\<lparr>ball_vx := ball_vx ballObj + forceX * 0.8,
                         ball_vy := ball_vy ballObj + forceY * 0.8\<rparr>)
         else ballObj)"

section \<open>Mask collision\<close>

text \<open>
  Reading a typed array out of range yields \<open>undefined\<close>; a comparison with \<open>undefined\<close>
  is false.
\<close>

definition js_index :: "nat list \<Rightarrow> int \<Rightarrow> nat option" where
  "js_index xs i = (if 0 \<le> i \<and> i < int (length xs) then Some (xs ! nat i) else None)"

definition alphaAt :: "mask \<Rightarrow> int \<Rightarrow> int \<Rightarrow> nat option" where
  "alphaAt m ix iy = js_index (mask_data m) ((iy * mask_width m + ix) * 4 + 3)"

definition sampleOpaque :: "mask \<Rightarrow> int \<Rightarrow> int \<Rightarrow> int \<Rightarrow> int \<Rightarrow> real" where
  "sampleOpaque m sampleX sampleY dx dy =
     (let ix = max 0 (min (mask_width m - 1) (sampleX + dx));
          iy = max 0 (min (mask_height m - 1) (sampleY + dy))
      in case alphaAt m ix iy of
           None \<Rightarrow> 0
         | Some a \<Rightarrow> if a > maskAlphaThreshold then 1 else 0)"

definition Math_hypot :: "real \<Rightarrow> real \<Rightarrow> real" where
  "Math_hypot a b = sqrt (a * a + b * b)"

text \<open>\<open>h || 1\<close> on a number: the fallback is taken when \<open>h\<close> is zero.\<close>

definition orOne :: "real \<Rightarrow> real" where
  "orOne h = (if h = 0 then 1 else h)"

text \<open>The central-difference estimate \<open>(nx, ny)\<close> before the fallback.\<close>

definition opacityGradient :: "mask \<Rightarrow> int \<Rightarrow> int \<Rightarrow> real \<times> real" where
  "opacityGradient m sampleX sampleY =
     (sampleOpaque m sampleX sampleY 1 0 - sampleOpaque m sampleX sampleY (- 1) 0,
      sampleOpaque m sampleX sampleY 0 1 - sampleOpaque m sampleX sampleY 0 (- 1))"

text \<open>
  The normal \<open>(nx, ny)\<close> that the reflection uses: the estimate, replaced by the velocity
  over the speed when both components are zero, then divided by its length.
\<close>

definition collisionNormal :: "ball \<Rightarrow> mask \<Rightarrow> int \<Rightarrow> int \<Rightarrow> real \<times> real" where
  "collisionNormal ballObj m sampleX sampleY =
     (let (nx0, ny0) = opacityGradient m sampleX sampleY;
          (nx1, ny1) =
            (if nx0 = 0 \<and> ny0 = 0 then
               (let speed = orOne (Math_hypot (ball_vx ballObj) (ball_vy ballObj))
                in (ball_vx ballObj / speed, ball_vy ballObj / speed))
             else (nx0, ny0));
          nLen = orOne (Math_hypot nx1 ny1)
      in (nx1 / nLen, ny1 / nLen))"

definition maskSampleX :: "ball \<Rightarrow> obstacle \<Rightarrow> int" where
  "maskSampleX ballObj obs =
     max 0 (min (mask_width (obs_mask obs) - 1)
       \<lfloor>((ball_x ballObj - obs_left obs) / obs_width obs) * real_of_int (mask_width (obs_mask obs))\<rfloor>)"

definition maskSampleY :: "ball \<Rightarrow> obstacle \<Rightarrow> int" where
  "maskSampleY ballObj obs =
     max 0 (min (mask_height (obs_mask obs) - 1)
       \<lfloor>((ball_y ballObj - obs_top obs) / obs_height obs) * real_of_int (mask_height (obs_mask obs))\<rfloor>)"

text \<open>
  Whether \<open>checkMaskCollision\<close> gets past its early returns: the bounding square meets the
  obstacle, the centre lies inside it, and the sampled alpha is not at or below the
  threshold.
\<close>

definition maskHit :: "params \<Rightarrow> ball \<Rightarrow> obstacle \<Rightarrow> bool" where
  "maskHit p ballObj obs =
     (case obs of
        RectObs l r t b \<Rightarrow> False
      | MaskObs l r t b w h m \<Rightarrow>
          if ball_x ballObj + ballRadius p < l \<or> ball_x ballObj - ballRadius p > r \<or>
             ball_y ballObj + ballRadius p < t \<or> ball_y ballObj - ballRadius p > b then False
          else if ball_x ballObj - l < 0 \<or> ball_y ballObj - t < 0 \<or>
                  ball_x ballObj - l > w \<or> ball_y ballObj - t > h then False
          else (case alphaAt m (maskSampleX ballObj obs) (maskSampleY ballObj obs) of
                  None \<Rightarrow> True
                | Some alpha \<Rightarrow> if alpha \<le> maskAlphaThreshold then False else True))"

definition checkMaskCollision :: "params \<Rightarrow> ball \<Rightarrow> obstacle \<Rightarrow> bool \<times> ball" where
  "checkMaskCollision p ballObj obs =
     (if maskHit p ballObj obs then
        (let (nx, ny) = collisionNormal ballObj (obs_mask obs)
                          (maskSampleX ballObj obs) (maskSampleY ballObj obs);
             vDot = ball_vx ballObj * nx + ball_vy ballObj * ny
         in (True,
             ballObj\<lparr>ball_vx := (ball_vx ballObj - 2 * vDot * nx) * bounceFactor p,
                      ball_vy := (ball_vy ballObj - 2 * vDot * ny) * bounceFactor p,
                      ball_x := (case prevX ballObj of None \<Rightarrow> ball_x ballObj | Some px \<Rightarrow> px),
                      ball_y := (case prevY ballObj of None \<Rightarrow> ball_y ballObj | Some py \<Rightarrow> py)\<rparr>))
      else (False, ballObj))"

section \<open>Obstacle provider\<close>

text \<open>
  A layout box as \<open>getBoundingClientRect\<close> returns it (a \<open>DOMRect\<close>): origin and size,
  with the four edges derived from them.
\<close>

record domrect =
  rect_x :: real
  rect_y :: real
  rect_width :: real
  rect_height :: real

definition rect_left :: "domrect \<Rightarrow> real" where
  "rect_left r = min (rect_x r) (rect_x r + rect_width r)"

definition rect_right :: "domrect \<Rightarrow> real" where
  "rect_right r = max (rect_x r) (rect_x r + rect_width r)"

definition rect_top :: "domrect \<Rightarrow> real" where
  "rect_top r = min (rect_y r) (rect_y r + rect_height r)"

definition rect_bottom :: "domrect \<Rightarrow> real" where
  "rect_bottom r = max (rect_y r) (rect_y r + rect_height r)"

definition insetX :: "domrect \<Rightarrow> real" where
  "insetX rect = min 10 (rect_width rect * 0.08)"

definition insetY :: "domrect \<Rightarrow> real" where
  "insetY rect = min 10 (rect_height rect * 0.12)"

text \<open>
  The callback that \<open>getObstacles\<close> runs on each element marked \<open>data-ball-obstacle\<close>:
  \<open>None\<close> where it returns without pushing. The portfolio script adds \<open>window.scrollY\<close>
  to the vertical edges; the spatial script uses viewport coordinates, which is the same
  callback with a scroll offset of zero.
\<close>

definition rectObstacle :: "real \<Rightarrow> domrect \<Rightarrow> obstacle option" where
  "rectObstacle scrollY rect =
     (if rect_width rect < 6 \<or> rect_height rect < 6 then None
      else
        (let left = rect_left rect + insetX rect;
             right = rect_right rect - insetX rect;
             top = rect_top rect + scrollY + insetY rect;
             bottom = rect_bottom rect + scrollY - insetY rect
         in if right - left < 4 \<or> bottom - top < 4 then None
            else Some (RectObs left right top bottom)))"

text \<open>
  An image marked \<open>data-ball-mask\<close>: its layout box and what \<open>getMaskData\<close> returns for it
  (\<open>None\<close> while the image has not loaded or has no natural size). The cache of alpha maps
  is not modelled.
\<close>

record maskElement =
  me_rect :: domrect
  me_mask :: "mask option"

definition maskObstacle :: "maskElement \<Rightarrow> obstacle option" where
  "maskObstacle el =
     (let rect = me_rect el
      in if rect_width rect < 6 \<or> rect_height rect < 6 then None
         else (case me_mask el of
                 None \<Rightarrow> None
               | Some m \<Rightarrow> Some (MaskObs (rect_left rect) (rect_right rect) (rect_top rect)
                             (rect_bottom rect) (rect_width rect) (rect_height rect) m)))"

definition getObstacles :: "real \<Rightarrow> domrect list \<Rightarrow> obstacle list" where
  "getObstacles scrollY els = List.map_filter (rectObstacle scrollY) els"

definition getObstacles_spatial :: "domrect list \<Rightarrow> maskElement list \<Rightarrow> obstacle list" where
  "getObstacles_spatial els maskEls =
     List.map_filter (rectObstacle 0) els @ List.map_filter maskObstacle maskEls"

section \<open>Module state, cleanup and spawning\<close>

text \<open>
  The module-level variables of a script. \<open>attached\<close> lists the ball elements that
  are children of the ball container, \<open>nextElement\<close> numbers the elements that
  \<open>document.createElement\<close> hands out, and \<open>frameRequested\<close> says whether a
  \<open>requestAnimationFrame(animateAll)\<close> callback is pending.
\<close>

record state =
  balls :: "ball list"
  attached :: "nat list"
  nextElement :: nat
  animating :: bool
  lastTime :: real
  frameRequested :: bool

text \<open>
  The spatial script also keeps the cached obstacle list and its time stamp.
  \<open>pendingRemovals\<close> collects the elements whose removal from the DOM was handed to
  \<open>setTimeout\<close> (the fade-out of a ball that left the screen or came to rest).
\<close>

record spatial_state = state +
  obstacleCache :: "obstacle list"
  obstacleCacheTime :: real
  pendingRemovals :: "nat list"

definition createBall :: "'a state_scheme \<Rightarrow> nat \<times> 'a state_scheme" where
  "createBall s =
     (nextElement s, s\<lparr>attached := attached s @ [nextElement s], nextElement := nextElement s + 1\<rparr>)"

text \<open>
  \<open>cleanupBalls\<close>: while more than \<open>maxBalls\<close> balls are tracked, shift the oldest off
  the array and remove its element if it is attached.
\<close>

function cleanupBalls :: "params \<Rightarrow> 'a state_scheme \<Rightarrow> 'a state_scheme" where
  "cleanupBalls p s =
     (if length (balls s) > maxBalls p then
        (case balls s of
           [] \<Rightarrow> s
         | oldBall # rest \<Rightarrow>
             cleanupBalls p (s\<lparr>balls := rest, attached := removeAll (element oldBall) (attached s)\<rparr>))
      else s)"
  by pat_completeness auto
termination
  by (relation "measure (\<lambda>(p, s). length (balls s))") auto

declare cleanupBalls.simps [simp del]

text \<open>
  The click handler of the portfolio script. \<open>onLink\<close> is whether the click landed on a
  nested link or button, \<open>rnd\<close> the value \<open>Math.random()\<close> returns.
\<close>

definition heroClick :: "bool \<Rightarrow> real \<Rightarrow> real \<Rightarrow> real \<Rightarrow> real \<Rightarrow> state \<Rightarrow> state" where
  "heroClick onLink clientX clientY scrollY rnd s =
     (if onLink then s
      else
        (let s1 = cleanupBalls portfolio s;
             (e, s2) = createBall s1;
             ballObj = \<lparr> element = e, ball_x = clientX, ball_y = clientY + scrollY,
                         ball_vx = (rnd - 0.5) * 6, ball_vy = 2, active = True,
                         prevX = None, prevY = None, restingStartTime = None \<rparr>;
             s3 = s2\<lparr>balls := balls s2 @ [ballObj]\<rparr>
         in if animating s3 then s3 else s3\<lparr>animating := True, frameRequested := True\<rparr>))"

text \<open>
  \<open>spawnBall(x, y, vx, vy, variant)\<close> of the spatial script; \<open>rnd1\<close> and \<open>rnd2\<close> are the
  two random draws that jitter the velocity. The variant only picks a CSS class.
\<close>

definition spawnBall ::
  "real \<Rightarrow> real \<Rightarrow> real \<Rightarrow> real \<Rightarrow> real \<Rightarrow> real \<Rightarrow> spatial_state \<Rightarrow> ball \<times> spatial_state" where
  "spawnBall x y vx vy rnd1 rnd2 s =
     (let s1 = cleanupBalls spatial s;
          (e, s2) = createBall s1;
          ballObj = \<lparr> element = e, ball_x = x, ball_y = y,
                      ball_vx = vx + (rnd1 - 0.5) * 6, ball_vy = vy + (rnd2 - 0.5) * 4,
                      active = True, prevX = None, prevY = None, restingStartTime = None \<rparr>;
          s3 = s2\<lparr>balls := balls s2 @ [ballObj]\<rparr>
      in (ballObj, if animating s3 then s3 else s3\<lparr>animating := True, frameRequested := True\<rparr>))"

section \<open>The physics step\<close>

text \<open>The normalised time delta, from the stored time stamp and the frame's time stamp.\<close>

definition deltaTimeOf :: "real \<Rightarrow> real \<Rightarrow> real" where
  "deltaTimeOf lastT currentTime =
     (let lastT' = (if lastT = 0 then currentTime else lastT)
      in min ((currentTime - lastT') / 16.67) 2)"

text \<open>\<open>Math.pow\<close> on a positive base, which is all the step passes to it.\<close>

definition Math_pow :: "real \<Rightarrow> real \<Rightarrow> real" where
  "Math_pow b e = (if e = 0 then 1 else b powr e)"

text \<open>First loop of the portfolio script: gravity, air resistance, clamp, position.\<close>

definition applyForces :: "params \<Rightarrow> real \<Rightarrow> ball \<Rightarrow> ball" where
  "applyForces p deltaTime ballObj =
     (if active ballObj then
        (let b1 = ballObj\<lparr>ball_vy := ball_vy ballObj + gravity p * deltaTime\<rparr>;
             b2 = b1\<lparr>ball_vx := ball_vx b1 * Math_pow (airResistance p) deltaTime,
                     ball_vy := ball_vy b1 * Math_pow (airResistance p) deltaTime\<rparr>;
             b3 = clampVelocity p b2
         in b3\<lparr>ball_x := ball_x b3 + ball_vx b3 * deltaTime,
                ball_y := ball_y b3 + ball_vy b3 * deltaTime\<rparr>)
      else ballObj)"

text \<open>
  First loop of the spatial script: it records the previous position and applies the
  cursor magnetism before gravity.
\<close>

definition applyForces_spatial :: "params \<Rightarrow> real \<Rightarrow> real \<Rightarrow> real \<Rightarrow> ball \<Rightarrow> ball" where
  "applyForces_spatial p mouseX mouseY deltaTime ballObj =
     (if active ballObj then
        (let b0 = ballObj\<lparr>prevX := Some (ball_x ballObj), prevY := Some (ball_y ballObj)\<rparr>;
             bm = applyCursorMagnetism mouseX mouseY b0;
             b1 = bm\<lparr>ball_vy := ball_vy bm + gravity p * deltaTime\<rparr>;
             b2 = b1\<lparr>ball_vx := ball_vx b1 * Math_pow (airResistance p) deltaTime,
                     ball_vy := ball_vy b1 * Math_pow (airResistance p) deltaTime\<rparr>;
             b3 = clampVelocity p b2
         in b3\<lparr>ball_x := ball_x b3 + ball_vx b3 * deltaTime,
                ball_y := ball_y b3 + ball_vy b3 * deltaTime\<rparr>)
      else ballObj)"

text \<open>Second loop: every obstacle in turn, each check working on the ball the previous left.\<close>

fun collideObstacles :: "params \<Rightarrow> obstacle list \<Rightarrow> ball \<Rightarrow> ball" where
  "collideObstacles p [] ballObj = ballObj"
| "collideObstacles p (obs # rest) ballObj =
     collideObstacles p rest (snd (checkRectCollision p ballObj obs))"

fun collideObstacles_spatial :: "params \<Rightarrow> obstacle list \<Rightarrow> ball \<Rightarrow> ball" where
  "collideObstacles_spatial p [] ballObj = ballObj"
| "collideObstacles_spatial p (obs # rest) ballObj =
     collideObstacles_spatial p rest
       (case obs of
          RectObs l r t b \<Rightarrow> snd (checkRectCollision p ballObj obs)
        | MaskObs l r t b w h m \<Rightarrow> snd (checkMaskCollision p ballObj obs))"

definition obstaclePass :: "params \<Rightarrow> obstacle list \<Rightarrow> ball \<Rightarrow> ball" where
  "obstaclePass p obstacles ballObj =
     (if active ballObj then collideObstacles p obstacles ballObj else ballObj)"

definition obstaclePass_spatial :: "params \<Rightarrow> obstacle list \<Rightarrow> ball \<Rightarrow> ball" where
  "obstaclePass_spatial p obstacles ballObj =
     (if active ballObj then collideObstacles_spatial p obstacles ballObj else ballObj)"

text \<open>
  Third loop: every unordered pair of active balls. \<open>collideWith p a bs\<close> is the inner
  loop, ball \<open>a\<close> against each later ball in array order; \<open>collidePairs\<close> is the outer loop.
\<close>

fun collideWith :: "params \<Rightarrow> ball \<Rightarrow> ball list \<Rightarrow> ball \<times> ball list" where
  "collideWith p a [] = (a, [])"
| "collideWith p a (b # bs) =
     (if active b then
        (let (a1, b1) = resolveBallCollision p a b;
             (a2, bs') = collideWith p a1 bs
         in (a2, b1 # bs'))
      else
        (let (a2, bs') = collideWith p a bs
         in (a2, b # bs')))"

lemma collideWith_length: "length (snd (collideWith p a bs)) = length bs"
  by (induction bs arbitrary: a) (simp_all add: split_beta Let_def)

function collidePairs :: "params \<Rightarrow> ball list \<Rightarrow> ball list" where
  "collidePairs p [] = []"
| "collidePairs p (a # bs) =
     (if active a then
        (let (a', bs') = collideWith p a bs
         in a' # collidePairs p bs')
      else a # collidePairs p bs)"
  by pat_completeness auto
termination
proof (relation "measure (\<lambda>(p, bs). length bs)")
  show "wf (measure (\<lambda>(p, bs). length bs))" by simp
next
  fix p a bs x xa y
  assume "x = collideWith p a bs" and "(xa, y) = x"
  then have "y = snd (collideWith p a bs)" by (metis snd_conv)
  then show "((p, y), (p, a # bs)) \<in> measure (\<lambda>(p, bs). length bs)"
    by (simp add: collideWith_length)
next
  fix p a bs
  show "((p, bs), (p, a # bs)) \<in> measure (\<lambda>(p, bs). length bs)" by simp
qed

text \<open>
  What a frame reads from the page: the layout boxes of the elements marked as obstacles
  and masks, the scroll offset, the extent that bounds the balls (the document's client
  width and scroll height in the portfolio script, the window's inner size in the spatial
  script) and the smoothed cursor position.
\<close>

record page =
  obstacleElements :: "domrect list"
  maskElements :: "maskElement list"
  windowScrollY :: real
  docWidth :: real
  docHeight :: real
  cursorX :: real
  cursorY :: real

text \<open>
  The wall checks of the fourth loop: left wall, right wall and ceiling, in this order.
  \<open>ceilingY\<close> is \<open>window.scrollY\<close> in the portfolio script and zero in the spatial
  script.
\<close>

definition leftWall :: "params \<Rightarrow> ball \<Rightarrow> ball" where
  "leftWall p ballObj =
     (if ball_x ballObj - ballRadius p < 0 then
        (let b = ballObj\<lparr>ball_x := ballRadius p,
                          ball_vx := \<bar>ball_vx ballObj\<bar> * bounceFactor p\<rparr>
         in if \<bar>ball_vx b\<bar> < stopVelocity p then b\<lparr>ball_vx := 0\<rparr> else b)
      else ballObj)"

definition rightWall :: "params \<Rightarrow> real \<Rightarrow> ball \<Rightarrow> ball" where
  "rightWall p width ballObj =
     (if ball_x ballObj + ballRadius p > width then
        (let b = ballObj\<lparr>ball_x := width - ballRadius p,
                          ball_vx := - \<bar>ball_vx ballObj\<bar> * bounceFactor p\<rparr>
         in if \<bar>ball_vx b\<bar> < stopVelocity p then b\<lparr>ball_vx := 0\<rparr> else b)
      else ballObj)"

definition ceilingWall :: "params \<Rightarrow> real \<Rightarrow> ball \<Rightarrow> ball" where
  "ceilingWall p ceilingY ballObj =
     (if ball_y ballObj - ballRadius p < ceilingY then
        (let b = ballObj\<lparr>ball_y := ceilingY + ballRadius p,
                          ball_vy := \<bar>ball_vy ballObj\<bar> * bounceFactor p\<rparr>
         in if \<bar>ball_vy b\<bar> < stopVelocity p then b\<lparr>ball_vy := 0\<rparr> else b)
      else ballObj)"

definition bounceWalls :: "params \<Rightarrow> real \<Rightarrow> real \<Rightarrow> ball \<Rightarrow> ball" where
  "bounceWalls p width ceilingY ballObj =
     ceilingWall p ceilingY (rightWall p width (leftWall p ballObj))"

text \<open>
  Fourth loop of the portfolio script, for one ball: walls and ceiling, then the ball is
  deactivated and its element removed once it is more than 50px below the document.
\<close>

definition wallStep :: "params \<Rightarrow> page \<Rightarrow> ball \<Rightarrow> nat list \<Rightarrow> ball \<times> nat list" where
  "wallStep p pg ballObj d =
     (if active ballObj then
        (let b3 = bounceWalls p (docWidth pg) (windowScrollY pg) ballObj
         in if ball_y b3 - ballRadius p > docHeight pg + 50
            then (b3\<lparr>active := False\<rparr>, removeAll (element b3) d)
            else (b3, d))
      else (ballObj, d))"

fun wallPass :: "params \<Rightarrow> page \<Rightarrow> ball list \<Rightarrow> nat list \<Rightarrow> ball list \<times> nat list" where
  "wallPass p pg [] d = ([], d)"
| "wallPass p pg (ballObj # rest) d =
     (let (b', d') = wallStep p pg ballObj d;
          (rest', d'') = wallPass p pg rest d'
      in (b' # rest', d''))"

text \<open>
  Fourth loop of the spatial script, for one ball: walls and ceiling, removal 200px below
  the viewport, a bouncing floor, and the three-second rest timeout. The element of a
  deactivated ball is removed by a timer, recorded in the list of pending removals. A
  \<open>restingStartTime\<close> that is \<open>undefined\<close>, \<open>null\<close> or zero counts as not set.
\<close>

definition floorStep :: "params \<Rightarrow> page \<Rightarrow> real \<Rightarrow> ball \<Rightarrow> nat list \<Rightarrow> ball \<times> nat list" where
  "floorStep p pg currentTime b3 pend =
     (if ball_y b3 + ballRadius p > docHeight pg then
        (let b4 = b3\<lparr>ball_y := docHeight pg - ballRadius p,
                      ball_vy := - \<bar>ball_vy b3\<bar> * bounceFactor p\<rparr>;
             b5 = (if \<bar>ball_vy b4\<bar> < stopVelocity p then b4\<lparr>ball_vy := 0\<rparr> else b4)
         in if \<bar>ball_vx b5\<bar> < stopVelocity p \<and> \<bar>ball_vy b5\<bar> < stopVelocity p then
              (case restingStartTime b5 of
                 None \<Rightarrow> (b5\<lparr>restingStartTime := Some currentTime\<rparr>, pend)
               | Some t0 \<Rightarrow>
                   if t0 = 0 then (b5\<lparr>restingStartTime := Some currentTime\<rparr>, pend)
                   else if currentTime - t0 > 3000
                     then (b5\<lparr>active := False\<rparr>, pend @ [element b5])
                     else (b5, pend))
            else (b5\<lparr>restingStartTime := None\<rparr>, pend))
      else (b3\<lparr>restingStartTime := None\<rparr>, pend))"

definition wallStep_spatial ::
  "params \<Rightarrow> page \<Rightarrow> real \<Rightarrow> ball \<Rightarrow> nat list \<Rightarrow> ball \<times> nat list" where
  "wallStep_spatial p pg currentTime ballObj pend =
     (if active ballObj then
        (let b3 = bounceWalls p (docWidth pg) 0 ballObj
         in if ball_y b3 > docHeight pg + 200
            then (b3\<lparr>active := False\<rparr>, pend @ [element b3])
            else floorStep p pg currentTime b3 pend)
      else (ballObj, pend))"

fun wallPass_spatial ::
  "params \<Rightarrow> page \<Rightarrow> real \<Rightarrow> ball list \<Rightarrow> nat list \<Rightarrow> ball list \<times> nat list" where
  "wallPass_spatial p pg currentTime [] pend = ([], pend)"
| "wallPass_spatial p pg currentTime (ballObj # rest) pend =
     (let (b', pend') = wallStep_spatial p pg currentTime ballObj pend;
          (rest', pend'') = wallPass_spatial p pg currentTime rest pend'
      in (b' # rest', pend''))"

text \<open>
  The balls as the pair loop receives them: after the force loop and the obstacle loop.
\<close>

definition ballsBeforePairs :: "page \<Rightarrow> real \<Rightarrow> state \<Rightarrow> ball list" where
  "ballsBeforePairs pg currentTime s =
     map (obstaclePass portfolio (getObstacles (windowScrollY pg) (obstacleElements pg)))
       (map (applyForces portfolio (deltaTimeOf (lastTime s) currentTime)) (balls s))"

text \<open>
  \<open>animateAll(currentTime)\<close> of the portfolio script, run by the host for a pending frame
  request. The result's \<open>frameRequested\<close> says whether it asked for another frame.
\<close>

definition animateAll :: "page \<Rightarrow> real \<Rightarrow> state \<Rightarrow> state" where
  "animateAll pg currentTime s =
     (if balls s = [] then s\<lparr>animating := False, lastTime := 0, frameRequested := False\<rparr>
      else
        (let bs3 = collidePairs portfolio (ballsBeforePairs pg currentTime s);
             (bs4, d4) = wallPass portfolio pg bs3 (attached s);
             bs5 = filter active bs4;
             s' = s\<lparr>balls := bs5, attached := d4, lastTime := currentTime\<rparr>
         in if list_ex active bs5 then s'\<lparr>frameRequested := True\<rparr>
            else s'\<lparr>animating := False, frameRequested := False\<rparr>))"

definition obstacleCacheDuration :: real where "obstacleCacheDuration = 100"

text \<open>The obstacle list a frame of the spatial script works with, refreshed when stale.\<close>

definition refreshObstacles :: "page \<Rightarrow> real \<Rightarrow> spatial_state \<Rightarrow> spatial_state" where
  "refreshObstacles pg currentTime s =
     (if currentTime - obstacleCacheTime s > obstacleCacheDuration
      then s\<lparr>obstacleCache := getObstacles_spatial (obstacleElements pg) (maskElements pg),
              obstacleCacheTime := currentTime\<rparr>
      else s)"

definition ballsBeforePairs_spatial :: "page \<Rightarrow> real \<Rightarrow> spatial_state \<Rightarrow> ball list" where
  "ballsBeforePairs_spatial pg currentTime s =
     map (obstaclePass_spatial spatial (obstacleCache (refreshObstacles pg currentTime s)))
       (map (applyForces_spatial spatial (cursorX pg) (cursorY pg)
               (deltaTimeOf (lastTime s) currentTime)) (balls s))"

definition animateAll_spatial :: "page \<Rightarrow> real \<Rightarrow> spatial_state \<Rightarrow> spatial_state" where
  "animateAll_spatial pg currentTime s =
     (if balls s = [] then s\<lparr>animating := False, lastTime := 0, frameRequested := False\<rparr>
      else
        (let s1 = refreshObstacles pg currentTime s;
             bs3 = collidePairs spatial (ballsBeforePairs_spatial pg currentTime s);
             (bs4, pend) = wallPass_spatial spatial pg currentTime bs3 (pendingRemovals s);
             bs5 = filter active bs4;
             s' = s1\<lparr>balls := bs5, lastTime := currentTime, pendingRemovals := pend\<rparr>
         in if list_ex active bs5 then s'\<lparr>frameRequested := True\<rparr>
            else s'\<lparr>animating := False, frameRequested := False\<rparr>))"

section \<open>Reveal on scroll\<close>

text \<open>
  The elements carrying the class \<open>revealed\<close> and the elements the intersection observer
  is observing. The observer can deliver an entry only for an element it observes.
\<close>

record reveal_state =
  revealed :: "nat set"
  observed :: "nat set"

text \<open>
  Initialisation: every \<open>data-reveal\<close> element is observed; with the reduced-motion
  preference every one of them gets the class at once.
\<close>

definition initReveal :: "bool \<Rightarrow> nat list \<Rightarrow> reveal_state" where
  "initReveal reducedMotion reveals =
     \<lparr> revealed = (if reducedMotion then set reveals else {}), observed = set reveals \<rparr>"

text \<open>The observer callback on a batch of entries (target, \<open>isIntersecting\<close>).\<close>

fun revealCallback :: "(nat \<times> bool) list \<Rightarrow> reveal_state \<Rightarrow> reveal_state" where
  "revealCallback [] st = st"
| "revealCallback ((target, isIntersecting) # entries) st =
     revealCallback entries
       (if isIntersecting
        then st\<lparr>revealed := insert target (revealed st), observed := observed st - {target}\<rparr>
        else st)"

text \<open>A one-pixel opaque alpha map for the examples below.\<close>

definition opaquePixel :: mask where
  "opaquePixel = \<lparr> mask_data = [0, 0, 0, 255], mask_width = 1, mask_height = 1 \<rparr>"

text \<open>
  The distance from a ball to the cursor (\<open>distance\<close> in \<open>applyCursorMagnetism\<close>) and the
  magnitude of the change between two velocities, used to state the force applied.
\<close>

definition cursorDistance :: "real \<Rightarrow> real \<Rightarrow> ball \<Rightarrow> real" where
  "cursorDistance mx my b = sqrt ((mx - ball_x b) * (mx - ball_x b) + (my - ball_y b) * (my - ball_y b))"

definition velocityChange :: "ball \<Rightarrow> ball \<Rightarrow> real" where
  "velocityChange b b' =
     sqrt ((ball_vx b' - ball_vx b) * (ball_vx b' - ball_vx b) + (ball_vy b' - ball_vy b) * (ball_vy b' - ball_vy b))"

text \<open>
  The obstacle provider in the words of its contract: an element is kept when its layout
  box is at least 6px wide and 6px high, and its bounds are the box inset by
  \<open>min(10, 8% of the width)\<close> on the left and right and \<open>min(10, 12% of the height)\<close>
  above and below (shifted by the scroll offset).
\<close>

definition insetBox :: "real \<Rightarrow> domrect \<Rightarrow> obstacle" where
  "insetBox scrollY rect =
     RectObs (rect_x rect + insetX rect) (rect_x rect + rect_width rect - insetX rect)
       (rect_y rect + scrollY + insetY rect) (rect_y rect + rect_height rect + scrollY - insetY rect)"

definition bigEnough :: "domrect \<Rightarrow> bool" where
  "bigEnough rect = (6 \<le> rect_width rect \<and> 6 \<le> rect_height rect)"

text \<open>A layout box for the examples below.\<close>

definition box :: "real \<Rightarrow> real \<Rightarrow> real \<Rightarrow> real \<Rightarrow> domrect" where
  "box x y w h = \<lparr> rect_x = x, rect_y = y, rect_width = w, rect_height = h \<rparr>"

text \<open>
  States with exactly \<open>maxBalls\<close> tracked balls, each with its element attached, for the
  examples below.
\<close>

definition trackedBalls :: "nat \<Rightarrow> ball list" where
  "trackedBalls n = map (\<lambda>i. mkBall i 100 100 0 0) [0..<n]"

definition capState :: state where
  "capState = \<lparr> balls = trackedBalls 20, attached = [0..<20], nextElement = 20, animating = True,
     lastTime = 1000, frameRequested = True \<rparr>"

definition capState_spatial :: spatial_state where
  "capState_spatial = \<lparr> balls = trackedBalls 15, attached = [0..<15], nextElement = 15, animating = True,
     lastTime = 1000, frameRequested = True, obstacleCache = [], obstacleCacheTime = 0,
     pendingRemovals = [] \<rparr>"

text \<open>
  A page without obstacles, 800 wide and 1000 high, and states whose only ball is about
  to leave it (50px below the document in the portfolio script, 200px below the viewport
  in the spatial script), for the examples below.
\<close>

definition plainPage :: page where
  "plainPage = \<lparr> obstacleElements = [], maskElements = [], windowScrollY = 0, docWidth = 800,
     docHeight = 1000, cursorX = 0, cursorY = 0 \<rparr>"

definition lastBallState :: state where
  "lastBallState = \<lparr> balls = [mkBall 0 400 1058 0 5], attached = [0], nextElement = 1, animating = True,
     lastTime = 1000, frameRequested = False \<rparr>"

definition lastBallState_spatial :: spatial_state where
  "lastBallState_spatial = \<lparr> balls = [mkBall 0 400 1198 0 5], attached = [0], nextElement = 1,
     animating = True, lastTime = 1000, frameRequested = False, obstacleCache = [],
     obstacleCacheTime = 950, pendingRemovals = [] \<rparr>"

text \<open>
  What a bounce can do to a velocity component: leave it, replace it by plus or minus its
  magnitude times the bounce factor, or snap it to zero.
\<close>

definition damped :: "params \<Rightarrow> real \<Rightarrow> real \<Rightarrow> bool" where
  "damped p v v' = (v' = v \<or> v' = \<bar>v\<bar> * bounceFactor p \<or> v' = - \<bar>v\<bar> * bounceFactor p \<or> v' = 0)"

text \<open>
  A state for the examples of the speed bound: two portfolio balls, both slower than the
  maximum, that overlap and approach each other after the next frame's motion.
\<close>

definition collidingState :: state where
  "collidingState = \<lparr> balls = [mkBall 0 100 900 18 20, mkBall 1 133.856 891.072 0 29], attached = [0, 1],
     nextElement = 2, animating = True, lastTime = 1000, frameRequested = False \<rparr>"

text \<open>
  No two active balls of a list overlap: every active ball is at least two radii away
  from every later active ball.
\<close>

fun noOverlap :: "params \<Rightarrow> ball list \<Rightarrow> bool" where
  "noOverlap p [] = True"
| "noOverlap p (a # bs) =
     ((if active a
       then list_all (\<lambda>b. if active b then ballRadius p * 2 \<le> centerDistance a b else True) bs
       else True)
      \<and> noOverlap p bs)"

text \<open>
  The quantities \<open>resolveBallCollision\<close> computes for a pair, under the names the source
  gives them: the distance with its fallback (\<open>dist\<close>), the collision normal
  (\<open>nx\<close>, \<open>ny\<close>), the relative velocity along it (\<open>velAlongNormal\<close>) and the impulse,
  which is zero where the source returns early for a separating pair.
\<close>

definition pairDist :: "ball \<Rightarrow> ball \<Rightarrow> real" where
  "pairDist a b = (if centerDistance a b = 0 then 0.01 else centerDistance a b)"

definition normalX :: "ball \<Rightarrow> ball \<Rightarrow> real" where
  "normalX a b = (ball_x b - ball_x a) / pairDist a b"

definition normalY :: "ball \<Rightarrow> ball \<Rightarrow> real" where
  "normalY a b = (ball_y b - ball_y a) / pairDist a b"

definition velAlongNormal :: "ball \<Rightarrow> ball \<Rightarrow> real" where
  "velAlongNormal a b =
     (ball_vx b - ball_vx a) * normalX a b + (ball_vy b - ball_vy a) * normalY a b"

definition impulseOf :: "params \<Rightarrow> ball \<Rightarrow> ball \<Rightarrow> real" where
  "impulseOf p a b =
     (if velAlongNormal a b > 0 then 0
      else - (1 + ballBounceFactor p) * velAlongNormal a b / 2)"

text \<open>
  The balls of a step after its pair loop and after its wall loop (before the inactive
  ones are spliced out), in array order.
\<close>

definition ballsAfterPairs :: "page \<Rightarrow> real \<Rightarrow> state \<Rightarrow> ball list" where
  "ballsAfterPairs pg currentTime s = collidePairs portfolio (ballsBeforePairs pg currentTime s)"

definition ballsAfterWalls :: "page \<Rightarrow> real \<Rightarrow> state \<Rightarrow> ball list" where
  "ballsAfterWalls pg currentTime s =
     fst (wallPass portfolio pg (ballsAfterPairs pg currentTime s) (attached s))"

definition ballsAfterPairs_spatial :: "page \<Rightarrow> real \<Rightarrow> spatial_state \<Rightarrow> ball list" where
  "ballsAfterPairs_spatial pg currentTime s =
     collidePairs spatial (ballsBeforePairs_spatial pg currentTime s)"

definition ballsAfterWalls_spatial :: "page \<Rightarrow> real \<Rightarrow> spatial_state \<Rightarrow> ball list" where
  "ballsAfterWalls_spatial pg currentTime s =
     fst (wallPass_spatial spatial pg currentTime (ballsAfterPairs_spatial pg currentTime s)
            (pendingRemovals s))"

text \<open>
  States for the examples of the speed bound in which both the clamp and the pair loop
  act: a ball falling faster than the maximum right below a slower one, so that after the
  frame's motion the two overlap while moving apart.
\<close>

definition fallingPairState :: state where
  "fallingPairState = \<lparr> balls = [mkBall 0 400 500 0 40, mkBall 1 400 504.4848 0 10],
     attached = [0, 1], nextElement = 2, animating = True, lastTime = 1000,
     frameRequested = False \<rparr>"

definition fallingPairState_spatial :: spatial_state where
  "fallingPairState_spatial = \<lparr> balls = [mkBall 0 400 500 0 50, mkBall 1 400 509.3535 0 10],
     attached = [0, 1], nextElement = 2, animating = True, lastTime = 1000,
     frameRequested = False, obstacleCache = [], obstacleCacheTime = 1000,
     pendingRemovals = [] \<rparr>"

section \<open>Properties of ball-ball collision\<close>

text \<open>Helper facts: square roots of the squares used in the examples, and the norm of a scaled vector.\<close>

lemma sqrt_256: "sqrt 256 = 16"
  by (rule real_sqrt_unique) simp_all

lemma sqrt_900: "sqrt 900 = 30"
  by (rule real_sqrt_unique) simp_all

lemma scaled_norm:
  fixes dx dy k :: real
  shows "sqrt ((dx * k) * (dx * k) + (dy * k) * (dy * k)) = sqrt (dx * dx + dy * dy) * \<bar>k\<bar>"
proof -
  have "(dx * k) * (dx * k) + (dy * k) * (dy * k) = (dx * dx + dy * dy) * (k * k)"
    by (simp add: algebra_simps)
  then show ?thesis by (simp add: real_sqrt_mult)
qed

lemma resolve_positions:
  assumes "0 < centerDistance a b" "centerDistance a b < ballRadius p * 2"
  shows "ball_x (fst (resolveBallCollision p a b)) =
           ball_x a - (ball_x b - ball_x a) / centerDistance a b * ((ballRadius p * 2 - centerDistance a b) / 2)"
    and "ball_y (fst (resolveBallCollision p a b)) =
           ball_y a - (ball_y b - ball_y a) / centerDistance a b * ((ballRadius p * 2 - centerDistance a b) / 2)"
    and "ball_x (snd (resolveBallCollision p a b)) =
           ball_x b + (ball_x b - ball_x a) / centerDistance a b * ((ballRadius p * 2 - centerDistance a b) / 2)"
    and "ball_y (snd (resolveBallCollision p a b)) =
           ball_y b + (ball_y b - ball_y a) / centerDistance a b * ((ballRadius p * 2 - centerDistance a b) / 2)"
  using assms unfolding resolveBallCollision_def centerDistance_def Let_def
  by simp_all

lemma coincident_centers:
  assumes "centerDistance a b = 0"
  shows "ball_x b = ball_x a" and "ball_y b = ball_y a"
proof -
  have "(ball_x b - ball_x a) * (ball_x b - ball_x a) + (ball_y b - ball_y a) * (ball_y b - ball_y a) = 0"
    using assms by (simp add: centerDistance_def)
  then have "ball_x b - ball_x a = 0 \<and> ball_y b - ball_y a = 0"
    by (simp add: sum_squares_eq_zero_iff)
  then show "ball_x b = ball_x a" and "ball_y b = ball_y a" by simp_all
qed

lemma resolve_positions_coincident:
  assumes "centerDistance a b = 0"
  shows "ball_x (fst (resolveBallCollision p a b)) = ball_x a"
    and "ball_y (fst (resolveBallCollision p a b)) = ball_y a"
    and "ball_x (snd (resolveBallCollision p a b)) = ball_x b"
    and "ball_y (snd (resolveBallCollision p a b)) = ball_y b"
  using coincident_centers[OF assms]
  unfolding resolveBallCollision_def Let_def
  by simp_all

text \<open>
  Claim C3, as amended. For two balls whose centres are a positive distance apart that
  is less than two radii, \<open>resolveBallCollision\<close> moves the centres in opposite
  directions, each by half the overlap, and the distance between the centres afterwards
  is two radii. When the centres coincide, the distance is taken as 0.01, the normal is
  then the zero vector, and neither centre moves: the distance stays zero.
\<close>

theorem resolveBallCollision_separation:
  "(0 < centerDistance a b \<and> centerDistance a b < 2 * ballRadius p \<longrightarrow>
      centerDistance (fst (resolveBallCollision p a b)) (snd (resolveBallCollision p a b))
        = 2 * ballRadius p
      \<and> ball_x a - ball_x (fst (resolveBallCollision p a b))
        = ball_x (snd (resolveBallCollision p a b)) - ball_x b
      \<and> ball_y a - ball_y (fst (resolveBallCollision p a b))
        = ball_y (snd (resolveBallCollision p a b)) - ball_y b
      \<and> centerDistance a (fst (resolveBallCollision p a b))
        = (2 * ballRadius p - centerDistance a b) / 2
      \<and> centerDistance b (snd (resolveBallCollision p a b))
        = (2 * ballRadius p - centerDistance a b) / 2)
   \<and> (centerDistance a b = 0 \<longrightarrow>
      ball_x (fst (resolveBallCollision p a b)) = ball_x a
      \<and> ball_y (fst (resolveBallCollision p a b)) = ball_y a
      \<and> ball_x (snd (resolveBallCollision p a b)) = ball_x b
      \<and> ball_y (snd (resolveBallCollision p a b)) = ball_y b
      \<and> centerDistance (fst (resolveBallCollision p a b)) (snd (resolveBallCollision p a b)) = 0)"
proof (intro conjI impI)
  assume h: "0 < centerDistance a b \<and> centerDistance a b < 2 * ballRadius p"
  define d where "d = centerDistance a b"
  define m where "m = 2 * ballRadius p"
  define dx where "dx = ball_x b - ball_x a"
  define dy where "dy = ball_y b - ball_y a"
  define s where "s = (m - d) / 2"
  have d: "0 < d" "d < m" using h by (simp_all add: d_def m_def)
  have dd: "d = sqrt (dx * dx + dy * dy)" by (simp add: d_def dx_def dy_def centerDistance_def)
  have h': "0 < centerDistance a b" "centerDistance a b < ballRadius p * 2" using h by simp_all
  note pos = resolve_positions[OF h', folded d_def dx_def dy_def,
      unfolded mult.commute[of "ballRadius p" 2], folded m_def s_def]
  have ax: "ball_x (fst (resolveBallCollision p a b)) = ball_x a - dx / d * s" by (rule pos)
  have ay: "ball_y (fst (resolveBallCollision p a b)) = ball_y a - dy / d * s" by (rule pos)
  have bx: "ball_x (snd (resolveBallCollision p a b)) = ball_x b + dx / d * s" by (rule pos)
  have by': "ball_y (snd (resolveBallCollision p a b)) = ball_y b + dy / d * s" by (rule pos)
  have ex: "(ball_x b + dx / d * s) - (ball_x a - dx / d * s) = dx * (m / d)"
    using d by (simp add: s_def dx_def field_simps)
  have ey: "(ball_y b + dy / d * s) - (ball_y a - dy / d * s) = dy * (m / d)"
    using d by (simp add: s_def dy_def field_simps)
  have "centerDistance (fst (resolveBallCollision p a b)) (snd (resolveBallCollision p a b))
          = sqrt ((dx * (m / d)) * (dx * (m / d)) + (dy * (m / d)) * (dy * (m / d)))"
    unfolding centerDistance_def ax ay bx by' ex ey ..
  also have "\<dots> = d * \<bar>m / d\<bar>" unfolding scaled_norm dd ..
  also have "\<dots> = m" using d by simp
  finally show "centerDistance (fst (resolveBallCollision p a b)) (snd (resolveBallCollision p a b))
        = 2 * ballRadius p" by (simp add: m_def)
  show "ball_x a - ball_x (fst (resolveBallCollision p a b))
        = ball_x (snd (resolveBallCollision p a b)) - ball_x b" by (simp add: ax bx)
  show "ball_y a - ball_y (fst (resolveBallCollision p a b))
        = ball_y (snd (resolveBallCollision p a b)) - ball_y b" by (simp add: ay by')
  have s0: "0 \<le> s" using d by (simp add: s_def)
  have "centerDistance a (fst (resolveBallCollision p a b))
          = sqrt ((dx * (- (s / d))) * (dx * (- (s / d))) + (dy * (- (s / d))) * (dy * (- (s / d))))"
    unfolding centerDistance_def ax ay by simp
  also have "\<dots> = d * \<bar>- (s / d)\<bar>" unfolding scaled_norm dd ..
  also have "\<dots> = s" using d s0 by simp
  finally show "centerDistance a (fst (resolveBallCollision p a b))
        = (2 * ballRadius p - centerDistance a b) / 2" by (simp add: s_def m_def d_def)
  have "centerDistance b (snd (resolveBallCollision p a b))
          = sqrt ((dx * (s / d)) * (dx * (s / d)) + (dy * (s / d)) * (dy * (s / d)))"
    unfolding centerDistance_def bx by' by simp
  also have "\<dots> = d * \<bar>s / d\<bar>" unfolding scaled_norm dd ..
  also have "\<dots> = s" using d s0 by simp
  finally show "centerDistance b (snd (resolveBallCollision p a b))
        = (2 * ballRadius p - centerDistance a b) / 2" by (simp add: s_def m_def d_def)
next
  assume z: "centerDistance a b = 0"
  note pos = resolve_positions_coincident[OF z]
  show "ball_x (fst (resolveBallCollision p a b)) = ball_x a" by (rule pos)
  show "ball_y (fst (resolveBallCollision p a b)) = ball_y a" by (rule pos)
  show "ball_x (snd (resolveBallCollision p a b)) = ball_x b" by (rule pos)
  show "ball_y (snd (resolveBallCollision p a b)) = ball_y b" by (rule pos)
  show "centerDistance (fst (resolveBallCollision p a b)) (snd (resolveBallCollision p a b)) = 0"
    using z by (simp add: centerDistance_def pos)
qed

text \<open>
  Witness for C3: two portfolio balls 16px apart end 20px apart; two balls at the same
  point stay where they are.
\<close>

theorem resolveBallCollision_separation_witness:
  "(0 < centerDistance (mkBall 0 0 0 0 0) (mkBall 1 16 0 0 0)
    \<and> centerDistance (mkBall 0 0 0 0 0) (mkBall 1 16 0 0 0) < 2 * ballRadius portfolio
    \<and> centerDistance (fst (resolveBallCollision portfolio (mkBall 0 0 0 0 0) (mkBall 1 16 0 0 0)))
         (snd (resolveBallCollision portfolio (mkBall 0 0 0 0 0) (mkBall 1 16 0 0 0)))
       = 2 * ballRadius portfolio)
   \<and> (centerDistance (mkBall 0 5 5 1 0) (mkBall 1 5 5 0 0) = 0
    \<and> ball_x (fst (resolveBallCollision portfolio (mkBall 0 5 5 1 0) (mkBall 1 5 5 0 0))) = 5
    \<and> ball_x (snd (resolveBallCollision portfolio (mkBall 0 5 5 1 0) (mkBall 1 5 5 0 0))) = 5)"
proof -
  have h1: "0 < centerDistance (mkBall 0 0 0 0 0) (mkBall 1 16 0 0 0)
      \<and> centerDistance (mkBall 0 0 0 0 0) (mkBall 1 16 0 0 0) < 2 * ballRadius portfolio"
    by (simp add: centerDistance_def mkBall_def portfolio_def sqrt_256)
  have h2: "centerDistance (mkBall 0 5 5 1 0) (mkBall 1 5 5 0 0) = 0"
    by (simp add: centerDistance_def mkBall_def)
  have x: "ball_x (mkBall 0 5 5 1 0) = 5" "ball_x (mkBall 1 5 5 0 0) = 5"
    by (simp_all add: mkBall_def)
  show ?thesis
    using h1 h2 x
      resolveBallCollision_separation[of "mkBall 0 0 0 0 0" "mkBall 1 16 0 0 0" portfolio]
      resolveBallCollision_separation[of "mkBall 0 5 5 1 0" "mkBall 1 5 5 0 0" portfolio]
    by simp
qed

text \<open>
  Counterexample for C3 as stated: two balls with the same centre overlap, and after
  \<open>resolveBallCollision\<close> their distance is not two radii.
\<close>

theorem resolveBallCollision_coincident_counterexample:
  "centerDistance (mkBall 0 5 5 1 0) (mkBall 1 5 5 0 0) < 2 * ballRadius portfolio
   \<and> centerDistance (fst (resolveBallCollision portfolio (mkBall 0 5 5 1 0) (mkBall 1 5 5 0 0)))
        (snd (resolveBallCollision portfolio (mkBall 0 5 5 1 0) (mkBall 1 5 5 0 0)))
      \<noteq> 2 * ballRadius portfolio"
  by (simp add: centerDistance_def resolveBallCollision_def Let_def mkBall_def portfolio_def)

text \<open>The velocities after the call, in the terms of the source.\<close>

lemma resolve_folded:
  "resolveBallCollision p a b =
     (if pairDist a b < ballRadius p * 2 then
        (let a1 = a\<lparr>ball_x := ball_x a - normalX a b * ((ballRadius p * 2 - pairDist a b) / 2),
                      ball_y := ball_y a - normalY a b * ((ballRadius p * 2 - pairDist a b) / 2)\<rparr>;
             b1 = b\<lparr>ball_x := ball_x b + normalX a b * ((ballRadius p * 2 - pairDist a b) / 2),
                      ball_y := ball_y b + normalY a b * ((ballRadius p * 2 - pairDist a b) / 2)\<rparr>
         in if velAlongNormal a b > 0 then (a1, b1)
            else (a1\<lparr>ball_vx := ball_vx a - impulseOf p a b * normalX a b,
                       ball_vy := ball_vy a - impulseOf p a b * normalY a b\<rparr>,
                  b1\<lparr>ball_vx := ball_vx b + impulseOf p a b * normalX a b,
                       ball_vy := ball_vy b + impulseOf p a b * normalY a b\<rparr>))
      else (a, b))"
  unfolding resolveBallCollision_def Let_def impulseOf_def velAlongNormal_def normalX_def
    normalY_def pairDist_def centerDistance_def
  by simp

lemma resolve_velocities_conj:
  assumes "pairDist a b < ballRadius p * 2"
  shows "ball_vx (fst (resolveBallCollision p a b)) = ball_vx a - impulseOf p a b * normalX a b
       \<and> ball_vy (fst (resolveBallCollision p a b)) = ball_vy a - impulseOf p a b * normalY a b
       \<and> ball_vx (snd (resolveBallCollision p a b)) = ball_vx b + impulseOf p a b * normalX a b
       \<and> ball_vy (snd (resolveBallCollision p a b)) = ball_vy b + impulseOf p a b * normalY a b"
proof (cases "velAlongNormal a b > 0")
  case True
  then have z: "impulseOf p a b = 0" by (simp add: impulseOf_def)
  show ?thesis
    unfolding resolve_folded Let_def if_P[OF assms] if_P[OF True] z by simp
next
  case False
  show ?thesis
    unfolding resolve_folded Let_def if_P[OF assms] if_not_P[OF False] by simp
qed

lemma resolve_velocities:
  assumes "pairDist a b < 2 * ballRadius p"
  shows "ball_vx (fst (resolveBallCollision p a b)) = ball_vx a - impulseOf p a b * normalX a b"
    and "ball_vy (fst (resolveBallCollision p a b)) = ball_vy a - impulseOf p a b * normalY a b"
    and "ball_vx (snd (resolveBallCollision p a b)) = ball_vx b + impulseOf p a b * normalX a b"
    and "ball_vy (snd (resolveBallCollision p a b)) = ball_vy b + impulseOf p a b * normalY a b"
proof -
  have h: "pairDist a b < ballRadius p * 2" using assms by simp
  note c = resolve_velocities_conj[OF h]
  show "ball_vx (fst (resolveBallCollision p a b)) = ball_vx a - impulseOf p a b * normalX a b"
    and "ball_vy (fst (resolveBallCollision p a b)) = ball_vy a - impulseOf p a b * normalY a b"
    and "ball_vx (snd (resolveBallCollision p a b)) = ball_vx b + impulseOf p a b * normalX a b"
    and "ball_vy (snd (resolveBallCollision p a b)) = ball_vy b + impulseOf p a b * normalY a b"
    using c by blast+
qed

lemma normal_unit:
  assumes "0 < centerDistance a b"
  shows "normalX a b * normalX a b + normalY a b * normalY a b = 1"
proof -
  define d where "d = centerDistance a b"
  define dx where "dx = ball_x b - ball_x a"
  define dy where "dy = ball_y b - ball_y a"
  have d0: "d \<noteq> 0" using assms by (simp add: d_def)
  have dd: "d * d = dx * dx + dy * dy"
    by (simp add: d_def dx_def dy_def centerDistance_def)
  have "normalX a b = dx / d" "normalY a b = dy / d"
    using assms by (simp_all add: normalX_def normalY_def pairDist_def d_def dx_def dy_def)
  then have "normalX a b * normalX a b + normalY a b * normalY a b = (dx * dx + dy * dy) / (d * d)"
    by (simp add: add_divide_distrib)
  also have "\<dots> = 1" using d0 by (simp add: dd[symmetric])
  finally show ?thesis .
qed

text \<open>
  Claim C10. For every pair of overlapping balls, \<open>resolveBallCollision\<close> changes the
  two velocities by opposite amounts along the collision normal: the impulse times the
  normal is subtracted from the velocity of ball \<open>a\<close> and added to the velocity of ball
  \<open>b\<close>, where the impulse is zero for a pair that is already separating and
  \<open>-(1 + ballBounceFactor) * velAlongNormal / 2\<close> otherwise. For an approaching pair with
  distinct centres the relative velocity along the normal is thereby reversed and scaled
  by the ball bounce factor, and the relative velocity across the normal is untouched.
  The sums of the horizontal and of the vertical velocities of the pair are the same
  before and after the call, for every pair, overlapping or not.
\<close>

theorem resolveBallCollision_momentum:
  "(pairDist a b < 2 * ballRadius p \<longrightarrow>
      ball_vx (fst (resolveBallCollision p a b)) = ball_vx a - impulseOf p a b * normalX a b
      \<and> ball_vy (fst (resolveBallCollision p a b)) = ball_vy a - impulseOf p a b * normalY a b
      \<and> ball_vx (snd (resolveBallCollision p a b)) = ball_vx b + impulseOf p a b * normalX a b
      \<and> ball_vy (snd (resolveBallCollision p a b)) = ball_vy b + impulseOf p a b * normalY a b)
   \<and> (pairDist a b < 2 * ballRadius p \<and> 0 < centerDistance a b \<and> velAlongNormal a b \<le> 0 \<longrightarrow>
      (ball_vx (snd (resolveBallCollision p a b)) - ball_vx (fst (resolveBallCollision p a b))) * normalX a b
      + (ball_vy (snd (resolveBallCollision p a b)) - ball_vy (fst (resolveBallCollision p a b))) * normalY a b
        = - ballBounceFactor p * velAlongNormal a b
      \<and> (ball_vx (snd (resolveBallCollision p a b)) - ball_vx (fst (resolveBallCollision p a b))) * normalY a b
        - (ball_vy (snd (resolveBallCollision p a b)) - ball_vy (fst (resolveBallCollision p a b))) * normalX a b
        = (ball_vx b - ball_vx a) * normalY a b - (ball_vy b - ball_vy a) * normalX a b)
   \<and> ball_vx (fst (resolveBallCollision p a b)) + ball_vx (snd (resolveBallCollision p a b))
        = ball_vx a + ball_vx b
   \<and> ball_vy (fst (resolveBallCollision p a b)) + ball_vy (snd (resolveBallCollision p a b))
        = ball_vy a + ball_vy b"
proof (intro conjI impI)
  assume h: "pairDist a b < 2 * ballRadius p"
  note v = resolve_velocities[OF h]
  show "ball_vx (fst (resolveBallCollision p a b)) = ball_vx a - impulseOf p a b * normalX a b" by (rule v)
  show "ball_vy (fst (resolveBallCollision p a b)) = ball_vy a - impulseOf p a b * normalY a b" by (rule v)
  show "ball_vx (snd (resolveBallCollision p a b)) = ball_vx b + impulseOf p a b * normalX a b" by (rule v)
  show "ball_vy (snd (resolveBallCollision p a b)) = ball_vy b + impulseOf p a b * normalY a b" by (rule v)
next
  assume h: "pairDist a b < 2 * ballRadius p \<and> 0 < centerDistance a b \<and> velAlongNormal a b \<le> 0"
  then have h1: "pairDist a b < 2 * ballRadius p" and h2: "0 < centerDistance a b"
    and h3: "velAlongNormal a b \<le> 0" by simp_all
  note v = resolve_velocities[OF h1]
  define nx where "nx = normalX a b"
  define ny where "ny = normalY a b"
  define j where "j = impulseOf p a b"
  define van where "van = velAlongNormal a b"
  have u: "nx * nx + ny * ny = 1" unfolding nx_def ny_def by (rule normal_unit[OF h2])
  have j: "j = - (1 + ballBounceFactor p) * van / 2"
    using h3 by (simp add: j_def impulseOf_def van_def)
  have vn: "van = (ball_vx b - ball_vx a) * nx + (ball_vy b - ball_vy a) * ny"
    by (simp add: van_def velAlongNormal_def nx_def ny_def)
  have "(ball_vx b + j * nx - (ball_vx a - j * nx)) * nx + (ball_vy b + j * ny - (ball_vy a - j * ny)) * ny
      = van + 2 * j * (nx * nx + ny * ny)"
    unfolding vn by (simp add: algebra_simps)
  also have "\<dots> = - ballBounceFactor p * van" unfolding u j by (simp add: field_simps)
  finally show "(ball_vx (snd (resolveBallCollision p a b)) - ball_vx (fst (resolveBallCollision p a b))) * normalX a b
      + (ball_vy (snd (resolveBallCollision p a b)) - ball_vy (fst (resolveBallCollision p a b))) * normalY a b
        = - ballBounceFactor p * velAlongNormal a b"
    unfolding v by (simp only: nx_def[symmetric] ny_def[symmetric] j_def[symmetric] van_def[symmetric])
  have "(ball_vx b + j * nx - (ball_vx a - j * nx)) * ny - (ball_vy b + j * ny - (ball_vy a - j * ny)) * nx
      = (ball_vx b - ball_vx a) * ny - (ball_vy b - ball_vy a) * nx"
    by (simp add: algebra_simps)
  then show "(ball_vx (snd (resolveBallCollision p a b)) - ball_vx (fst (resolveBallCollision p a b))) * normalY a b
        - (ball_vy (snd (resolveBallCollision p a b)) - ball_vy (fst (resolveBallCollision p a b))) * normalX a b
        = (ball_vx b - ball_vx a) * normalY a b - (ball_vy b - ball_vy a) * normalX a b"
    unfolding v by (simp only: nx_def[symmetric] ny_def[symmetric] j_def[symmetric])
next
  show "ball_vx (fst (resolveBallCollision p a b)) + ball_vx (snd (resolveBallCollision p a b))
        = ball_vx a + ball_vx b"
    by (simp add: resolveBallCollision_def Let_def)
  show "ball_vy (fst (resolveBallCollision p a b)) + ball_vy (snd (resolveBallCollision p a b))
        = ball_vy a + ball_vy b"
    by (simp add: resolveBallCollision_def Let_def)
qed

text \<open>
  Witness for C10: two portfolio balls 16px apart on a horizontal line, closing at 3 per
  frame: the impulse is 2.025 along the normal (1, 0), the horizontal velocities go from
  3 and 0 to 0.975 and 2.025, and the vertical velocities are kept.
\<close>

theorem resolveBallCollision_momentum_witness:
  "pairDist (mkBall 0 0 0 3 1) (mkBall 1 16 0 0 2) < 2 * ballRadius portfolio
   \<and> 0 < centerDistance (mkBall 0 0 0 3 1) (mkBall 1 16 0 0 2)
   \<and> velAlongNormal (mkBall 0 0 0 3 1) (mkBall 1 16 0 0 2) \<le> 0
   \<and> normalX (mkBall 0 0 0 3 1) (mkBall 1 16 0 0 2) = 1
   \<and> normalY (mkBall 0 0 0 3 1) (mkBall 1 16 0 0 2) = 0
   \<and> impulseOf portfolio (mkBall 0 0 0 3 1) (mkBall 1 16 0 0 2) = 2.025
   \<and> ball_vx (fst (resolveBallCollision portfolio (mkBall 0 0 0 3 1) (mkBall 1 16 0 0 2))) = 0.975
   \<and> ball_vy (fst (resolveBallCollision portfolio (mkBall 0 0 0 3 1) (mkBall 1 16 0 0 2))) = 1
   \<and> ball_vx (snd (resolveBallCollision portfolio (mkBall 0 0 0 3 1) (mkBall 1 16 0 0 2))) = 2.025
   \<and> ball_vy (snd (resolveBallCollision portfolio (mkBall 0 0 0 3 1) (mkBall 1 16 0 0 2))) = 2"
proof -
  let ?a = "mkBall 0 0 0 3 1" and ?b = "mkBall 1 16 0 0 2"
  have c: "centerDistance ?a ?b = 16" by (simp add: centerDistance_def mkBall_def sqrt_256)
  have d: "pairDist ?a ?b = 16" unfolding pairDist_def c by simp
  have n: "normalX ?a ?b = 1" "normalY ?a ?b = 0"
    unfolding normalX_def normalY_def d by (simp_all add: mkBall_def)
  have v: "velAlongNormal ?a ?b = - 3" unfolding velAlongNormal_def n by (simp add: mkBall_def)
  have j: "impulseOf portfolio ?a ?b = 2.025" unfolding impulseOf_def v by (simp add: portfolio_def)
  have h: "pairDist ?a ?b < 2 * ballRadius portfolio" unfolding d by (simp add: portfolio_def)
  have f: "ball_vx ?a = 3" "ball_vy ?a = 1" "ball_vx ?b = 0" "ball_vy ?b = 2" by (simp_all add: mkBall_def)
  note t = resolveBallCollision_momentum[of ?a ?b portfolio]
  have r: "ball_vx (fst (resolveBallCollision portfolio ?a ?b)) = ball_vx ?a - impulseOf portfolio ?a ?b * normalX ?a ?b"
    "ball_vy (fst (resolveBallCollision portfolio ?a ?b)) = ball_vy ?a - impulseOf portfolio ?a ?b * normalY ?a ?b"
    "ball_vx (snd (resolveBallCollision portfolio ?a ?b)) = ball_vx ?b + impulseOf portfolio ?a ?b * normalX ?a ?b"
    "ball_vy (snd (resolveBallCollision portfolio ?a ?b)) = ball_vy ?b + impulseOf portfolio ?a ?b * normalY ?a ?b"
    using t h by blast+
  show ?thesis
    unfolding r n j f using h unfolding c v d by simp
qed

section \<open>Properties of rectangle collision\<close>

text \<open>
  Claim C4, as amended. For a ball whose bounding square overlaps a rectangular obstacle:
  when the smaller horizontal penetration is strictly less than the smaller vertical
  penetration, the ball is put flush against the left or right edge and its vertical
  position and velocity are untouched; otherwise, and so also when the two are equal, the
  ball is put flush against the top or bottom edge and its horizontal position and
  velocity are untouched. The Y axis wins ties.
\<close>

theorem checkRectCollision_axis:
  assumes "boxesOverlap p ballObj (RectObs l r t b)"
  shows "(minOverlapX p ballObj (RectObs l r t b) < minOverlapY p ballObj (RectObs l r t b) \<longrightarrow>
            ball_x (snd (checkRectCollision p ballObj (RectObs l r t b)))
              = (if overlapLeft p ballObj (RectObs l r t b) < overlapRight p ballObj (RectObs l r t b)
                 then l - ballRadius p else r + ballRadius p)
          \<and> ball_y (snd (checkRectCollision p ballObj (RectObs l r t b))) = ball_y ballObj
          \<and> ball_vy (snd (checkRectCollision p ballObj (RectObs l r t b))) = ball_vy ballObj)
       \<and> (minOverlapY p ballObj (RectObs l r t b) \<le> minOverlapX p ballObj (RectObs l r t b) \<longrightarrow>
            ball_y (snd (checkRectCollision p ballObj (RectObs l r t b)))
              = (if overlapTop p ballObj (RectObs l r t b) < overlapBottom p ballObj (RectObs l r t b)
                 then t - ballRadius p else b + ballRadius p)
          \<and> ball_x (snd (checkRectCollision p ballObj (RectObs l r t b))) = ball_x ballObj
          \<and> ball_vx (snd (checkRectCollision p ballObj (RectObs l r t b))) = ball_vx ballObj)"
  using assms by (simp add: checkRectCollision_def Let_def)

text \<open>
  Witness for C4: a ball entering from the left is resolved along X; a ball at a corner
  with equal penetrations is resolved along Y.
\<close>

theorem checkRectCollision_axis_witness:
  "(boxesOverlap portfolio (mkBall 0 (- 8) 50 3 4) (RectObs 0 100 0 100)
    \<and> minOverlapX portfolio (mkBall 0 (- 8) 50 3 4) (RectObs 0 100 0 100)
        < minOverlapY portfolio (mkBall 0 (- 8) 50 3 4) (RectObs 0 100 0 100)
    \<and> ball_x (snd (checkRectCollision portfolio (mkBall 0 (- 8) 50 3 4) (RectObs 0 100 0 100))) = - 10
    \<and> ball_y (snd (checkRectCollision portfolio (mkBall 0 (- 8) 50 3 4) (RectObs 0 100 0 100))) = 50)
   \<and> (boxesOverlap portfolio (mkBall 0 (- 5) (- 5) 3 4) (RectObs 0 100 0 100)
    \<and> minOverlapY portfolio (mkBall 0 (- 5) (- 5) 3 4) (RectObs 0 100 0 100)
        \<le> minOverlapX portfolio (mkBall 0 (- 5) (- 5) 3 4) (RectObs 0 100 0 100)
    \<and> ball_y (snd (checkRectCollision portfolio (mkBall 0 (- 5) (- 5) 3 4) (RectObs 0 100 0 100))) = - 10
    \<and> ball_x (snd (checkRectCollision portfolio (mkBall 0 (- 5) (- 5) 3 4) (RectObs 0 100 0 100))) = - 5)"
proof -
  have o1: "boxesOverlap portfolio (mkBall 0 (- 8) 50 3 4) (RectObs 0 100 0 100)"
    by (simp add: boxesOverlap_def mkBall_def portfolio_def)
  have o2: "boxesOverlap portfolio (mkBall 0 (- 5) (- 5) 3 4) (RectObs 0 100 0 100)"
    by (simp add: boxesOverlap_def mkBall_def portfolio_def)
  have m1: "minOverlapX portfolio (mkBall 0 (- 8) 50 3 4) (RectObs 0 100 0 100)
        < minOverlapY portfolio (mkBall 0 (- 8) 50 3 4) (RectObs 0 100 0 100)"
    by (simp add: minOverlapX_def minOverlapY_def overlapLeft_def overlapRight_def
        overlapTop_def overlapBottom_def mkBall_def portfolio_def)
  have m2: "minOverlapY portfolio (mkBall 0 (- 5) (- 5) 3 4) (RectObs 0 100 0 100)
        \<le> minOverlapX portfolio (mkBall 0 (- 5) (- 5) 3 4) (RectObs 0 100 0 100)"
    by (simp add: minOverlapX_def minOverlapY_def overlapLeft_def overlapRight_def
        overlapTop_def overlapBottom_def mkBall_def portfolio_def)
  have v: "overlapLeft portfolio (mkBall 0 (- 8) 50 3 4) (RectObs 0 100 0 100)
             < overlapRight portfolio (mkBall 0 (- 8) 50 3 4) (RectObs 0 100 0 100)"
      "overlapTop portfolio (mkBall 0 (- 5) (- 5) 3 4) (RectObs 0 100 0 100)
             < overlapBottom portfolio (mkBall 0 (- 5) (- 5) 3 4) (RectObs 0 100 0 100)"
      "ballRadius portfolio = 10" "ball_y (mkBall 0 (- 8) 50 3 4) = 50"
      "ball_x (mkBall 0 (- 5) (- 5) 3 4) = - 5"
    by (simp_all add: overlapLeft_def overlapRight_def
        overlapTop_def overlapBottom_def mkBall_def portfolio_def)
  show ?thesis
    using o1 o2 m1 m2 v
      checkRectCollision_axis[OF o1] checkRectCollision_axis[OF o2]
    by simp
qed

text \<open>
  Counterexample for C4 as stated: with equal penetrations of 5px on both axes the ball
  keeps its horizontal position and velocity, and is moved and reflected vertically.
\<close>

theorem checkRectCollision_tie_counterexample:
  "boxesOverlap portfolio (mkBall 0 (- 5) (- 5) 3 4) (RectObs 0 100 0 100)
   \<and> minOverlapX portfolio (mkBall 0 (- 5) (- 5) 3 4) (RectObs 0 100 0 100)
       = minOverlapY portfolio (mkBall 0 (- 5) (- 5) 3 4) (RectObs 0 100 0 100)
   \<and> ball_x (snd (checkRectCollision portfolio (mkBall 0 (- 5) (- 5) 3 4) (RectObs 0 100 0 100))) = - 5
   \<and> ball_vx (snd (checkRectCollision portfolio (mkBall 0 (- 5) (- 5) 3 4) (RectObs 0 100 0 100))) = 3
   \<and> ball_y (snd (checkRectCollision portfolio (mkBall 0 (- 5) (- 5) 3 4) (RectObs 0 100 0 100))) = - 10
   \<and> ball_vy (snd (checkRectCollision portfolio (mkBall 0 (- 5) (- 5) 3 4) (RectObs 0 100 0 100))) = - 1.8"
  by (simp add: checkRectCollision_def boxesOverlap_def minOverlapX_def minOverlapY_def
      overlapLeft_def overlapRight_def overlapTop_def overlapBottom_def mkBall_def portfolio_def Let_def)

section \<open>Properties of mask collision\<close>

lemma sqrt_25: "sqrt 25 = 5" by (rule real_sqrt_unique) simp_all
lemma sqrt_100: "sqrt 100 = 10" by (rule real_sqrt_unique) simp_all

lemma hypot_unit:
  fixes vx vy :: real
  assumes "sqrt (vx * vx + vy * vy) \<noteq> 0"
  shows "Math_hypot (vx / sqrt (vx * vx + vy * vy)) (vy / sqrt (vx * vx + vy * vy)) = 1"
proof -
  let ?s = "sqrt (vx * vx + vy * vy)"
  have "Math_hypot (vx / ?s) (vy / ?s) = sqrt ((vx * (1 / ?s)) * (vx * (1 / ?s)) + (vy * (1 / ?s)) * (vy * (1 / ?s)))"
    by (simp add: Math_hypot_def)
  also have "\<dots> = ?s * \<bar>1 / ?s\<bar>" by (rule scaled_norm)
  also have "\<dots> = 1" using assms by simp
  finally show ?thesis .
qed

lemma speed_zero_velocity:
  assumes "speed b = 0"
  shows "ball_vx b = 0" and "ball_vy b = 0"
proof -
  have "ball_vx b * ball_vx b + ball_vy b * ball_vy b = 0"
    using assms by (simp add: speed_def)
  then have "ball_vx b = 0 \<and> ball_vy b = 0" by (simp add: sum_squares_eq_zero_iff)
  then show "ball_vx b = 0" and "ball_vy b = 0" by simp_all
qed

lemma collisionNormal_fallback:
  assumes "opacityGradient m sx sy = (0, 0)"
  shows "collisionNormal ballObj m sx sy =
           (ball_vx ballObj / orOne (speed ballObj), ball_vy ballObj / orOne (speed ballObj))"
proof (cases "speed ballObj = 0")
  case True
  show ?thesis using assms True speed_zero_velocity[OF True]
    by (simp add: collisionNormal_def orOne_def Math_hypot_def Let_def)
next
  case False
  then have nz: "sqrt (ball_vx ballObj * ball_vx ballObj + ball_vy ballObj * ball_vy ballObj) \<noteq> 0"
    by (simp add: speed_def)
  have o: "orOne (Math_hypot (ball_vx ballObj) (ball_vy ballObj)) = speed ballObj"
    using False by (simp add: orOne_def Math_hypot_def speed_def)
  have u: "Math_hypot (ball_vx ballObj / speed ballObj) (ball_vy ballObj / speed ballObj) = 1"
    unfolding speed_def by (rule hypot_unit[OF nz])
  have o1: "orOne 1 = 1" "orOne (speed ballObj) = speed ballObj"
    using False by (simp_all add: orOne_def)
  show ?thesis
    by (simp add: collisionNormal_def assms Let_def o u o1)
qed

lemma checkMaskCollision_velocity:
  assumes "maskHit p ballObj obs"
    and "collisionNormal ballObj (obs_mask obs) (maskSampleX ballObj obs) (maskSampleY ballObj obs) = (nx, ny)"
  shows "ball_vx (snd (checkMaskCollision p ballObj obs))
           = (ball_vx ballObj - 2 * (ball_vx ballObj * nx + ball_vy ballObj * ny) * nx) * bounceFactor p"
    and "ball_vy (snd (checkMaskCollision p ballObj obs))
           = (ball_vy ballObj - 2 * (ball_vx ballObj * nx + ball_vy ballObj * ny) * ny) * bounceFactor p"
  using assms by (simp_all add: checkMaskCollision_def Let_def)

lemma reflect_along_velocity:
  fixes vx vy s :: real
  assumes "s \<noteq> 0" "vx * vx + vy * vy = s * s"
  shows "vx - 2 * (vx * (vx / s) + vy * (vy / s)) * (vx / s) = - vx"
    and "vy - 2 * (vx * (vx / s) + vy * (vy / s)) * (vy / s) = - vy"
proof -
  have "vx * (vx / s) + vy * (vy / s) = (vx * vx + vy * vy) / s"
    by (simp add: add_divide_distrib)
  also have "\<dots> = s" using assms by simp
  finally have d: "vx * (vx / s) + vy * (vy / s) = s" .
  show "vx - 2 * (vx * (vx / s) + vy * (vy / s)) * (vx / s) = - vx"
    unfolding d using assms(1) by simp
  show "vy - 2 * (vx * (vx / s) + vy * (vy / s)) * (vy / s) = - vy"
    unfolding d using assms(1) by simp
qed

text \<open>
  Claim C5, as amended. When a mask collision hits and the central-difference estimate
  is zero on both axes, the normal used for the reflection is the velocity divided by the
  speed, not negated (and the zero vector for a ball at rest, where the speed is replaced
  by one). The reflection then reverses the velocity and scales it by the bounce factor,
  which is what the negated direction would give as well.
\<close>

theorem checkMaskCollision_degenerate_normal:
  assumes "maskHit p ballObj obs"
    and "opacityGradient (obs_mask obs) (maskSampleX ballObj obs) (maskSampleY ballObj obs) = (0, 0)"
  shows "collisionNormal ballObj (obs_mask obs) (maskSampleX ballObj obs) (maskSampleY ballObj obs)
           = (ball_vx ballObj / orOne (speed ballObj), ball_vy ballObj / orOne (speed ballObj))
         \<and> ball_vx (snd (checkMaskCollision p ballObj obs)) = - ball_vx ballObj * bounceFactor p
         \<and> ball_vy (snd (checkMaskCollision p ballObj obs)) = - ball_vy ballObj * bounceFactor p"
proof -
  note n = collisionNormal_fallback[OF assms(2), of ballObj]
  note v = checkMaskCollision_velocity[OF assms(1) n]
  show ?thesis
  proof (cases "speed ballObj = 0")
    case True
    show ?thesis using n v speed_zero_velocity[OF True] by simp
  next
    case False
    then have o: "orOne (speed ballObj) = speed ballObj" by (simp add: orOne_def)
    have sq: "ball_vx ballObj * ball_vx ballObj + ball_vy ballObj * ball_vy ballObj
                = speed ballObj * speed ballObj"
      by (simp add: speed_def)
    note r = reflect_along_velocity[OF False sq]
    show ?thesis using n unfolding v o r by simp
  qed
qed

lemma opaquePixel_gradient: "opacityGradient opaquePixel sx sy = (0, 0)"
  by (simp add: opacityGradient_def sampleOpaque_def alphaAt_def js_index_def opaquePixel_def
      maskAlphaThreshold_def Let_def)

lemma opaquePixel_hit: "maskHit spatial (mkBall 0 50 50 3 4) (MaskObs 0 100 0 100 100 100 opaquePixel)"
  by (simp add: maskHit_def alphaAt_def js_index_def opaquePixel_def maskSampleX_def maskSampleY_def
      maskAlphaThreshold_def mkBall_def spatial_def)

lemma speed_3_4: "speed (mkBall 0 50 50 3 4) = 5"
  by (simp add: speed_def mkBall_def sqrt_25)

text \<open>
  Witness for C5: a ball with velocity (3, 4) inside a uniformly opaque mask gets the
  normal (3/5, 4/5) and leaves with velocity (-1.8, -2.4).
\<close>

theorem checkMaskCollision_degenerate_normal_witness:
  "maskHit spatial (mkBall 0 50 50 3 4) (MaskObs 0 100 0 100 100 100 opaquePixel)
   \<and> opacityGradient opaquePixel (maskSampleX (mkBall 0 50 50 3 4) (MaskObs 0 100 0 100 100 100 opaquePixel))
        (maskSampleY (mkBall 0 50 50 3 4) (MaskObs 0 100 0 100 100 100 opaquePixel)) = (0, 0)
   \<and> collisionNormal (mkBall 0 50 50 3 4) opaquePixel
        (maskSampleX (mkBall 0 50 50 3 4) (MaskObs 0 100 0 100 100 100 opaquePixel))
        (maskSampleY (mkBall 0 50 50 3 4) (MaskObs 0 100 0 100 100 100 opaquePixel)) = (3 / 5, 4 / 5)
   \<and> ball_vx (snd (checkMaskCollision spatial (mkBall 0 50 50 3 4) (MaskObs 0 100 0 100 100 100 opaquePixel))) = - 1.8
   \<and> ball_vy (snd (checkMaskCollision spatial (mkBall 0 50 50 3 4) (MaskObs 0 100 0 100 100 100 opaquePixel))) = - 2.4"
proof -
  have v: "ball_vx (mkBall 0 50 50 3 4) = 3" "ball_vy (mkBall 0 50 50 3 4) = 4"
    "bounceFactor spatial = 0.6" "orOne 5 = 5"
    by (simp_all add: mkBall_def spatial_def orOne_def)
  have g: "opacityGradient (obs_mask (MaskObs 0 100 0 100 100 100 opaquePixel))
        (maskSampleX (mkBall 0 50 50 3 4) (MaskObs 0 100 0 100 100 100 opaquePixel))
        (maskSampleY (mkBall 0 50 50 3 4) (MaskObs 0 100 0 100 100 100 opaquePixel)) = (0, 0)"
    by (simp add: opaquePixel_gradient)
  show ?thesis
    using checkMaskCollision_degenerate_normal[OF opaquePixel_hit g] opaquePixel_hit g
    by (simp add: v speed_3_4)
qed

text \<open>
  Counterexample for C5 as stated: in the same situation the normal is not the negated
  velocity direction.
\<close>

theorem checkMaskCollision_normal_counterexample:
  "maskHit spatial (mkBall 0 50 50 3 4) (MaskObs 0 100 0 100 100 100 opaquePixel)
   \<and> opacityGradient opaquePixel (maskSampleX (mkBall 0 50 50 3 4) (MaskObs 0 100 0 100 100 100 opaquePixel))
        (maskSampleY (mkBall 0 50 50 3 4) (MaskObs 0 100 0 100 100 100 opaquePixel)) = (0, 0)
   \<and> collisionNormal (mkBall 0 50 50 3 4) opaquePixel
        (maskSampleX (mkBall 0 50 50 3 4) (MaskObs 0 100 0 100 100 100 opaquePixel))
        (maskSampleY (mkBall 0 50 50 3 4) (MaskObs 0 100 0 100 100 100 opaquePixel))
      \<noteq> (- (ball_vx (mkBall 0 50 50 3 4) / speed (mkBall 0 50 50 3 4)),
          - (ball_vy (mkBall 0 50 50 3 4) / speed (mkBall 0 50 50 3 4)))"
proof -
  have v: "ball_vx (mkBall 0 50 50 3 4) = 3" "ball_vy (mkBall 0 50 50 3 4) = 4" "orOne 5 = 5"
    by (simp_all add: mkBall_def orOne_def)
  show ?thesis
    by (simp add: opaquePixel_hit opaquePixel_gradient collisionNormal_fallback speed_3_4 v)
qed

section \<open>Properties of cursor magnetism\<close>

lemma sqrt_gt_5: "0 \<le> q \<Longrightarrow> (5 < sqrt q) = (25 < q)"
  using real_sqrt_less_iff[of 25 q] by (simp add: sqrt_25)

lemma sqrt_22500: "sqrt 22500 = 150" by (rule real_sqrt_unique) simp_all

lemma sqrt_lt_150: "(sqrt q < 150) = (q < 22500)"
  using real_sqrt_less_iff[of q 22500] by (simp add: sqrt_22500)

lemma unit_circle_scaled:
  fixes f k :: real
  shows "sqrt ((cos a * f * k) * (cos a * f * k) + (sin a * f * k) * (sin a * f * k)) = \<bar>f * k\<bar>"
proof -
  have "sqrt ((cos a * (f * k)) * (cos a * (f * k)) + (sin a * (f * k)) * (sin a * (f * k)))
          = sqrt (cos a * cos a + sin a * sin a) * \<bar>f * k\<bar>"
    by (rule scaled_norm)
  then show ?thesis by (simp add: mult.assoc)
qed

lemma velocityChange_horizontal:
  "ball_vy b' = ball_vy b \<Longrightarrow> velocityChange b b' = \<bar>ball_vx b' - ball_vx b\<bar>"
  by (simp add: velocityChange_def)

text \<open>
  Claim C6, as amended. For a ball whose distance \<open>d\<close> to the cursor is above 5 and
  below the magnetic radius of 150, the velocity change applied by the cursor magnetism
  has magnitude \<open>0.8 * magneticStrength * (1 - d / magneticRadius)\<close>: it falls off linearly
  with the distance and vanishes at the radius. No force is applied when \<open>d\<close> is at or
  below 5 or at or beyond the radius.
\<close>

theorem applyCursorMagnetism_force:
  "(5 < cursorDistance mx my b \<and> cursorDistance mx my b < magneticRadius \<longrightarrow>
      velocityChange b (applyCursorMagnetism mx my b)
        = 0.8 * magneticStrength * (1 - cursorDistance mx my b / magneticRadius))
   \<and> (cursorDistance mx my b \<le> 5 \<or> magneticRadius \<le> cursorDistance mx my b \<longrightarrow>
      applyCursorMagnetism mx my b = b)"
proof (intro conjI impI)
  define q where "q = (mx - ball_x b) * (mx - ball_x b) + (my - ball_y b) * (my - ball_y b)"
  have q0: "0 \<le> q" by (simp add: q_def)
  have d: "cursorDistance mx my b = sqrt q" by (simp add: cursorDistance_def q_def)
  {
    assume h: "5 < cursorDistance mx my b \<and> cursorDistance mx my b < magneticRadius"
    then have c: "q < magneticRadius * magneticRadius" "q > 25"
      using q0 by (simp_all add: d magneticRadius_def sqrt_gt_5 sqrt_lt_150)
    define f where "f = (1 - sqrt q / magneticRadius) * magneticStrength"
    have f0: "0 \<le> f" using h by (simp add: f_def d magneticRadius_def magneticStrength_def)
    define ang where "ang = Math_atan2 (my - ball_y b) (mx - ball_x b)"
    have vx: "ball_vx (applyCursorMagnetism mx my b) - ball_vx b = cos ang * f * 0.8"
      using c by (simp add: applyCursorMagnetism_def Let_def q_def[symmetric] f_def ang_def)
    have vy: "ball_vy (applyCursorMagnetism mx my b) - ball_vy b = sin ang * f * 0.8"
      using c by (simp add: applyCursorMagnetism_def Let_def q_def[symmetric] f_def ang_def)
    have "velocityChange b (applyCursorMagnetism mx my b) = \<bar>f * 0.8\<bar>"
      unfolding velocityChange_def vx vy by (rule unit_circle_scaled)
    also have "\<dots> = 0.8 * magneticStrength * (1 - cursorDistance mx my b / magneticRadius)"
      using f0 by (simp add: f_def d)
    finally show "velocityChange b (applyCursorMagnetism mx my b)
        = 0.8 * magneticStrength * (1 - cursorDistance mx my b / magneticRadius)" .
  }
  {
    assume h: "cursorDistance mx my b \<le> 5 \<or> magneticRadius \<le> cursorDistance mx my b"
    then have "\<not> (q < magneticRadius * magneticRadius \<and> q > 25)"
      using q0 sqrt_gt_5[OF q0] sqrt_lt_150[of q] by (auto simp: d magneticRadius_def)
    then show "applyCursorMagnetism mx my b = b"
      unfolding applyCursorMagnetism_def Let_def q_def[symmetric] by (rule if_not_P)
  }
qed

lemma atan2_east: "0 < x \<Longrightarrow> Math_atan2 0 x = 0"
  by (simp add: Math_atan2_def)

text \<open>
  Witness for C6: at distance 10 the change is 0.224; at distances 150 and 5 the ball is
  unchanged.
\<close>

theorem applyCursorMagnetism_force_witness:
  "(5 < cursorDistance 0 0 (mkBall 0 (- 10) 0 0 0) \<and> cursorDistance 0 0 (mkBall 0 (- 10) 0 0 0) < magneticRadius
    \<and> velocityChange (mkBall 0 (- 10) 0 0 0) (applyCursorMagnetism 0 0 (mkBall 0 (- 10) 0 0 0)) = 0.224)
   \<and> (magneticRadius \<le> cursorDistance 0 0 (mkBall 0 (- 150) 0 0 0)
    \<and> applyCursorMagnetism 0 0 (mkBall 0 (- 150) 0 0 0) = mkBall 0 (- 150) 0 0 0)
   \<and> (cursorDistance 0 0 (mkBall 0 (- 5) 0 0 0) \<le> 5
    \<and> applyCursorMagnetism 0 0 (mkBall 0 (- 5) 0 0 0) = mkBall 0 (- 5) 0 0 0)"
proof -
  have d: "cursorDistance 0 0 (mkBall 0 (- 10) 0 0 0) = 10"
    "cursorDistance 0 0 (mkBall 0 (- 150) 0 0 0) = 150"
    "cursorDistance 0 0 (mkBall 0 (- 5) 0 0 0) = 5"
    by (simp_all add: cursorDistance_def mkBall_def sqrt_100 sqrt_22500 sqrt_25)
  show ?thesis
    using applyCursorMagnetism_force[of 0 0 "mkBall 0 (- 10) 0 0 0"]
      applyCursorMagnetism_force[of 0 0 "mkBall 0 (- 150) 0 0 0"]
      applyCursorMagnetism_force[of 0 0 "mkBall 0 (- 5) 0 0 0"]
    by (simp add: d magneticRadius_def magneticStrength_def)
qed

text \<open>
  Counterexample for C6 as stated: a force inversely proportional to the distance would
  have the same product of distance and magnitude at distances 10 and 30.
\<close>

theorem applyCursorMagnetism_inverse_counterexample:
  "cursorDistance 0 0 (mkBall 0 (- 10) 0 0 0) = 10
   \<and> cursorDistance 0 0 (mkBall 0 (- 30) 0 0 0) = 30
   \<and> velocityChange (mkBall 0 (- 10) 0 0 0) (applyCursorMagnetism 0 0 (mkBall 0 (- 10) 0 0 0)) = 0.224
   \<and> velocityChange (mkBall 0 (- 30) 0 0 0) (applyCursorMagnetism 0 0 (mkBall 0 (- 30) 0 0 0)) = 0.192
   \<and> 10 * velocityChange (mkBall 0 (- 10) 0 0 0) (applyCursorMagnetism 0 0 (mkBall 0 (- 10) 0 0 0))
      \<noteq> 30 * velocityChange (mkBall 0 (- 30) 0 0 0) (applyCursorMagnetism 0 0 (mkBall 0 (- 30) 0 0 0))"
proof -
  have a: "applyCursorMagnetism 0 0 (mkBall 0 (- 10) 0 0 0) = mkBall 0 (- 10) 0 0.224 0"
    by (simp add: applyCursorMagnetism_def Let_def mkBall_def sqrt_100 atan2_east
        magneticRadius_def magneticStrength_def)
  have b: "applyCursorMagnetism 0 0 (mkBall 0 (- 30) 0 0 0) = mkBall 0 (- 30) 0 0.192 0"
    by (simp add: applyCursorMagnetism_def Let_def mkBall_def sqrt_900 atan2_east
        magneticRadius_def magneticStrength_def)
  have v: "velocityChange (mkBall 0 (- 10) 0 0 0) (mkBall 0 (- 10) 0 0.224 0) = 0.224"
    "velocityChange (mkBall 0 (- 30) 0 0 0) (mkBall 0 (- 30) 0 0.192 0) = 0.192"
    by (simp_all add: velocityChange_horizontal mkBall_def)
  show ?thesis
    unfolding a b v by (simp add: cursorDistance_def mkBall_def sqrt_100 sqrt_900)
qed

text \<open>
  The force is an attraction: the velocity change points from the ball to the cursor.
\<close>

lemma sqrt_one_plus_ratio:
  fixes x y :: real
  assumes "x \<noteq> 0"
  shows "sqrt (1 + (y / x)\<^sup>2) = sqrt (x * x + y * y) / \<bar>x\<bar>"
proof -
  have "1 + (y / x)\<^sup>2 = (x * x + y * y) / (x * x)"
    using assms by (simp add: power2_eq_square field_simps)
  then have "sqrt (1 + (y / x)\<^sup>2) = sqrt (x * x + y * y) / sqrt (x * x)"
    by (simp add: real_sqrt_divide)
  then show ?thesis by simp
qed

lemma cos_sin_arctan_ratio:
  fixes x y :: real
  assumes "x \<noteq> 0"
  shows "cos (arctan (y / x)) = \<bar>x\<bar> / sqrt (x * x + y * y)"
    and "sin (arctan (y / x)) = (y / x) * \<bar>x\<bar> / sqrt (x * x + y * y)"
  using assms by (simp_all add: cos_arctan sin_arctan sqrt_one_plus_ratio)

lemma cos_sin_atan2:
  assumes "x \<noteq> 0 \<or> y \<noteq> 0"
  shows "cos (Math_atan2 y x) = x / sqrt (x * x + y * y)"
    and "sin (Math_atan2 y x) = y / sqrt (x * x + y * y)"
proof -
  consider "x > 0" | "x < 0" "y \<ge> 0" | "x < 0" "y < 0" | "x = 0" "y > 0" | "x = 0" "y < 0"
    using assms by linarith
  then have "cos (Math_atan2 y x) = x / sqrt (x * x + y * y)
      \<and> sin (Math_atan2 y x) = y / sqrt (x * x + y * y)"
  proof cases
    case 1
    then show ?thesis
      using cos_sin_arctan_ratio[of x y] by (simp add: Math_atan2_def)
  next
    case 2
    then show ?thesis
      using cos_sin_arctan_ratio[of x y] by (simp add: Math_atan2_def)
  next
    case 3
    then show ?thesis
      using cos_sin_arctan_ratio[of x y] by (simp add: Math_atan2_def)
  next
    case 4
    then show ?thesis by (simp add: Math_atan2_def)
  next
    case 5
    then show ?thesis by (simp add: Math_atan2_def)
  qed
  then show "cos (Math_atan2 y x) = x / sqrt (x * x + y * y)"
    and "sin (Math_atan2 y x) = y / sqrt (x * x + y * y)" by simp_all
qed

lemma applyCursorMagnetism_towards_cursor:
  assumes "5 < cursorDistance mx my b" "cursorDistance mx my b < magneticRadius"
  shows "ball_vx (applyCursorMagnetism mx my b) - ball_vx b
           = (mx - ball_x b) / cursorDistance mx my b
             * (0.8 * magneticStrength * (1 - cursorDistance mx my b / magneticRadius))"
    and "ball_vy (applyCursorMagnetism mx my b) - ball_vy b
           = (my - ball_y b) / cursorDistance mx my b
             * (0.8 * magneticStrength * (1 - cursorDistance mx my b / magneticRadius))"
proof -
  define dx where "dx = mx - ball_x b"
  define dy where "dy = my - ball_y b"
  define q where "q = dx * dx + dy * dy"
  have q0: "0 \<le> q" by (simp add: q_def)
  have d: "cursorDistance mx my b = sqrt q" by (simp add: cursorDistance_def q_def dx_def dy_def)
  have c: "q < magneticRadius * magneticRadius" "q > 25"
    using assms q0 by (simp_all add: d magneticRadius_def sqrt_gt_5 sqrt_lt_150)
  have nz: "dx \<noteq> 0 \<or> dy \<noteq> 0" using c(2) by (auto simp: q_def)
  note a = cos_sin_atan2[OF nz, folded q_def]
  show "ball_vx (applyCursorMagnetism mx my b) - ball_vx b
           = (mx - ball_x b) / cursorDistance mx my b
             * (0.8 * magneticStrength * (1 - cursorDistance mx my b / magneticRadius))"
    using c unfolding d
    by (simp add: applyCursorMagnetism_def Let_def dx_def[symmetric] dy_def[symmetric]
        q_def[symmetric] a)
  show "ball_vy (applyCursorMagnetism mx my b) - ball_vy b
           = (my - ball_y b) / cursorDistance mx my b
             * (0.8 * magneticStrength * (1 - cursorDistance mx my b / magneticRadius))"
    using c unfolding d
    by (simp add: applyCursorMagnetism_def Let_def dx_def[symmetric] dy_def[symmetric]
        q_def[symmetric] a)
qed

section \<open>Properties of the obstacle provider\<close>

lemma inset_width: "6 \<le> rect_width rect \<Longrightarrow> 4 \<le> rect_width rect - 2 * insetX rect"
  by (simp add: insetX_def min_def)

lemma inset_height: "6 \<le> rect_height rect \<Longrightarrow> 4 \<le> rect_height rect - 2 * insetY rect"
  by (simp add: insetY_def min_def)

lemma rectObstacle_eq:
  "rectObstacle sy rect = (if bigEnough rect then Some (insetBox sy rect) else None)"
proof (cases "bigEnough rect")
  case False
  then show ?thesis by (auto simp: rectObstacle_def bigEnough_def)
next
  case True
  then have w: "6 \<le> rect_width rect" and h: "6 \<le> rect_height rect" by (simp_all add: bigEnough_def)
  have e: "rect_left rect = rect_x rect" "rect_right rect = rect_x rect + rect_width rect"
    "rect_top rect = rect_y rect" "rect_bottom rect = rect_y rect + rect_height rect"
    using w h by (simp_all add: rect_left_def rect_right_def rect_top_def rect_bottom_def)
  show ?thesis
    using True w h inset_width[OF w] inset_height[OF h]
    by (simp add: rectObstacle_def e insetBox_def Let_def bigEnough_def)
qed

lemma getObstacles_eq: "getObstacles sy els = map (insetBox sy) (filter bigEnough els)"
  by (induction els) (simp_all add: getObstacles_def List.map_filter_simps rectObstacle_eq)

text \<open>
  Claim C9, as amended. The obstacle provider returns, in document order, the bounds of
  exactly those flagged elements whose layout box is at least 6px wide and 6px high,
  inset by \<open>min(10, 8% of the width)\<close> horizontally and \<open>min(10, 12% of the height)\<close>
  vertically; the elements it discards are exactly those whose box is narrower or shorter
  than 6px before the inset. Every rectangular obstacle it returns is at least 4px wide
  and 4px high after the inset. The spatial script returns the same rectangles (with no
  scroll offset), followed by the mask obstacles.
\<close>

theorem getObstacles_bounds:
  "getObstacles sy els = map (insetBox sy) (filter bigEnough els)
   \<and> getObstacles_spatial els maskEls
       = map (insetBox 0) (filter bigEnough els) @ List.map_filter maskObstacle maskEls
   \<and> (\<forall>ob \<in> set (getObstacles sy els).
        4 \<le> obs_right ob - obs_left ob \<and> 4 \<le> obs_bottom ob - obs_top ob)"
proof (intro conjI ballI)
  show "getObstacles sy els = map (insetBox sy) (filter bigEnough els)" by (rule getObstacles_eq)
next
  show "getObstacles_spatial els maskEls
       = map (insetBox 0) (filter bigEnough els) @ List.map_filter maskObstacle maskEls"
    using getObstacles_eq[of 0 els] by (simp add: getObstacles_spatial_def getObstacles_def)
next
  fix ob assume "ob \<in> set (getObstacles sy els)"
  then obtain rect where r: "bigEnough rect" "ob = insetBox sy rect"
    by (auto simp: getObstacles_eq)
  then have w: "6 \<le> rect_width rect" and h: "6 \<le> rect_height rect" by (simp_all add: bigEnough_def)
  show "4 \<le> obs_right ob - obs_left ob" using inset_width[OF w] by (simp add: r insetBox_def)
  show "4 \<le> obs_bottom ob - obs_top ob" using inset_height[OF h] by (simp add: r insetBox_def)
qed

text \<open>
  Witness for C9: of a 6 by 6 box, a 5 by 50 box and a 200 by 100 box, the first and the
  last are returned, inset.
\<close>

theorem getObstacles_bounds_witness:
  "getObstacles 0 [box 0 0 6 6, box 0 0 5 50, box 10 20 200 100]
     = [RectObs 0.48 5.52 0.72 5.28, RectObs 20 200 30 110]
   \<and> 4 \<le> obs_right (RectObs 0.48 5.52 0.72 5.28) - obs_left (RectObs 0.48 5.52 0.72 5.28)
   \<and> 4 \<le> obs_bottom (RectObs 0.48 5.52 0.72 5.28) - obs_top (RectObs 0.48 5.52 0.72 5.28)"
proof -
  have b: "bigEnough (box 0 0 6 6)" "\<not> bigEnough (box 0 0 5 50)" "bigEnough (box 10 20 200 100)"
    by (simp_all add: bigEnough_def box_def)
  have i: "insetBox 0 (box 0 0 6 6) = RectObs 0.48 5.52 0.72 5.28"
    "insetBox 0 (box 10 20 200 100) = RectObs 20 200 30 110"
    by (simp_all add: insetBox_def insetX_def insetY_def box_def)
  have m: "RectObs 0.48 5.52 0.72 5.28 \<in> set (getObstacles 0 [box 0 0 6 6, box 0 0 5 50, box 10 20 200 100])"
    by (simp add: getObstacles_eq b i)
  show ?thesis
    using getObstacles_bounds[of 0 "[box 0 0 6 6, box 0 0 5 50, box 10 20 200 100]"] m
    by (simp add: b i)
qed

text \<open>
  Counterexample for C9 as stated: a 6 by 6 box is returned although it is 5.04px wide
  after the inset, below a 6px floor; and a 5 by 50 box is discarded although after the
  inset it is not below both a width of 6px and a height of 4px.
\<close>

theorem getObstacles_floor_counterexample:
  "getObstacles 0 [box 0 0 6 6] = [RectObs 0.48 5.52 0.72 5.28]
   \<and> obs_right (RectObs 0.48 5.52 0.72 5.28) - obs_left (RectObs 0.48 5.52 0.72 5.28) < 6
   \<and> getObstacles 0 [box 0 0 5 50] = []
   \<and> \<not> (rect_width (box 0 0 5 50) - 2 * insetX (box 0 0 5 50) < 6 \<and>
        rect_height (box 0 0 5 50) - 2 * insetY (box 0 0 5 50) < 4)"
  by (simp add: getObstacles_def List.map_filter_simps rectObstacle_def rect_left_def rect_right_def
      rect_top_def rect_bottom_def insetX_def insetY_def box_def Let_def)

section \<open>Properties of spawning\<close>

lemma cleanupBalls_within_cap: "length (balls s) \<le> maxBalls p \<Longrightarrow> cleanupBalls p s = s"
  by (subst cleanupBalls.simps) simp

lemma cleanupBalls_length: "length (balls (cleanupBalls p s)) \<le> maxBalls p"
proof (induction p s rule: cleanupBalls.induct)
  case (1 p s)
  show ?case
  proof (cases "length (balls s) > maxBalls p")
    case False
    then show ?thesis by (subst cleanupBalls.simps) simp
  next
    case True
    then obtain oldBall rest where b: "balls s = oldBall # rest" by (cases "balls s") auto
    show ?thesis using "1.IH"[OF True b] True b by (subst cleanupBalls.simps) simp
  qed
qed

text \<open>
  Claim C1 asks that a spawn at the cap evicts the oldest ball first, so that the count
  never exceeds the cap. \<open>cleanupBalls\<close> runs before the new ball is pushed and tests
  \<open>balls.length > maxBalls\<close>, so with exactly \<open>maxBalls\<close> balls tracked it removes
  nothing: the spawn keeps every tracked ball and every attached element and appends the
  new one, and \<open>maxBalls + 1\<close> balls are tracked afterwards (21 in the portfolio script,
  16 in the spatial script).
\<close>

theorem spawn_at_cap_keeps_oldest:
  "(length (balls s) = maxBalls portfolio \<longrightarrow>
      balls (heroClick False cx cy sy rnd s)
        = balls s @ [\<lparr> element = nextElement s, ball_x = cx, ball_y = cy + sy,
                        ball_vx = (rnd - 0.5) * 6, ball_vy = 2, active = True,
                        prevX = None, prevY = None, restingStartTime = None \<rparr>]
      \<and> attached (heroClick False cx cy sy rnd s) = attached s @ [nextElement s]
      \<and> length (balls (heroClick False cx cy sy rnd s)) = maxBalls portfolio + 1)
   \<and> (length (balls t) = maxBalls spatial \<longrightarrow>
      balls (snd (spawnBall x y vx vy rnd1 rnd2 t))
        = balls t @ [fst (spawnBall x y vx vy rnd1 rnd2 t)]
      \<and> attached (snd (spawnBall x y vx vy rnd1 rnd2 t)) = attached t @ [nextElement t]
      \<and> length (balls (snd (spawnBall x y vx vy rnd1 rnd2 t))) = maxBalls spatial + 1)"
proof (intro conjI impI)
  assume h: "length (balls s) = maxBalls portfolio"
  then have c: "cleanupBalls portfolio s = s" by (simp add: cleanupBalls_within_cap)
  show "balls (heroClick False cx cy sy rnd s)
        = balls s @ [\<lparr> element = nextElement s, ball_x = cx, ball_y = cy + sy,
                        ball_vx = (rnd - 0.5) * 6, ball_vy = 2, active = True,
                        prevX = None, prevY = None, restingStartTime = None \<rparr>]"
    by (simp add: heroClick_def c createBall_def Let_def)
  show "attached (heroClick False cx cy sy rnd s) = attached s @ [nextElement s]"
    by (simp add: heroClick_def c createBall_def Let_def)
  show "length (balls (heroClick False cx cy sy rnd s)) = maxBalls portfolio + 1"
    using h by (simp add: heroClick_def c createBall_def Let_def)
next
  assume h: "length (balls t) = maxBalls spatial"
  then have c: "cleanupBalls spatial t = t" by (simp add: cleanupBalls_within_cap)
  show "balls (snd (spawnBall x y vx vy rnd1 rnd2 t)) = balls t @ [fst (spawnBall x y vx vy rnd1 rnd2 t)]"
    by (simp add: spawnBall_def c createBall_def Let_def)
  show "attached (snd (spawnBall x y vx vy rnd1 rnd2 t)) = attached t @ [nextElement t]"
    by (simp add: spawnBall_def c createBall_def Let_def)
  show "length (balls (snd (spawnBall x y vx vy rnd1 rnd2 t))) = maxBalls spatial + 1"
    using h by (simp add: spawnBall_def c createBall_def Let_def)
qed

text \<open>What does hold: a spawn never leaves more than \<open>maxBalls + 1\<close> balls tracked.\<close>

lemma spawn_length_bound:
  "length (balls (heroClick onLink cx cy sy rnd s)) \<le> max (length (balls s)) (maxBalls portfolio + 1)"
  "length (balls (snd (spawnBall x y vx vy rnd1 rnd2 t))) \<le> maxBalls spatial + 1"
  using cleanupBalls_length[of portfolio s] cleanupBalls_length[of spatial t]
  by (auto simp: heroClick_def spawnBall_def createBall_def Let_def)

text \<open>
  The spawn evaluated on states with 20 and with 15 tracked balls: 21 and 16 balls are
  tracked afterwards, the oldest (element 0) among them and still attached.
\<close>

theorem spawn_at_cap_keeps_oldest_witness:
  "(length (balls capState) = maxBalls portfolio
    \<and> length (balls (heroClick False 50 60 0 0.5 capState)) = 21
    \<and> map element (balls (heroClick False 50 60 0 0.5 capState)) = [0..<20] @ [20]
    \<and> attached (heroClick False 50 60 0 0.5 capState) = [0..<20] @ [20])
   \<and> (length (balls capState_spatial) = maxBalls spatial
    \<and> length (balls (snd (spawnBall 50 60 0 2 0.5 0.5 capState_spatial))) = 16
    \<and> map element (balls (snd (spawnBall 50 60 0 2 0.5 0.5 capState_spatial))) = [0..<15] @ [15]
    \<and> attached (snd (spawnBall 50 60 0 2 0.5 0.5 capState_spatial)) = [0..<15] @ [15])"
proof -
  have l: "length (balls capState) = maxBalls portfolio" "length (balls capState_spatial) = maxBalls spatial"
    by (simp_all add: capState_def capState_spatial_def trackedBalls_def portfolio_def spatial_def)
  have e: "map element (balls capState) = [0..<20]" "map element (balls capState_spatial) = [0..<15]"
    "attached capState = [0..<20]" "attached capState_spatial = [0..<15]"
    "nextElement capState = 20" "nextElement capState_spatial = 15"
    by (simp_all add: capState_def capState_spatial_def trackedBalls_def mkBall_def comp_def)
  have f: "element (fst (spawnBall 50 60 0 2 0.5 0.5 capState_spatial)) = 15"
    using l by (simp add: spawnBall_def cleanupBalls_within_cap createBall_def Let_def e)
  show ?thesis
    using spawn_at_cap_keeps_oldest[where s = capState and cx = 50 and cy = 60 and sy = 0
        and rnd = "0.5" and t = capState_spatial and x = 50 and y = 60 and vx = 0 and vy = 2
        and ?rnd1.0 = "0.5" and ?rnd2.0 = "0.5"] l f
    by (simp add: e portfolio_def spatial_def)
qed

section \<open>Properties of the animation loop\<close>

lemma less_sqrt_iff: "0 \<le> c \<Longrightarrow> (c < sqrt x) = (c * c < x)"
  using real_sqrt_less_iff[of "c * c" x] by simp

lemma list_ex_filter_active: "list_ex active (filter active bs) = (filter active bs \<noteq> [])"
  by (induction bs) simp_all

lemma refreshObstacles_fields:
  "animating (refreshObstacles pg t u) = animating u"
  "lastTime (refreshObstacles pg t u) = lastTime u"
  "balls (refreshObstacles pg t u) = balls u"
  "attached (refreshObstacles pg t u) = attached u"
  "frameRequested (refreshObstacles pg t u) = frameRequested u"
  "pendingRemovals (refreshObstacles pg t u) = pendingRemovals u"
  by (simp_all add: refreshObstacles_def)

text \<open>
  Claim C7 asks that a step after which no ball remains stops the loop, clears the
  running flag and resets the last-frame time stamp to its initial value. The reset
  \<open>lastTime = 0\<close> stands only in the branch taken when \<open>animateAll\<close> is entered with no
  ball tracked. A step entered with at least one ball stores the frame's time stamp in
  \<open>lastTime\<close>; when it ends with no ball, it clears \<open>animating\<close> and requests no further
  frame, and \<open>lastTime\<close> keeps the frame's time stamp.
\<close>

theorem animateAll_keeps_timestamp:
  "(balls s \<noteq> [] \<longrightarrow>
      lastTime (animateAll pg t s) = t
      \<and> animating (animateAll pg t s) = (animating s \<and> balls (animateAll pg t s) \<noteq> [])
      \<and> frameRequested (animateAll pg t s) = (balls (animateAll pg t s) \<noteq> []))
   \<and> (balls u \<noteq> [] \<longrightarrow>
      lastTime (animateAll_spatial pg t u) = t
      \<and> animating (animateAll_spatial pg t u) = (animating u \<and> balls (animateAll_spatial pg t u) \<noteq> [])
      \<and> frameRequested (animateAll_spatial pg t u) = (balls (animateAll_spatial pg t u) \<noteq> []))"
  by (simp add: animateAll_def animateAll_spatial_def Let_def split_beta list_ex_filter_active
      refreshObstacles_fields)

text \<open>The last ball leaving the page, stage by stage.\<close>

lemma applyForces_last:
  "applyForces portfolio 1 (mkBall 0 400 1058 0 5) = mkBall 0 400 1063.5552 0 5.5552"
  by (simp add: applyForces_def clampVelocity_def Math_pow_def mkBall_def portfolio_def Let_def
      less_sqrt_iff)

lemma ballsBeforePairs_last:
  "ballsBeforePairs plainPage 1016.67 lastBallState = [mkBall 0 400 1063.5552 0 5.5552]"
proof -
  have dt: "deltaTimeOf (lastTime lastBallState) 1016.67 = 1"
    by (simp add: deltaTimeOf_def lastBallState_def)
  have o: "getObstacles (windowScrollY plainPage) (obstacleElements plainPage) = []"
    by (simp add: getObstacles_def plainPage_def List.map_filter_simps)
  have b: "balls lastBallState = [mkBall 0 400 1058 0 5]" by (simp add: lastBallState_def)
  have a: "active (mkBall 0 400 1063.5552 0 5.5552)" by (simp add: mkBall_def)
  show ?thesis
    unfolding ballsBeforePairs_def dt o b
    by (simp add: applyForces_last obstaclePass_def a)
qed

lemma wallPass_last:
  "wallPass portfolio plainPage [mkBall 0 400 1063.5552 0 5.5552] [0]
     = ([(mkBall 0 400 1063.5552 0 5.5552)\<lparr>active := False\<rparr>], [])"
  by (simp add: wallStep_def bounceWalls_def leftWall_def rightWall_def ceilingWall_def mkBall_def
      portfolio_def plainPage_def Let_def)

lemma animateAll_last:
  "animateAll plainPage 1016.67 lastBallState
     = lastBallState\<lparr>balls := [], attached := [], lastTime := 1016.67, animating := False,
         frameRequested := False\<rparr>"
proof -
  have b: "balls lastBallState \<noteq> []" "attached lastBallState = [0]" by (simp_all add: lastBallState_def)
  have c: "collidePairs portfolio [mkBall 0 400 1063.5552 0 5.5552] = [mkBall 0 400 1063.5552 0 5.5552]"
    by (simp add: mkBall_def)
  show ?thesis
    unfolding animateAll_def Let_def ballsBeforePairs_last c b(2) wallPass_last
    using b(1) by (simp add: lastBallState_def)
qed

lemma applyForces_spatial_last:
  "applyForces_spatial spatial 0 0 1 (mkBall 0 400 1198 0 5)
     = (mkBall 0 400 1203.6715 0 5.6715)\<lparr>prevX := Some 400, prevY := Some 1198\<rparr>"
  by (simp add: applyForces_spatial_def applyCursorMagnetism_def clampVelocity_def Math_pow_def
      mkBall_def spatial_def magneticRadius_def Let_def less_sqrt_iff)

lemma ballsBeforePairs_spatial_last:
  "ballsBeforePairs_spatial plainPage 1016.67 lastBallState_spatial
     = [(mkBall 0 400 1203.6715 0 5.6715)\<lparr>prevX := Some 400, prevY := Some 1198\<rparr>]"
proof -
  have dt: "deltaTimeOf (lastTime lastBallState_spatial) 1016.67 = 1"
    by (simp add: deltaTimeOf_def lastBallState_spatial_def)
  have o: "obstacleCache (refreshObstacles plainPage 1016.67 lastBallState_spatial) = []"
    by (simp add: refreshObstacles_def getObstacles_spatial_def plainPage_def
        lastBallState_spatial_def List.map_filter_simps)
  have b: "balls lastBallState_spatial = [mkBall 0 400 1198 0 5]"
    "cursorX plainPage = 0" "cursorY plainPage = 0"
    by (simp_all add: lastBallState_spatial_def plainPage_def)
  have a: "active ((mkBall 0 400 1203.6715 0 5.6715)\<lparr>prevX := Some 400, prevY := Some 1198\<rparr>)"
    by (simp add: mkBall_def)
  show ?thesis
    unfolding ballsBeforePairs_spatial_def dt o b
    by (simp add: applyForces_spatial_last obstaclePass_spatial_def a)
qed

lemma wallPass_spatial_last:
  "wallPass_spatial spatial plainPage 1016.67
       [(mkBall 0 400 1203.6715 0 5.6715)\<lparr>prevX := Some 400, prevY := Some 1198\<rparr>] []
     = ([(mkBall 0 400 1203.6715 0 5.6715)\<lparr>prevX := Some 400, prevY := Some 1198, active := False\<rparr>], [0])"
  by (simp add: wallStep_spatial_def bounceWalls_def leftWall_def rightWall_def ceilingWall_def
      mkBall_def spatial_def plainPage_def Let_def)

lemma animateAll_spatial_last:
  "balls (animateAll_spatial plainPage 1016.67 lastBallState_spatial) = []
   \<and> pendingRemovals (animateAll_spatial plainPage 1016.67 lastBallState_spatial) = [0]"
proof -
  have b: "balls lastBallState_spatial \<noteq> []" "pendingRemovals lastBallState_spatial = []"
    by (simp_all add: lastBallState_spatial_def)
  have c: "collidePairs spatial [(mkBall 0 400 1203.6715 0 5.6715)\<lparr>prevX := Some 400, prevY := Some 1198\<rparr>]
      = [(mkBall 0 400 1203.6715 0 5.6715)\<lparr>prevX := Some 400, prevY := Some 1198\<rparr>]"
    by (simp add: mkBall_def)
  show ?thesis
    unfolding animateAll_spatial_def Let_def ballsBeforePairs_spatial_last c b(2) wallPass_spatial_last
    using b(1) by simp
qed

text \<open>
  The step evaluated on the state whose only ball leaves the page in the frame at
  1016.67 ms: no ball is tracked afterwards, the flag is cleared, no frame is requested,
  and \<open>lastTime\<close> is 1016.67. The first frame of a ball spawned later, at 5000 ms, then
  gets the capped time delta 2, where a reset time stamp would give 0.
\<close>

theorem animateAll_keeps_timestamp_witness:
  "(balls lastBallState \<noteq> []
    \<and> balls (animateAll plainPage 1016.67 lastBallState) = []
    \<and> \<not> animating (animateAll plainPage 1016.67 lastBallState)
    \<and> \<not> frameRequested (animateAll plainPage 1016.67 lastBallState)
    \<and> lastTime (animateAll plainPage 1016.67 lastBallState) = 1016.67
    \<and> deltaTimeOf (lastTime (animateAll plainPage 1016.67 lastBallState)) 5000 = 2)
   \<and> (balls lastBallState_spatial \<noteq> []
    \<and> balls (animateAll_spatial plainPage 1016.67 lastBallState_spatial) = []
    \<and> \<not> animating (animateAll_spatial plainPage 1016.67 lastBallState_spatial)
    \<and> \<not> frameRequested (animateAll_spatial plainPage 1016.67 lastBallState_spatial)
    \<and> lastTime (animateAll_spatial plainPage 1016.67 lastBallState_spatial) = 1016.67
    \<and> deltaTimeOf (lastTime (animateAll_spatial plainPage 1016.67 lastBallState_spatial)) 5000 = 2)
   \<and> deltaTimeOf 0 5000 = 0"
proof -
  have b: "balls lastBallState \<noteq> []" "balls lastBallState_spatial \<noteq> []"
    by (simp_all add: lastBallState_def lastBallState_spatial_def)
  have e: "balls (animateAll plainPage 1016.67 lastBallState) = []"
    unfolding animateAll_last by simp
  have e': "balls (animateAll_spatial plainPage 1016.67 lastBallState_spatial) = []"
    using animateAll_spatial_last by blast
  have d: "deltaTimeOf 1016.67 5000 = 2" "deltaTimeOf 0 5000 = 0"
    by (simp_all add: deltaTimeOf_def)
  note t = animateAll_keeps_timestamp[where s = lastBallState and u = lastBallState_spatial
      and pg = plainPage and t = "1016.67"]
  have l: "lastTime (animateAll plainPage 1016.67 lastBallState) = 1016.67"
    "lastTime (animateAll_spatial plainPage 1016.67 lastBallState_spatial) = 1016.67"
    using t b by blast+
  have a: "\<not> animating (animateAll plainPage 1016.67 lastBallState)"
    "\<not> frameRequested (animateAll plainPage 1016.67 lastBallState)"
    "\<not> animating (animateAll_spatial plainPage 1016.67 lastBallState_spatial)"
    "\<not> frameRequested (animateAll_spatial plainPage 1016.67 lastBallState_spatial)"
    using t b e e' by blast+
  have d': "deltaTimeOf (lastTime (animateAll plainPage 1016.67 lastBallState)) 5000 = 2"
    "deltaTimeOf (lastTime (animateAll_spatial plainPage 1016.67 lastBallState_spatial)) 5000 = 2"
    unfolding l by (rule d)+
  show ?thesis
    using b e e' l a d' d(2) by blast
qed

text \<open>
  A frame is requested only with a ball tracked, so the branch that resets \<open>lastTime\<close> is
  not the one a requested frame takes.
\<close>

lemma frame_requested_nonempty:
  "frameRequested (heroClick onLink cx cy sy rnd s) \<Longrightarrow> \<not> frameRequested s
     \<Longrightarrow> balls (heroClick onLink cx cy sy rnd s) \<noteq> []"
  "frameRequested (animateAll pg t s) \<Longrightarrow> balls (animateAll pg t s) \<noteq> []"
  by (auto simp: heroClick_def createBall_def animateAll_def Let_def split_beta list_ex_filter_active
      split: if_splits)

section \<open>Properties of reveal on scroll\<close>

lemma intersecting_Cons:
  "{t. (t, True) \<in> set ((target, True) # entries)} = insert target {t. (t, True) \<in> set entries}"
  "{t. (t, True) \<in> set ((target, False) # entries)} = {t. (t, True) \<in> set entries}"
  by auto

lemma revealCallback_exact:
  "revealed (revealCallback entries st) = revealed st \<union> {t. (t, True) \<in> set entries}
   \<and> observed (revealCallback entries st) = observed st - {t. (t, True) \<in> set entries}"
proof (induction entries arbitrary: st)
  case Nil
  show ?case by simp
next
  case (Cons x entries)
  consider target where "x = (target, True)" | target where "x = (target, False)"
    by (cases x) auto
  then show ?case
  proof cases
    case 1
    define st' where "st' = st\<lparr>revealed := insert target (revealed st), observed := observed st - {target}\<rparr>"
    have s: "revealed st' = insert target (revealed st)" "observed st' = observed st - {target}"
      by (simp_all add: st'_def)
    have c: "revealCallback ((target, True) # entries) st = revealCallback entries st'"
      by (simp add: st'_def)
    have r: "insert target (revealed st) \<union> {t. (t, True) \<in> set entries}
        = revealed st \<union> insert target {t. (t, True) \<in> set entries}" by blast
    have o: "observed st - {target} - {t. (t, True) \<in> set entries}
        = observed st - insert target {t. (t, True) \<in> set entries}" by blast
    show ?thesis
      unfolding 1 c intersecting_Cons using Cons.IH[of st'] unfolding s r o .
  next
    case 2
    have c: "revealCallback ((target, False) # entries) st = revealCallback entries st"
      by simp
    show ?thesis
      unfolding 2 c intersecting_Cons by (rule Cons.IH)
  qed
qed

text \<open>
  Claim C8, as amended. With the reduced-motion preference active at initialisation,
  every element flagged for scroll reveal is marked revealed immediately with no
  transition: the script adds the class to all of them in the initialisation itself, so
  no flagged element is ever left waiting for a scroll-triggered change. Every one of
  them is still observed, so the observer can still fire for them. Whatever batch of
  entries a later callback receives, the revealed elements are then the flagged ones
  together with the targets reported as intersecting (so the set does not change when the
  targets are flagged elements), and the observed elements are the flagged ones without
  the targets reported as intersecting: every intersecting element of every batch is
  unobserved.
\<close>

theorem initReveal_reduced_motion:
  "revealed (initReveal True reveals) = set reveals
   \<and> observed (initReveal True reveals) = set reveals
   \<and> revealed (revealCallback entries (initReveal True reveals))
       = set reveals \<union> {t. (t, True) \<in> set entries}
   \<and> observed (revealCallback entries (initReveal True reveals))
       = set reveals - {t. (t, True) \<in> set entries}
   \<and> (fst ` set entries \<subseteq> set reveals \<longrightarrow>
        revealed (revealCallback entries (initReveal True reveals)) = set reveals)
   \<and> (\<forall>e \<in> set reveals. (e, True) \<in> set entries \<longrightarrow>
        e \<notin> observed (revealCallback entries (initReveal True reveals)))"
proof -
  have i: "revealed (initReveal True reveals) = set reveals"
    "observed (initReveal True reveals) = set reveals"
    by (simp_all add: initReveal_def)
  note e = revealCallback_exact[of entries "initReveal True reveals", unfolded i]
  have e1: "revealed (revealCallback entries (initReveal True reveals))
       = set reveals \<union> {t. (t, True) \<in> set entries}" using e by (rule conjunct1)
  have e2: "observed (revealCallback entries (initReveal True reveals))
       = set reveals - {t. (t, True) \<in> set entries}" using e by (rule conjunct2)
  have s: "revealed (revealCallback entries (initReveal True reveals)) = set reveals"
    if "fst ` set entries \<subseteq> set reveals"
  proof -
    have "{t. (t, True) \<in> set entries} \<subseteq> fst ` set entries" by force
    then have "{t. (t, True) \<in> set entries} \<subseteq> set reveals" using that by (rule subset_trans)
    then show ?thesis unfolding e1 by blast
  qed
  have u: "e \<notin> observed (revealCallback entries (initReveal True reveals))"
    if "(e, True) \<in> set entries" for e
    unfolding e2 using that by simp
  show ?thesis
    by (intro conjI impI ballI i e1 e2 s u)
qed

text \<open>
  Witness for C8, on three flagged elements and a batch of three entries, two of them
  intersecting.
\<close>

theorem initReveal_reduced_motion_witness:
  "revealed (initReveal True [1, 2, 3]) = {1, 2, 3}
   \<and> observed (initReveal True [1, 2, 3]) = {1, 2, 3}
   \<and> fst ` set [(1, False), (3, True), (2, True)] \<subseteq> set [1, 2, 3]
   \<and> revealed (revealCallback [(1, False), (3, True), (2, True)] (initReveal True [1, 2, 3])) = {1, 2, 3}
   \<and> observed (revealCallback [(1, False), (3, True), (2, True)] (initReveal True [1, 2, 3])) = {1}
   \<and> 2 \<in> set [1, 2, 3::nat]
   \<and> (2::nat, True) \<in> set [(1, False), (3, True), (2, True)]
   \<and> 2 \<notin> observed (revealCallback [(1, False), (3, True), (2, True)] (initReveal True [1, 2, 3]))"
proof -
  let ?es = "[(1::nat, False), (3, True), (2, True)]"
  let ?rs = "[1, 2, 3::nat]"
  have h1: "fst ` set ?es \<subseteq> set ?rs" by simp
  have h2: "(2::nat) \<in> set ?rs" by simp
  have h3: "(2::nat, True) \<in> set ?es" by simp
  have o: "set ?rs - {t. (t, True) \<in> set ?es} = {1}" by auto
  have q: "set ?rs = {1, 2, 3}" by simp
  note t = initReveal_reduced_motion[of ?rs ?es]
  have a1: "revealed (initReveal True ?rs) = set ?rs" using t by (rule conjunct1)
  have a2: "observed (initReveal True ?rs) = set ?rs"
    using t by (rule conjunct2[THEN conjunct1])
  have c0: "observed (revealCallback ?es (initReveal True ?rs)) = set ?rs - {t. (t, True) \<in> set ?es}"
    using t by (rule conjunct2[THEN conjunct2, THEN conjunct2, THEN conjunct1])
  have b0: "fst ` set ?es \<subseteq> set ?rs \<longrightarrow> revealed (revealCallback ?es (initReveal True ?rs)) = set ?rs"
    using t by (rule conjunct2[THEN conjunct2, THEN conjunct2, THEN conjunct2, THEN conjunct1])
  have d0: "\<forall>e \<in> set ?rs. (e, True) \<in> set ?es \<longrightarrow> e \<notin> observed (revealCallback ?es (initReveal True ?rs))"
    using t by (rule conjunct2[THEN conjunct2, THEN conjunct2, THEN conjunct2, THEN conjunct2])
  have b: "revealed (revealCallback ?es (initReveal True ?rs)) = set ?rs" using b0 h1 by (rule mp)
  have d: "2 \<notin> observed (revealCallback ?es (initReveal True ?rs))"
    using d0[THEN bspec, OF h2] h3 by (rule mp)
  show ?thesis
    unfolding a1 a2 b c0[unfolded o] q[symmetric]
    using h1 h2 h3 d[unfolded c0 o] by (intro conjI) (rule refl | assumption | simp)+
qed

text \<open>
  Counterexample for C8 as stated: after initialisation with reduced motion both flagged
  elements are revealed and both are under observation.
\<close>

theorem initReveal_still_observed_counterexample:
  "revealed (initReveal True [1, 2]) = {1, 2}
   \<and> 1 \<in> observed (initReveal True [1, 2])
   \<and> 2 \<in> observed (initReveal True [1, 2])"
  by (simp add: initReveal_def insert_commute)

section \<open>Properties of the physics step\<close>

lemma speed_nonneg: "0 \<le> speed b" by (simp add: speed_def)

lemma speed_scaled:
  "speed (b\<lparr>ball_vx := ball_vx b * k, ball_vy := ball_vy b * k\<rparr>) = speed b * \<bar>k\<bar>"
  by (simp add: speed_def scaled_norm)

lemma clampVelocity_speed:
  assumes "0 \<le> maxVelocity p"
  shows "speed (clampVelocity p b) \<le> maxVelocity p"
proof (cases "speed b > maxVelocity p")
  case False
  then show ?thesis by (simp add: clampVelocity_def speed_def Let_def)
next
  case True
  then have pos: "0 < speed b" using assms by simp
  have "clampVelocity p b = b\<lparr>ball_vx := ball_vx b * (maxVelocity p / speed b),
      ball_vy := ball_vy b * (maxVelocity p / speed b)\<rparr>"
    using True by (simp add: clampVelocity_def speed_def Let_def)
  then have "speed (clampVelocity p b) = speed b * \<bar>maxVelocity p / speed b\<bar>"
    by (simp only: speed_scaled)
  also have "\<dots> = maxVelocity p" using pos assms by simp
  finally show ?thesis by simp
qed

lemma square_mono_abs:
  fixes a b :: real
  assumes "\<bar>a\<bar> \<le> \<bar>b\<bar>"
  shows "a * a \<le> b * b"
proof -
  have "\<bar>a\<bar> * \<bar>a\<bar> \<le> \<bar>b\<bar> * \<bar>b\<bar>" using assms by (intro mult_mono) simp_all
  then show ?thesis by simp
qed

lemma speed_mono:
  assumes "\<bar>ball_vx b'\<bar> \<le> \<bar>ball_vx b\<bar>" "\<bar>ball_vy b'\<bar> \<le> \<bar>ball_vy b\<bar>"
  shows "speed b' \<le> speed b"
  unfolding speed_def
  by (intro real_sqrt_le_mono add_mono square_mono_abs assms)

lemma damp_abs:
  fixes v k :: real
  assumes "0 \<le> k" "k \<le> 1"
  shows "\<bar>\<bar>v\<bar> * k\<bar> \<le> \<bar>v\<bar>" "\<bar>- \<bar>v\<bar> * k\<bar> \<le> \<bar>v\<bar>"
proof -
  have "\<bar>v\<bar> * k \<le> \<bar>v\<bar> * 1" using assms by (intro mult_left_mono) simp_all
  then show "\<bar>\<bar>v\<bar> * k\<bar> \<le> \<bar>v\<bar>" "\<bar>- \<bar>v\<bar> * k\<bar> \<le> \<bar>v\<bar>"
    using assms by (simp_all add: abs_mult)
qed

lemma damped_abs:
  assumes "0 \<le> bounceFactor p" "bounceFactor p \<le> 1" "damped p v v'"
  shows "\<bar>v'\<bar> \<le> \<bar>v\<bar>"
  using assms(3) damp_abs[OF assms(1,2), of v] unfolding damped_def by auto

lemma checkRectCollision_damped:
  "damped p (ball_vx b) (ball_vx (snd (checkRectCollision p b obs)))"
  "damped p (ball_vy b) (ball_vy (snd (checkRectCollision p b obs)))"
  by (simp_all add: checkRectCollision_def damped_def Let_def split: obstacle.splits)

lemma checkRectCollision_speed:
  assumes "0 \<le> bounceFactor p" "bounceFactor p \<le> 1"
  shows "speed (snd (checkRectCollision p b obs)) \<le> speed b"
  by (intro speed_mono damped_abs[OF assms] checkRectCollision_damped)

lemma checkRectCollision_same:
  "active (snd (checkRectCollision p b obs)) = active b"
  "element (snd (checkRectCollision p b obs)) = element b"
  by (simp_all add: checkRectCollision_def Let_def split: obstacle.splits)

lemma wall_damped:
  "damped p (ball_vx b) (ball_vx (leftWall p b))" "ball_vy (leftWall p b) = ball_vy b"
  "damped p (ball_vx b) (ball_vx (rightWall p w b))" "ball_vy (rightWall p w b) = ball_vy b"
  "damped p (ball_vy b) (ball_vy (ceilingWall p c b))" "ball_vx (ceilingWall p c b) = ball_vx b"
  by (simp_all add: leftWall_def rightWall_def ceilingWall_def damped_def Let_def)

lemma wall_same:
  "active (leftWall p b) = active b" "element (leftWall p b) = element b"
  "active (rightWall p w b) = active b" "element (rightWall p w b) = element b"
  "active (ceilingWall p c b) = active b" "element (ceilingWall p c b) = element b"
  by (simp_all add: leftWall_def rightWall_def ceilingWall_def Let_def)

lemma wall_abs:
  assumes "0 \<le> bounceFactor p" "bounceFactor p \<le> 1"
  shows "\<bar>ball_vx (leftWall p b)\<bar> \<le> \<bar>ball_vx b\<bar>" "\<bar>ball_vy (leftWall p b)\<bar> \<le> \<bar>ball_vy b\<bar>"
    "\<bar>ball_vx (rightWall p w b)\<bar> \<le> \<bar>ball_vx b\<bar>" "\<bar>ball_vy (rightWall p w b)\<bar> \<le> \<bar>ball_vy b\<bar>"
    "\<bar>ball_vx (ceilingWall p c b)\<bar> \<le> \<bar>ball_vx b\<bar>" "\<bar>ball_vy (ceilingWall p c b)\<bar> \<le> \<bar>ball_vy b\<bar>"
  using damped_abs[OF assms wall_damped(1), of b] damped_abs[OF assms wall_damped(3), of w b]
    damped_abs[OF assms wall_damped(5), of c b]
  by (simp_all add: wall_damped)

lemma bounceWalls_speed:
  assumes "0 \<le> bounceFactor p" "bounceFactor p \<le> 1"
  shows "speed (bounceWalls p w c b) \<le> speed b"
proof -
  have "speed (leftWall p b) \<le> speed b"
    by (intro speed_mono wall_abs[OF assms])
  moreover have "speed (rightWall p w (leftWall p b)) \<le> speed (leftWall p b)"
    by (intro speed_mono wall_abs[OF assms])
  moreover have "speed (ceilingWall p c (rightWall p w (leftWall p b))) \<le> speed (rightWall p w (leftWall p b))"
    by (intro speed_mono wall_abs[OF assms])
  ultimately show ?thesis by (simp add: bounceWalls_def)
qed

lemma bounceWalls_same:
  "active (bounceWalls p w c b) = active b" "element (bounceWalls p w c b) = element b"
  by (simp_all add: bounceWalls_def wall_same)

lemma wallStep_bound:
  assumes "0 \<le> bounceFactor p" "bounceFactor p \<le> 1"
  shows "speed (fst (wallStep p pg b d)) \<le> speed b"
    and "element (fst (wallStep p pg b d)) = element b"
    and "active (fst (wallStep p pg b d)) \<Longrightarrow> active b"
proof -
  have v: "ball_vx (fst (wallStep p pg b d)) = ball_vx (if active b then bounceWalls p (docWidth pg) (windowScrollY pg) b else b)"
    "ball_vy (fst (wallStep p pg b d)) = ball_vy (if active b then bounceWalls p (docWidth pg) (windowScrollY pg) b else b)"
    by (simp_all add: wallStep_def Let_def)
  have "speed (fst (wallStep p pg b d)) = speed (if active b then bounceWalls p (docWidth pg) (windowScrollY pg) b else b)"
    unfolding speed_def v ..
  then show "speed (fst (wallStep p pg b d)) \<le> speed b"
    using bounceWalls_speed[OF assms, of "docWidth pg" "windowScrollY pg" b] by simp
  show "element (fst (wallStep p pg b d)) = element b"
    by (simp add: wallStep_def Let_def bounceWalls_same)
  show "active (fst (wallStep p pg b d)) \<Longrightarrow> active b"
    by (simp add: wallStep_def Let_def bounceWalls_same split: if_splits)
qed

lemma floorStep_bound:
  assumes "0 \<le> bounceFactor p" "bounceFactor p \<le> 1"
  shows "speed (fst (floorStep p pg t b pend)) \<le> speed b"
    and "element (fst (floorStep p pg t b pend)) = element b"
    and "active (fst (floorStep p pg t b pend)) \<Longrightarrow> active b"
proof -
  have x: "ball_vx (fst (floorStep p pg t b pend)) = ball_vx b"
    by (simp add: floorStep_def Let_def split: option.splits)
  have y: "damped p (ball_vy b) (ball_vy (fst (floorStep p pg t b pend)))"
    by (simp add: floorStep_def damped_def Let_def split: option.splits)
  show "speed (fst (floorStep p pg t b pend)) \<le> speed b"
    by (rule speed_mono) (simp add: x, rule damped_abs[OF assms y])
  show "element (fst (floorStep p pg t b pend)) = element b"
    by (simp add: floorStep_def Let_def split: option.splits)
  show "active (fst (floorStep p pg t b pend)) \<Longrightarrow> active b"
    by (simp add: floorStep_def Let_def split: option.splits if_splits)
qed

lemma wallStep_spatial_bound:
  assumes "0 \<le> bounceFactor p" "bounceFactor p \<le> 1"
  shows "speed (fst (wallStep_spatial p pg t b pend)) \<le> speed b"
    and "element (fst (wallStep_spatial p pg t b pend)) = element b"
    and "active (fst (wallStep_spatial p pg t b pend)) \<Longrightarrow> active b"
proof -
  define b3 where "b3 = bounceWalls p (docWidth pg) 0 b"
  have s3: "speed b3 \<le> speed b" unfolding b3_def by (rule bounceWalls_speed[OF assms])
  have e3: "element b3 = element b" "active b3 = active b" by (simp_all add: b3_def bounceWalls_same)
  note f = floorStep_bound[OF assms, of pg t b3 pend]
  have c: "fst (wallStep_spatial p pg t b pend) =
      (if active b then (if ball_y b3 > docHeight pg + 200 then b3\<lparr>active := False\<rparr>
         else fst (floorStep p pg t b3 pend)) else b)"
    by (simp add: wallStep_spatial_def Let_def b3_def)
  have i: "speed (b3\<lparr>active := False\<rparr>) = speed b3" by (simp add: speed_def)
  show "speed (fst (wallStep_spatial p pg t b pend)) \<le> speed b"
    using s3 f(1) by (simp add: c i)
  show "element (fst (wallStep_spatial p pg t b pend)) = element b"
    using f(2) by (simp add: c e3)
  show "active (fst (wallStep_spatial p pg t b pend)) \<Longrightarrow> active b"
    by (simp add: c split: if_splits)
qed

lemma wallPass_bound:
  assumes "0 \<le> bounceFactor p" "bounceFactor p \<le> 1"
    and "b' \<in> set (fst (wallPass p pg bs d))" "active b'"
  shows "\<exists>b \<in> set bs. active b \<and> element b' = element b \<and> speed b' \<le> speed b"
  using assms(3)
proof (induction bs arbitrary: d)
  case Nil
  then show ?case by simp
next
  case (Cons a bs)
  have "b' = fst (wallStep p pg a d) \<or> b' \<in> set (fst (wallPass p pg bs (snd (wallStep p pg a d))))"
    using Cons.prems by (simp add: split_beta Let_def)
  then show ?case
  proof
    assume "b' = fst (wallStep p pg a d)"
    then have "active a \<and> element b' = element a \<and> speed b' \<le> speed a"
      using wallStep_bound[OF assms(1,2), of pg a d] assms(4) by simp
    then show ?thesis by auto
  next
    assume "b' \<in> set (fst (wallPass p pg bs (snd (wallStep p pg a d))))"
    then show ?thesis using Cons.IH by auto
  qed
qed

lemma wallPass_spatial_bound:
  assumes "0 \<le> bounceFactor p" "bounceFactor p \<le> 1"
    and "b' \<in> set (fst (wallPass_spatial p pg t bs pend))" "active b'"
  shows "\<exists>b \<in> set bs. active b \<and> element b' = element b \<and> speed b' \<le> speed b"
  using assms(3)
proof (induction bs arbitrary: pend)
  case Nil
  then show ?case by simp
next
  case (Cons a bs)
  have "b' = fst (wallStep_spatial p pg t a pend)
      \<or> b' \<in> set (fst (wallPass_spatial p pg t bs (snd (wallStep_spatial p pg t a pend))))"
    using Cons.prems by (simp add: split_beta Let_def)
  then show ?case
  proof
    assume "b' = fst (wallStep_spatial p pg t a pend)"
    then have "active a \<and> element b' = element a \<and> speed b' \<le> speed a"
      using wallStep_spatial_bound[OF assms(1,2), of pg t a pend] assms(4) by simp
    then show ?thesis by auto
  next
    assume "b' \<in> set (fst (wallPass_spatial p pg t bs (snd (wallStep_spatial p pg t a pend))))"
    then show ?thesis using Cons.IH by auto
  qed
qed

lemma applyForces_speed:
  assumes "0 \<le> maxVelocity p" "active b"
  shows "speed (applyForces p dt b) \<le> maxVelocity p" and "active (applyForces p dt b)"
proof -
  define b2 where "b2 = b\<lparr>ball_vy := ball_vy b + gravity p * dt\<rparr>
      \<lparr>ball_vx := ball_vx b * Math_pow (airResistance p) dt,
       ball_vy := (ball_vy b + gravity p * dt) * Math_pow (airResistance p) dt\<rparr>"
  define b3 where "b3 = clampVelocity p b2"
  have e: "applyForces p dt b = b3\<lparr>ball_x := ball_x b3 + ball_vx b3 * dt,
      ball_y := ball_y b3 + ball_vy b3 * dt\<rparr>"
    using assms(2) by (simp add: applyForces_def Let_def b3_def b2_def)
  have "speed (applyForces p dt b) = speed b3" unfolding e by (simp add: speed_def)
  then show "speed (applyForces p dt b) \<le> maxVelocity p"
    using clampVelocity_speed[OF assms(1), of b2] by (simp add: b3_def)
  have "active b3 = active b2" by (simp add: b3_def clampVelocity_def Let_def)
  then show "active (applyForces p dt b)" using assms(2) by (simp add: e b2_def)
qed

lemma applyForces_spatial_speed:
  assumes "0 \<le> maxVelocity p" "active b"
  shows "speed (applyForces_spatial p mx my dt b) \<le> maxVelocity p"
    and "active (applyForces_spatial p mx my dt b)"
proof -
  define bm where "bm = applyCursorMagnetism mx my (b\<lparr>prevX := Some (ball_x b), prevY := Some (ball_y b)\<rparr>)"
  define b2 where "b2 = bm\<lparr>ball_vy := ball_vy bm + gravity p * dt\<rparr>
      \<lparr>ball_vx := ball_vx bm * Math_pow (airResistance p) dt,
       ball_vy := (ball_vy bm + gravity p * dt) * Math_pow (airResistance p) dt\<rparr>"
  define b3 where "b3 = clampVelocity p b2"
  have e: "applyForces_spatial p mx my dt b = b3\<lparr>ball_x := ball_x b3 + ball_vx b3 * dt,
      ball_y := ball_y b3 + ball_vy b3 * dt\<rparr>"
    using assms(2) by (simp add: applyForces_spatial_def Let_def b3_def b2_def bm_def)
  have "speed (applyForces_spatial p mx my dt b) = speed b3" unfolding e by (simp add: speed_def)
  then show "speed (applyForces_spatial p mx my dt b) \<le> maxVelocity p"
    using clampVelocity_speed[OF assms(1), of b2] by (simp add: b3_def)
  have "active bm = active b" by (simp add: bm_def applyCursorMagnetism_def Let_def)
  moreover have "active b3 = active b2" by (simp add: b3_def clampVelocity_def Let_def)
  ultimately show "active (applyForces_spatial p mx my dt b)" using assms(2) by (simp add: e b2_def)
qed

lemma normalized_le_one:
  fixes a b :: real
  shows "(a / orOne (Math_hypot a b)) * (a / orOne (Math_hypot a b))
       + (b / orOne (Math_hypot a b)) * (b / orOne (Math_hypot a b)) \<le> 1"
proof (cases "Math_hypot a b = 0")
  case True
  then have "a * a + b * b = 0" by (simp add: Math_hypot_def)
  then have "a = 0 \<and> b = 0" by (simp add: sum_squares_eq_zero_iff)
  then show ?thesis by simp
next
  case False
  define h where "h = Math_hypot a b"
  have h: "h \<noteq> 0" "orOne h = h" using False by (simp_all add: h_def orOne_def)
  have hh: "h * h = a * a + b * b"
    by (simp add: h_def Math_hypot_def)
  have "(a / h) * (a / h) + (b / h) * (b / h) = (a * a + b * b) / (h * h)"
    by (simp add: add_divide_distrib)
  also have "\<dots> = 1" using h(1) by (simp add: hh[symmetric])
  finally show ?thesis by (simp add: h_def[symmetric] h(2))
qed

lemma collisionNormal_le_one:
  "fst (collisionNormal b m sx sy) * fst (collisionNormal b m sx sy)
   + snd (collisionNormal b m sx sy) * snd (collisionNormal b m sx sy) \<le> 1"
  unfolding collisionNormal_def Let_def split_beta fst_conv snd_conv
  by (rule normalized_le_one)

lemma reflect_norm:
  fixes vx vy nx ny :: real
  assumes "nx * nx + ny * ny \<le> 1"
  shows "(vx - 2 * (vx * nx + vy * ny) * nx) * (vx - 2 * (vx * nx + vy * ny) * nx)
       + (vy - 2 * (vx * nx + vy * ny) * ny) * (vy - 2 * (vx * nx + vy * ny) * ny)
       \<le> vx * vx + vy * vy"
proof -
  define d where "d = vx * nx + vy * ny"
  have "(vx - 2 * d * nx) * (vx - 2 * d * nx) + (vy - 2 * d * ny) * (vy - 2 * d * ny)
        = vx * vx + vy * vy - 4 * d * (vx * nx + vy * ny) + 4 * (d * d) * (nx * nx + ny * ny)"
    by (simp add: algebra_simps)
  also have "\<dots> = vx * vx + vy * vy - 4 * (d * d) * (1 - (nx * nx + ny * ny))"
    by (simp add: d_def algebra_simps)
  also have "\<dots> \<le> vx * vx + vy * vy"
  proof -
    have a: "0 \<le> 4 * (d * d)" by simp
    have b: "0 \<le> 1 - (nx * nx + ny * ny)" using assms by simp
    have "0 \<le> 4 * (d * d) * (1 - (nx * nx + ny * ny))"
      by (rule mult_nonneg_nonneg[OF a b])
    then show ?thesis by linarith
  qed
  finally show ?thesis by (simp add: d_def)
qed

lemma checkMaskCollision_speed:
  assumes "0 \<le> bounceFactor p" "bounceFactor p \<le> 1"
  shows "speed (snd (checkMaskCollision p b obs)) \<le> speed b"
proof (cases "maskHit p b obs")
  case False
  then show ?thesis by (simp add: checkMaskCollision_def)
next
  case True
  obtain nx ny where n: "collisionNormal b (obs_mask obs) (maskSampleX b obs) (maskSampleY b obs) = (nx, ny)"
    by (cases "collisionNormal b (obs_mask obs) (maskSampleX b obs) (maskSampleY b obs)")
  have u: "nx * nx + ny * ny \<le> 1"
    using collisionNormal_le_one[of b "obs_mask obs" "maskSampleX b obs" "maskSampleY b obs"]
    by (simp add: n)
  define X where "X = ball_vx b - 2 * (ball_vx b * nx + ball_vy b * ny) * nx"
  define Y where "Y = ball_vy b - 2 * (ball_vx b * nx + ball_vy b * ny) * ny"
  note v = checkMaskCollision_velocity[OF True n, folded X_def Y_def]
  have r: "X * X + Y * Y \<le> ball_vx b * ball_vx b + ball_vy b * ball_vy b"
    unfolding X_def Y_def by (rule reflect_norm[OF u])
  have "speed (snd (checkMaskCollision p b obs)) = sqrt (X * X + Y * Y) * \<bar>bounceFactor p\<bar>"
    unfolding speed_def v by (rule scaled_norm)
  also have "\<dots> \<le> sqrt (X * X + Y * Y) * 1"
    using assms by (intro mult_left_mono) simp_all
  also have "\<dots> \<le> speed b" using r by (simp add: speed_def)
  finally show ?thesis .
qed

lemma checkMaskCollision_same:
  "active (snd (checkMaskCollision p b obs)) = active b"
  "element (snd (checkMaskCollision p b obs)) = element b"
  by (simp_all add: checkMaskCollision_def Let_def split_beta)

lemma collideObstacles_bound:
  assumes "0 \<le> bounceFactor p" "bounceFactor p \<le> 1"
  shows "speed (collideObstacles p obstacles b) \<le> speed b
       \<and> active (collideObstacles p obstacles b) = active b"
proof (induction obstacles arbitrary: b)
  case Nil
  show ?case by simp
next
  case (Cons obs rest)
  have "speed (collideObstacles p rest (snd (checkRectCollision p b obs)))
          \<le> speed (snd (checkRectCollision p b obs))"
    using Cons.IH by blast
  also have "\<dots> \<le> speed b" by (rule checkRectCollision_speed[OF assms])
  finally show ?case using Cons.IH[of "snd (checkRectCollision p b obs)"]
    by (simp add: checkRectCollision_same)
qed

lemma collideObstacles_spatial_bound:
  assumes "0 \<le> bounceFactor p" "bounceFactor p \<le> 1"
  shows "speed (collideObstacles_spatial p obstacles b) \<le> speed b
       \<and> active (collideObstacles_spatial p obstacles b) = active b"
proof (induction obstacles arbitrary: b)
  case Nil
  show ?case by simp
next
  case (Cons obs rest)
  define b1 where "b1 = (case obs of
          RectObs l r t bo \<Rightarrow> snd (checkRectCollision p b obs)
        | MaskObs l r t bo w h m \<Rightarrow> snd (checkMaskCollision p b obs))"
  have s: "speed b1 \<le> speed b" and a: "active b1 = active b"
    using checkRectCollision_speed[OF assms, of b obs] checkMaskCollision_speed[OF assms, of b obs]
    by (cases obs; simp add: b1_def checkRectCollision_same checkMaskCollision_same)+
  have "speed (collideObstacles_spatial p rest b1) \<le> speed b1"
    using Cons.IH by blast
  then show ?case using s a Cons.IH[of b1] by (simp add: b1_def[symmetric])
qed

lemma obstaclePass_bound:
  assumes "0 \<le> bounceFactor p" "bounceFactor p \<le> 1"
  shows "speed (obstaclePass p obstacles b) \<le> speed b"
    and "active (obstaclePass p obstacles b) = active b"
    and "speed (obstaclePass_spatial p obstacles b) \<le> speed b"
    and "active (obstaclePass_spatial p obstacles b) = active b"
  using collideObstacles_bound[OF assms, of obstacles b]
    collideObstacles_spatial_bound[OF assms, of obstacles b]
  by (simp_all add: obstaclePass_def obstaclePass_spatial_def)

lemma params_ok:
  "0 \<le> bounceFactor portfolio" "bounceFactor portfolio \<le> 1" "0 \<le> maxVelocity portfolio"
  "0 \<le> bounceFactor spatial" "bounceFactor spatial \<le> 1" "0 \<le> maxVelocity spatial"
  by (simp_all add: portfolio_def spatial_def)

lemma applyForces_inactive:
  "\<not> active b \<Longrightarrow> applyForces p dt b = b"
  "\<not> active b \<Longrightarrow> applyForces_spatial p mx my dt b = b"
  by (simp_all add: applyForces_def applyForces_spatial_def)

lemma ballsBeforePairs_speed:
  assumes "b \<in> set (ballsBeforePairs pg t s)" "active b"
  shows "speed b \<le> maxVelocity portfolio"
proof -
  obtain b0 where b0: "b0 \<in> set (balls s)"
    and b: "b = obstaclePass portfolio (getObstacles (windowScrollY pg) (obstacleElements pg))
              (applyForces portfolio (deltaTimeOf (lastTime s) t) b0)"
    using assms(1) by (auto simp: ballsBeforePairs_def)
  define b1 where "b1 = applyForces portfolio (deltaTimeOf (lastTime s) t) b0"
  have a1: "active b1" using assms(2) obstaclePass_bound(2)[OF params_ok(1,2)] by (simp add: b b1_def)
  have a0: "active b0"
  proof (rule ccontr)
    assume n: "\<not> active b0"
    then have "b1 = b0" by (simp add: b1_def applyForces_inactive)
    then show False using a1 n by simp
  qed
  have "speed b \<le> speed b1" unfolding b b1_def by (rule obstaclePass_bound(1)[OF params_ok(1,2)])
  also have "\<dots> \<le> maxVelocity portfolio"
    unfolding b1_def by (rule applyForces_speed(1)[OF params_ok(3) a0])
  finally show ?thesis .
qed

lemma ballsBeforePairs_spatial_speed:
  assumes "b \<in> set (ballsBeforePairs_spatial pg t s)" "active b"
  shows "speed b \<le> maxVelocity spatial"
proof -
  obtain b0 where b0: "b0 \<in> set (balls s)"
    and b: "b = obstaclePass_spatial spatial (obstacleCache (refreshObstacles pg t s))
              (applyForces_spatial spatial (cursorX pg) (cursorY pg) (deltaTimeOf (lastTime s) t) b0)"
    using assms(1) by (auto simp: ballsBeforePairs_spatial_def)
  define b1 where "b1 = applyForces_spatial spatial (cursorX pg) (cursorY pg) (deltaTimeOf (lastTime s) t) b0"
  have a1: "active b1" using assms(2) obstaclePass_bound(4)[OF params_ok(4,5)] by (simp add: b b1_def)
  have a0: "active b0"
  proof (rule ccontr)
    assume n: "\<not> active b0"
    then have "b1 = b0" by (simp add: b1_def applyForces_inactive)
    then show False using a1 n by simp
  qed
  have "speed b \<le> speed b1" unfolding b b1_def by (rule obstaclePass_bound(3)[OF params_ok(4,5)])
  also have "\<dots> \<le> maxVelocity spatial"
    unfolding b1_def by (rule applyForces_spatial_speed(1)[OF params_ok(6) a0])
  finally show ?thesis .
qed

lemma animateAll_balls:
  "balls (animateAll pg t s) =
     (if balls s = [] then []
      else filter active (fst (wallPass portfolio pg
             (collidePairs portfolio (ballsBeforePairs pg t s)) (attached s))))"
  by (simp add: animateAll_def Let_def split_beta)

lemma animateAll_spatial_balls:
  "balls (animateAll_spatial pg t s) =
     (if balls s = [] then []
      else filter active (fst (wallPass_spatial spatial pg t
             (collidePairs spatial (ballsBeforePairs_spatial pg t s)) (pendingRemovals s))))"
  by (simp add: animateAll_spatial_def Let_def split_beta)

lemma animateAll_after_pairs:
  assumes "b' \<in> set (balls (animateAll pg t s))"
  shows "\<exists>b \<in> set (collidePairs portfolio (ballsBeforePairs pg t s)).
           active b \<and> element b' = element b \<and> speed b' \<le> speed b"
proof -
  have "b' \<in> set (fst (wallPass portfolio pg (collidePairs portfolio (ballsBeforePairs pg t s)) (attached s)))"
    and "active b'"
    using assms by (auto simp: animateAll_balls split: if_splits)
  then show ?thesis by (rule wallPass_bound[OF params_ok(1,2)])
qed

lemma animateAll_spatial_after_pairs:
  assumes "b' \<in> set (balls (animateAll_spatial pg t s))"
  shows "\<exists>b \<in> set (collidePairs spatial (ballsBeforePairs_spatial pg t s)).
           active b \<and> element b' = element b \<and> speed b' \<le> speed b"
proof -
  have "b' \<in> set (fst (wallPass_spatial spatial pg t
          (collidePairs spatial (ballsBeforePairs_spatial pg t s)) (pendingRemovals s)))"
    and "active b'"
    using assms by (auto simp: animateAll_spatial_balls split: if_splits)
  then show ?thesis by (rule wallPass_spatial_bound[OF params_ok(4,5)])
qed

text \<open>The frame at 1016.67 ms on the two overlapping balls, stage by stage.\<close>

lemma plainPage_obstacles:
  "getObstacles (windowScrollY plainPage) (obstacleElements plainPage) = []"
  by (simp add: getObstacles_def plainPage_def List.map_filter_simps)

lemma applyForces_colliding:
  "applyForces portfolio 1 (mkBall 0 100 900 18 20) = mkBall 0 117.856 920.4352 17.856 20.4352"
  "applyForces portfolio 1 (mkBall 1 133.856 891.072 0 29) = mkBall 1 133.856 920.4352 0 29.3632"
  by (simp_all add: applyForces_def clampVelocity_def Math_pow_def mkBall_def portfolio_def Let_def
      less_sqrt_iff)

lemma ballsBeforePairs_colliding:
  "ballsBeforePairs plainPage 1016.67 collidingState
     = [mkBall 0 117.856 920.4352 17.856 20.4352, mkBall 1 133.856 920.4352 0 29.3632]"
proof -
  have dt: "deltaTimeOf (lastTime collidingState) 1016.67 = 1"
    by (simp add: deltaTimeOf_def collidingState_def)
  have b: "balls collidingState = [mkBall 0 100 900 18 20, mkBall 1 133.856 891.072 0 29]"
    by (simp add: collidingState_def)
  show ?thesis
    unfolding ballsBeforePairs_def dt plainPage_obstacles b list.map applyForces_colliding
    by (simp add: obstaclePass_def)
qed

lemma resolve_colliding:
  "resolveBallCollision portfolio (mkBall 0 117.856 920.4352 17.856 20.4352)
       (mkBall 1 133.856 920.4352 0 29.3632)
     = (mkBall 0 115.856 920.4352 5.8032 20.4352, mkBall 1 135.856 920.4352 12.0528 29.3632)"
  by (simp add: resolveBallCollision_def mkBall_def portfolio_def Let_def sqrt_256)

lemma collidePairs_colliding:
  "collidePairs portfolio [mkBall 0 117.856 920.4352 17.856 20.4352, mkBall 1 133.856 920.4352 0 29.3632]
     = [mkBall 0 115.856 920.4352 5.8032 20.4352, mkBall 1 135.856 920.4352 12.0528 29.3632]"
proof -
  have a: "active (mkBall 0 117.856 920.4352 17.856 20.4352)" "active (mkBall 1 133.856 920.4352 0 29.3632)"
    "active (mkBall 1 135.856 920.4352 12.0528 29.3632)"
    by (simp_all add: mkBall_def)
  have w: "collideWith portfolio (mkBall 0 117.856 920.4352 17.856 20.4352) [mkBall 1 133.856 920.4352 0 29.3632]
     = (mkBall 0 115.856 920.4352 5.8032 20.4352, [mkBall 1 135.856 920.4352 12.0528 29.3632])"
    unfolding collideWith.simps resolve_colliding using a by simp
  show ?thesis
    unfolding collidePairs.simps w using a by simp
qed

lemma wallPass_colliding:
  "wallPass portfolio plainPage
       [mkBall 0 115.856 920.4352 5.8032 20.4352, mkBall 1 135.856 920.4352 12.0528 29.3632] [0, 1]
     = ([mkBall 0 115.856 920.4352 5.8032 20.4352, mkBall 1 135.856 920.4352 12.0528 29.3632], [0, 1])"
  by (simp add: wallStep_def bounceWalls_def leftWall_def rightWall_def ceilingWall_def mkBall_def
      portfolio_def plainPage_def Let_def)

lemma animateAll_colliding:
  "balls (animateAll plainPage 1016.67 collidingState)
     = [mkBall 0 115.856 920.4352 5.8032 20.4352, mkBall 1 135.856 920.4352 12.0528 29.3632]"
proof -
  have b: "balls collidingState \<noteq> []" "attached collidingState = [0, 1]"
    by (simp_all add: collidingState_def)
  have a: "filter active [mkBall 0 115.856 920.4352 5.8032 20.4352, mkBall 1 135.856 920.4352 12.0528 29.3632]
      = [mkBall 0 115.856 920.4352 5.8032 20.4352, mkBall 1 135.856 920.4352 12.0528 29.3632]"
    by (simp add: mkBall_def)
  show ?thesis
    unfolding animateAll_balls ballsBeforePairs_colliding collidePairs_colliding b(2)
      wallPass_colliding fst_conv a
    using b(1) by simp
qed

text \<open>
  Counterexample for C2 as stated: two portfolio balls with speeds below 30 collide in
  the step, and the second ends the complete step with a speed above 30 (its velocity is
  (12.0528, 29.3632)).
\<close>

theorem step_speed_counterexample:
  "balls collidingState = [mkBall 0 100 900 18 20, mkBall 1 133.856 891.072 0 29]
   \<and> speed (mkBall 0 100 900 18 20) \<le> maxVelocity portfolio
   \<and> speed (mkBall 1 133.856 891.072 0 29) \<le> maxVelocity portfolio
   \<and> balls (animateAll plainPage 1016.67 collidingState)
       = [mkBall 0 115.856 920.4352 5.8032 20.4352, mkBall 1 135.856 920.4352 12.0528 29.3632]
   \<and> maxVelocity portfolio < speed (mkBall 1 135.856 920.4352 12.0528 29.3632)"
proof -
  have s: "speed (mkBall 0 100 900 18 20) \<le> maxVelocity portfolio"
    "speed (mkBall 1 133.856 891.072 0 29) \<le> maxVelocity portfolio"
    "maxVelocity portfolio < speed (mkBall 1 135.856 920.4352 12.0528 29.3632)"
    by (simp_all add: speed_def mkBall_def portfolio_def less_sqrt_iff not_less[symmetric])
  have b: "balls collidingState = [mkBall 0 100 900 18 20, mkBall 1 133.856 891.072 0 29]"
    by (simp add: collidingState_def)
  show ?thesis using s b animateAll_colliding by blast
qed

text \<open>
  A sufficient condition for the pair loop to change nothing: no two active balls
  overlap when it starts. Then every ball ends the complete step within the maximum.
\<close>

lemma resolveBallCollision_clear:
  assumes "ballRadius p * 2 \<le> centerDistance a b"
  shows "resolveBallCollision p a b = (a, b)"
proof (cases "centerDistance a b = 0")
  case True
  then have "ballRadius p * 2 \<le> 0" using assms by simp
  then have "\<not> (0.01 < ballRadius p * 2)" by simp
  then show ?thesis using True
    by (simp add: resolveBallCollision_def centerDistance_def Let_def)
next
  case False
  then show ?thesis using assms
    by (simp add: resolveBallCollision_def centerDistance_def Let_def)
qed

lemma collideWith_clear:
  assumes "list_all (\<lambda>b. if active b then ballRadius p * 2 \<le> centerDistance a b else True) bs"
  shows "collideWith p a bs = (a, bs)"
  using assms
proof (induction bs)
  case Nil
  show ?case by simp
next
  case (Cons b bs)
  then have r: "collideWith p a bs = (a, bs)" by simp
  show ?case
  proof (cases "active b")
    case True
    then have "resolveBallCollision p a b = (a, b)"
      using Cons.prems by (simp add: resolveBallCollision_clear)
    then show ?thesis using True r by simp
  next
    case False
    then show ?thesis using r by simp
  qed
qed

lemma collidePairs_clear: "noOverlap p bs \<Longrightarrow> collidePairs p bs = bs"
proof (induction bs)
  case Nil
  show ?case by simp
next
  case (Cons a bs)
  then have r: "collidePairs p bs = bs" by simp
  show ?case
  proof (cases "active a")
    case True
    then have "collideWith p a bs = (a, bs)"
      using Cons.prems by (simp add: collideWith_clear)
    then show ?thesis using True r by simp
  next
    case False
    then show ?thesis using r by simp
  qed
qed

lemma step_speed_no_overlap:
  assumes "noOverlap portfolio (ballsBeforePairs pg t s)"
    and "b' \<in> set (balls (animateAll pg t s))"
  shows "speed b' \<le> maxVelocity portfolio"
proof -
  have "collidePairs portfolio (ballsBeforePairs pg t s) = ballsBeforePairs pg t s"
    using assms(1) by (rule collidePairs_clear)
  then obtain b where "b \<in> set (ballsBeforePairs pg t s)" "active b" "speed b' \<le> speed b"
    using animateAll_after_pairs[OF assms(2)] by auto
  then show ?thesis using ballsBeforePairs_speed[of b pg t s] by simp
qed

lemma step_speed_no_overlap_spatial:
  assumes "noOverlap spatial (ballsBeforePairs_spatial pg t u)"
    and "b' \<in> set (balls (animateAll_spatial pg t u))"
  shows "speed b' \<le> maxVelocity spatial"
proof -
  have "collidePairs spatial (ballsBeforePairs_spatial pg t u) = ballsBeforePairs_spatial pg t u"
    using assms(1) by (rule collidePairs_clear)
  then obtain b where "b \<in> set (ballsBeforePairs_spatial pg t u)" "active b" "speed b' \<le> speed b"
    using animateAll_spatial_after_pairs[OF assms(2)] by auto
  then show ?thesis using ballsBeforePairs_spatial_speed[of b pg t u] by simp
qed

text \<open>
  The pair loop and the wall loop keep the array's length and order; ball by ball, the
  pair loop keeps the element and the active flag, and the wall loop keeps the element
  and does not raise the speed.
\<close>

lemma resolve_same:
  "active (fst (resolveBallCollision p a b)) = active a"
  "element (fst (resolveBallCollision p a b)) = element a"
  "active (snd (resolveBallCollision p a b)) = active b"
  "element (snd (resolveBallCollision p a b)) = element b"
  by (simp_all add: resolveBallCollision_def Let_def)

lemma collideWith_same:
  "active (fst (collideWith p a bs)) = active a
   \<and> element (fst (collideWith p a bs)) = element a
   \<and> map active (snd (collideWith p a bs)) = map active bs
   \<and> map element (snd (collideWith p a bs)) = map element bs"
proof (induction bs arbitrary: a)
  case Nil
  show ?case by simp
next
  case (Cons b bs)
  show ?case
  proof (cases "active b")
    case True
    show ?thesis
      using Cons.IH[of "fst (resolveBallCollision p a b)"] True
      by (simp add: split_beta Let_def resolve_same)
  next
    case False
    show ?thesis using Cons.IH[of a] False by (simp add: split_beta Let_def)
  qed
qed

lemma collidePairs_same:
  "map active (collidePairs p bs) = map active bs
   \<and> map element (collidePairs p bs) = map element bs"
proof (induction "length bs" arbitrary: bs)
  case 0
  then show ?case by simp
next
  case (Suc n)
  then obtain a rest where bs: "bs = a # rest" and n: "n = length rest"
    by (cases bs) auto
  show ?case
  proof (cases "active a")
    case True
    define a' where "a' = fst (collideWith p a rest)"
    define rest' where "rest' = snd (collideWith p a rest)"
    have c: "collidePairs p bs = a' # collidePairs p rest'"
      using True by (simp add: bs split_beta Let_def a'_def rest'_def)
    have l: "n = length rest'" by (simp add: rest'_def collideWith_length n)
    note w = collideWith_same[of p a rest, folded a'_def rest'_def]
    show ?thesis unfolding c using Suc.hyps(1)[OF l] w True by (simp add: bs)
  next
    case False
    show ?thesis using Suc.hyps(1)[OF n] False by (simp add: bs)
  qed
qed

lemma collidePairs_nth:
  assumes "i < length bs"
  shows "active (collidePairs p bs ! i) = active (bs ! i)"
    and "element (collidePairs p bs ! i) = element (bs ! i)"
    and "length (collidePairs p bs) = length bs"
proof -
  have l: "length (collidePairs p bs) = length bs"
    using collidePairs_same[of p bs] by (metis length_map)
  show "length (collidePairs p bs) = length bs" by (rule l)
  have "map active (collidePairs p bs) ! i = map active bs ! i"
    using collidePairs_same[of p bs] by simp
  then show "active (collidePairs p bs ! i) = active (bs ! i)" using assms l by simp
  have "map element (collidePairs p bs) ! i = map element bs ! i"
    using collidePairs_same[of p bs] by simp
  then show "element (collidePairs p bs ! i) = element (bs ! i)" using assms l by simp
qed

lemma collidePairs_length: "length (collidePairs p bs) = length bs"
  using collidePairs_same[of p bs] by (metis length_map)

lemma wallPass_length: "length (fst (wallPass p pg bs d)) = length bs"
  by (induction bs arbitrary: d) (simp_all add: split_beta Let_def)

lemma wallPass_spatial_length: "length (fst (wallPass_spatial p pg t bs pend)) = length bs"
  by (induction bs arbitrary: pend) (simp_all add: split_beta Let_def)

lemma wallPass_nth:
  assumes "i < length bs"
  shows "\<exists>d'. fst (wallPass p pg bs d) ! i = fst (wallStep p pg (bs ! i) d')"
  using assms
proof (induction bs arbitrary: d i)
  case Nil
  then show ?case by simp
next
  case (Cons a bs)
  show ?case
  proof (cases i)
    case 0
    then show ?thesis by (auto simp: split_beta Let_def)
  next
    case (Suc k)
    then have "k < length bs" using Cons.prems by simp
    then obtain d' where "fst (wallPass p pg bs (snd (wallStep p pg a d))) ! k = fst (wallStep p pg (bs ! k) d')"
      using Cons.IH by blast
    then show ?thesis using Suc by (auto simp: split_beta Let_def)
  qed
qed

lemma wallPass_spatial_nth:
  assumes "i < length bs"
  shows "\<exists>d'. fst (wallPass_spatial p pg t bs pend) ! i = fst (wallStep_spatial p pg t (bs ! i) d')"
  using assms
proof (induction bs arbitrary: pend i)
  case Nil
  then show ?case by simp
next
  case (Cons a bs)
  show ?case
  proof (cases i)
    case 0
    then show ?thesis by (auto simp: split_beta Let_def)
  next
    case (Suc k)
    then have "k < length bs" using Cons.prems by simp
    then obtain d' where "fst (wallPass_spatial p pg t bs (snd (wallStep_spatial p pg t a pend))) ! k
        = fst (wallStep_spatial p pg t (bs ! k) d')"
      using Cons.IH by blast
    then show ?thesis using Suc by (auto simp: split_beta Let_def)
  qed
qed

lemma wallPass_nth_bound:
  assumes "0 \<le> bounceFactor p" "bounceFactor p \<le> 1" "i < length bs"
  shows "speed (fst (wallPass p pg bs d) ! i) \<le> speed (bs ! i)"
    and "element (fst (wallPass p pg bs d) ! i) = element (bs ! i)"
    and "active (fst (wallPass p pg bs d) ! i) \<Longrightarrow> active (bs ! i)"
proof -
  obtain d' where e: "fst (wallPass p pg bs d) ! i = fst (wallStep p pg (bs ! i) d')"
    using wallPass_nth[OF assms(3)] by blast
  show "speed (fst (wallPass p pg bs d) ! i) \<le> speed (bs ! i)"
    unfolding e by (rule wallStep_bound(1)[OF assms(1,2)])
  show "element (fst (wallPass p pg bs d) ! i) = element (bs ! i)"
    unfolding e by (rule wallStep_bound(2)[OF assms(1,2)])
  show "active (fst (wallPass p pg bs d) ! i) \<Longrightarrow> active (bs ! i)"
    unfolding e by (rule wallStep_bound(3)[OF assms(1,2)])
qed

lemma wallPass_spatial_nth_bound:
  assumes "0 \<le> bounceFactor p" "bounceFactor p \<le> 1" "i < length bs"
  shows "speed (fst (wallPass_spatial p pg t bs pend) ! i) \<le> speed (bs ! i)"
    and "element (fst (wallPass_spatial p pg t bs pend) ! i) = element (bs ! i)"
    and "active (fst (wallPass_spatial p pg t bs pend) ! i) \<Longrightarrow> active (bs ! i)"
proof -
  obtain d' where e: "fst (wallPass_spatial p pg t bs pend) ! i = fst (wallStep_spatial p pg t (bs ! i) d')"
    using wallPass_spatial_nth[OF assms(3)] by blast
  show "speed (fst (wallPass_spatial p pg t bs pend) ! i) \<le> speed (bs ! i)"
    unfolding e by (rule wallStep_spatial_bound(1)[OF assms(1,2)])
  show "element (fst (wallPass_spatial p pg t bs pend) ! i) = element (bs ! i)"
    unfolding e by (rule wallStep_spatial_bound(2)[OF assms(1,2)])
  show "active (fst (wallPass_spatial p pg t bs pend) ! i) \<Longrightarrow> active (bs ! i)"
    unfolding e by (rule wallStep_spatial_bound(3)[OF assms(1,2)])
qed

lemma animateAll_filter: "balls (animateAll pg t s) = filter active (ballsAfterWalls pg t s)"
proof (cases "balls s = []")
  case True
  then have "ballsBeforePairs pg t s = []" by (simp add: ballsBeforePairs_def)
  then show ?thesis using True
    by (simp add: animateAll_balls ballsAfterWalls_def ballsAfterPairs_def)
next
  case False
  then show ?thesis by (simp add: animateAll_balls ballsAfterWalls_def ballsAfterPairs_def)
qed

lemma animateAll_spatial_filter:
  "balls (animateAll_spatial pg t s) = filter active (ballsAfterWalls_spatial pg t s)"
proof (cases "balls s = []")
  case True
  then have "ballsBeforePairs_spatial pg t s = []" by (simp add: ballsBeforePairs_spatial_def)
  then show ?thesis using True
    by (simp add: animateAll_spatial_balls ballsAfterWalls_spatial_def ballsAfterPairs_spatial_def)
next
  case False
  then show ?thesis
    by (simp add: animateAll_spatial_balls ballsAfterWalls_spatial_def ballsAfterPairs_spatial_def)
qed

lemma same_velocity_speed:
  "ball_vx c = ball_vx b \<Longrightarrow> ball_vy c = ball_vy b \<Longrightarrow> speed c = speed b"
  by (simp add: speed_def)

lemma step_index_bound:
  assumes i: "i < length (ballsBeforePairs pg t s)"
  shows "(active (ballsBeforePairs pg t s ! i) \<longrightarrow>
            speed (ballsBeforePairs pg t s ! i) \<le> maxVelocity portfolio)
       \<and> element (ballsAfterPairs pg t s ! i) = element (ballsBeforePairs pg t s ! i)
       \<and> element (ballsAfterWalls pg t s ! i) = element (ballsBeforePairs pg t s ! i)
       \<and> (active (ballsAfterWalls pg t s ! i) \<longrightarrow> active (ballsBeforePairs pg t s ! i))
       \<and> speed (ballsAfterWalls pg t s ! i) \<le> speed (ballsAfterPairs pg t s ! i)
       \<and> (active (ballsAfterWalls pg t s ! i)
            \<and> ball_vx (ballsAfterPairs pg t s ! i) = ball_vx (ballsBeforePairs pg t s ! i)
            \<and> ball_vy (ballsAfterPairs pg t s ! i) = ball_vy (ballsBeforePairs pg t s ! i) \<longrightarrow>
          speed (ballsAfterWalls pg t s ! i) \<le> maxVelocity portfolio)"
proof -
  define bs where "bs = ballsBeforePairs pg t s"
  define ap where "ap = ballsAfterPairs pg t s"
  define aw where "aw = ballsAfterWalls pg t s"
  have ap: "ap = collidePairs portfolio bs" by (simp add: ap_def bs_def ballsAfterPairs_def)
  have aw: "aw = fst (wallPass portfolio pg ap (attached s))"
    by (simp add: aw_def ap_def ballsAfterWalls_def)
  have ib: "i < length bs" using i by (simp add: bs_def)
  have ia: "i < length ap" using ib by (simp add: ap collidePairs_length)
  note c = collidePairs_nth[OF ib, of portfolio, folded ap]
  note w = wallPass_nth_bound[OF params_ok(1,2) ia, of pg "attached s", folded aw]
  have m: "bs ! i \<in> set bs" using ib by simp
  have a: "active (bs ! i) \<Longrightarrow> speed (bs ! i) \<le> maxVelocity portfolio"
    using ballsBeforePairs_speed[of "bs ! i" pg t s] m by (simp add: bs_def)
  have d: "active (aw ! i) \<Longrightarrow> active (bs ! i)" using w(3) c(1) by simp
  have f: "speed (aw ! i) \<le> maxVelocity portfolio"
    if "active (aw ! i)" "ball_vx (ap ! i) = ball_vx (bs ! i)" "ball_vy (ap ! i) = ball_vy (bs ! i)"
  proof -
    have "speed (aw ! i) \<le> speed (ap ! i)" by (rule w(1))
    also have "\<dots> = speed (bs ! i)" using that(2,3) by (rule same_velocity_speed)
    also have "\<dots> \<le> maxVelocity portfolio" using a d that(1) by simp
    finally show ?thesis .
  qed
  have "(active (bs ! i) \<longrightarrow> speed (bs ! i) \<le> maxVelocity portfolio)
       \<and> element (ap ! i) = element (bs ! i)
       \<and> element (aw ! i) = element (bs ! i)
       \<and> (active (aw ! i) \<longrightarrow> active (bs ! i))
       \<and> speed (aw ! i) \<le> speed (ap ! i)
       \<and> (active (aw ! i) \<and> ball_vx (ap ! i) = ball_vx (bs ! i) \<and> ball_vy (ap ! i) = ball_vy (bs ! i) \<longrightarrow>
          speed (aw ! i) \<le> maxVelocity portfolio)"
    using a c(2) w(1,2) d f by simp
  then show ?thesis unfolding bs_def ap_def aw_def .
qed

lemma step_index_bound_spatial:
  assumes i: "i < length (ballsBeforePairs_spatial pg t s)"
  shows "(active (ballsBeforePairs_spatial pg t s ! i) \<longrightarrow>
            speed (ballsBeforePairs_spatial pg t s ! i) \<le> maxVelocity spatial)
       \<and> element (ballsAfterPairs_spatial pg t s ! i) = element (ballsBeforePairs_spatial pg t s ! i)
       \<and> element (ballsAfterWalls_spatial pg t s ! i) = element (ballsBeforePairs_spatial pg t s ! i)
       \<and> (active (ballsAfterWalls_spatial pg t s ! i) \<longrightarrow> active (ballsBeforePairs_spatial pg t s ! i))
       \<and> speed (ballsAfterWalls_spatial pg t s ! i) \<le> speed (ballsAfterPairs_spatial pg t s ! i)
       \<and> (active (ballsAfterWalls_spatial pg t s ! i)
            \<and> ball_vx (ballsAfterPairs_spatial pg t s ! i) = ball_vx (ballsBeforePairs_spatial pg t s ! i)
            \<and> ball_vy (ballsAfterPairs_spatial pg t s ! i) = ball_vy (ballsBeforePairs_spatial pg t s ! i) \<longrightarrow>
          speed (ballsAfterWalls_spatial pg t s ! i) \<le> maxVelocity spatial)"
proof -
  define bs where "bs = ballsBeforePairs_spatial pg t s"
  define ap where "ap = ballsAfterPairs_spatial pg t s"
  define aw where "aw = ballsAfterWalls_spatial pg t s"
  have ap: "ap = collidePairs spatial bs" by (simp add: ap_def bs_def ballsAfterPairs_spatial_def)
  have aw: "aw = fst (wallPass_spatial spatial pg t ap (pendingRemovals s))"
    by (simp add: aw_def ap_def ballsAfterWalls_spatial_def)
  have ib: "i < length bs" using i by (simp add: bs_def)
  have ia: "i < length ap" using ib by (simp add: ap collidePairs_length)
  note c = collidePairs_nth[OF ib, of spatial, folded ap]
  note w = wallPass_spatial_nth_bound[OF params_ok(4,5) ia, of pg t "pendingRemovals s", folded aw]
  have m: "bs ! i \<in> set bs" using ib by simp
  have a: "active (bs ! i) \<Longrightarrow> speed (bs ! i) \<le> maxVelocity spatial"
    using ballsBeforePairs_spatial_speed[of "bs ! i" pg t s] m by (simp add: bs_def)
  have d: "active (aw ! i) \<Longrightarrow> active (bs ! i)" using w(3) c(1) by simp
  have f: "speed (aw ! i) \<le> maxVelocity spatial"
    if "active (aw ! i)" "ball_vx (ap ! i) = ball_vx (bs ! i)" "ball_vy (ap ! i) = ball_vy (bs ! i)"
  proof -
    have "speed (aw ! i) \<le> speed (ap ! i)" by (rule w(1))
    also have "\<dots> = speed (bs ! i)" using that(2,3) by (rule same_velocity_speed)
    also have "\<dots> \<le> maxVelocity spatial" using a d that(1) by simp
    finally show ?thesis .
  qed
  have "(active (bs ! i) \<longrightarrow> speed (bs ! i) \<le> maxVelocity spatial)
       \<and> element (ap ! i) = element (bs ! i)
       \<and> element (aw ! i) = element (bs ! i)
       \<and> (active (aw ! i) \<longrightarrow> active (bs ! i))
       \<and> speed (aw ! i) \<le> speed (ap ! i)
       \<and> (active (aw ! i) \<and> ball_vx (ap ! i) = ball_vx (bs ! i) \<and> ball_vy (ap ! i) = ball_vy (bs ! i) \<longrightarrow>
          speed (aw ! i) \<le> maxVelocity spatial)"
    using a c(2) w(1,2) d f by simp
  then show ?thesis unfolding bs_def ap_def aw_def .
qed

text \<open>
  Claim C2, as amended. In both scripts the clamp is applied once per step, after the
  forces and before the position is advanced, and the pairwise ball-ball loop runs after
  it. The balls left after a complete step are the active ones of the array after the
  wall loop, and for every ball of the array (by its index): if it is active, its speed
  is at most the configured maximum when the pair loop starts; the wall, ceiling and
  floor resolution leaves it no faster than the pair loop left it; and if the pair loop
  left its velocity unchanged (whether or not it moved the ball), its speed is at most
  the maximum at the end of the step. Only a ball whose velocity the pair loop changed,
  by an impulse that is not clamped in that step, can end the step faster.
\<close>

theorem step_speed_bound:
  "(balls (animateAll pg t s) = filter active (ballsAfterWalls pg t s)
    \<and> length (ballsAfterPairs pg t s) = length (ballsBeforePairs pg t s)
    \<and> length (ballsAfterWalls pg t s) = length (ballsBeforePairs pg t s)
    \<and> (\<forall>i < length (ballsBeforePairs pg t s).
         (active (ballsBeforePairs pg t s ! i) \<longrightarrow>
            speed (ballsBeforePairs pg t s ! i) \<le> maxVelocity portfolio)
         \<and> element (ballsAfterPairs pg t s ! i) = element (ballsBeforePairs pg t s ! i)
         \<and> element (ballsAfterWalls pg t s ! i) = element (ballsBeforePairs pg t s ! i)
         \<and> (active (ballsAfterWalls pg t s ! i) \<longrightarrow> active (ballsBeforePairs pg t s ! i))
         \<and> speed (ballsAfterWalls pg t s ! i) \<le> speed (ballsAfterPairs pg t s ! i)
         \<and> (active (ballsAfterWalls pg t s ! i)
              \<and> ball_vx (ballsAfterPairs pg t s ! i) = ball_vx (ballsBeforePairs pg t s ! i)
              \<and> ball_vy (ballsAfterPairs pg t s ! i) = ball_vy (ballsBeforePairs pg t s ! i) \<longrightarrow>
            speed (ballsAfterWalls pg t s ! i) \<le> maxVelocity portfolio)))
   \<and> (balls (animateAll_spatial pg t u) = filter active (ballsAfterWalls_spatial pg t u)
    \<and> length (ballsAfterPairs_spatial pg t u) = length (ballsBeforePairs_spatial pg t u)
    \<and> length (ballsAfterWalls_spatial pg t u) = length (ballsBeforePairs_spatial pg t u)
    \<and> (\<forall>i < length (ballsBeforePairs_spatial pg t u).
         (active (ballsBeforePairs_spatial pg t u ! i) \<longrightarrow>
            speed (ballsBeforePairs_spatial pg t u ! i) \<le> maxVelocity spatial)
         \<and> element (ballsAfterPairs_spatial pg t u ! i) = element (ballsBeforePairs_spatial pg t u ! i)
         \<and> element (ballsAfterWalls_spatial pg t u ! i) = element (ballsBeforePairs_spatial pg t u ! i)
         \<and> (active (ballsAfterWalls_spatial pg t u ! i) \<longrightarrow> active (ballsBeforePairs_spatial pg t u ! i))
         \<and> speed (ballsAfterWalls_spatial pg t u ! i) \<le> speed (ballsAfterPairs_spatial pg t u ! i)
         \<and> (active (ballsAfterWalls_spatial pg t u ! i)
              \<and> ball_vx (ballsAfterPairs_spatial pg t u ! i) = ball_vx (ballsBeforePairs_spatial pg t u ! i)
              \<and> ball_vy (ballsAfterPairs_spatial pg t u ! i) = ball_vy (ballsBeforePairs_spatial pg t u ! i) \<longrightarrow>
            speed (ballsAfterWalls_spatial pg t u ! i) \<le> maxVelocity spatial)))"
proof -
  have l1: "length (ballsAfterPairs pg t s) = length (ballsBeforePairs pg t s)"
    by (simp add: ballsAfterPairs_def collidePairs_length)
  have l2: "length (ballsAfterWalls pg t s) = length (ballsBeforePairs pg t s)"
    by (simp add: ballsAfterWalls_def wallPass_length l1)
  have l3: "length (ballsAfterPairs_spatial pg t u) = length (ballsBeforePairs_spatial pg t u)"
    by (simp add: ballsAfterPairs_spatial_def collidePairs_length)
  have l4: "length (ballsAfterWalls_spatial pg t u) = length (ballsBeforePairs_spatial pg t u)"
    by (simp add: ballsAfterWalls_spatial_def wallPass_spatial_length l3)
  show ?thesis
    by (intro conjI allI impI animateAll_filter animateAll_spatial_filter l1 l2 l3 l4
        step_index_bound step_index_bound_spatial)
qed

text \<open>
  The frame at 1016.67 ms on a ball falling faster than the maximum right below a slower
  one, stage by stage, in each script: the clamp cuts the faster ball to the maximum, the
  pair loop pushes the two apart and, since they are moving apart, keeps their
  velocities.
\<close>

lemma sqrt_225: "sqrt 225 = 15" by (rule real_sqrt_unique) simp_all

lemma clampVelocity_vertical:
  assumes "ball_vx b = 0" "0 < ball_vy b"
  shows "clampVelocity p b =
           (if maxVelocity p < ball_vy b then b\<lparr>ball_vx := 0, ball_vy := maxVelocity p\<rparr> else b)"
proof -
  have s: "sqrt (ball_vx b * ball_vx b + ball_vy b * ball_vy b) = ball_vy b"
    using assms by simp
  show ?thesis
    unfolding clampVelocity_def Let_def s using assms by simp
qed

lemma clamp_falling:
  "clampVelocity portfolio (mkBall 0 400 500 0 40.2752) = mkBall 0 400 500 0 30"
  "clampVelocity spatial (mkBall 0 400 500 0 50.4465) = mkBall 0 400 500 0 35"
  by (simp_all add: clampVelocity_vertical mkBall_def portfolio_def spatial_def)

lemma applyForces_falling:
  "applyForces portfolio 1 (mkBall 0 400 500 0 40) = mkBall 0 400 530 0 30"
  "applyForces portfolio 1 (mkBall 1 400 504.4848 0 10) = mkBall 1 400 515 0 10.5152"
proof -
  show "applyForces portfolio 1 (mkBall 0 400 500 0 40) = mkBall 0 400 530 0 30"
    using clamp_falling(1)
    by (simp add: applyForces_def Math_pow_def mkBall_def portfolio_def Let_def)
  show "applyForces portfolio 1 (mkBall 1 400 504.4848 0 10) = mkBall 1 400 515 0 10.5152"
    by (simp add: applyForces_def clampVelocity_def Math_pow_def mkBall_def portfolio_def Let_def
        less_sqrt_iff)
qed

lemma ballsBeforePairs_falling:
  "ballsBeforePairs plainPage 1016.67 fallingPairState
     = [mkBall 0 400 530 0 30, mkBall 1 400 515 0 10.5152]"
proof -
  have dt: "deltaTimeOf (lastTime fallingPairState) 1016.67 = 1"
    by (simp add: deltaTimeOf_def fallingPairState_def)
  have b: "balls fallingPairState = [mkBall 0 400 500 0 40, mkBall 1 400 504.4848 0 10]"
    by (simp add: fallingPairState_def)
  show ?thesis
    unfolding ballsBeforePairs_def dt plainPage_obstacles b list.map applyForces_falling
    by (simp add: obstaclePass_def)
qed

lemma resolve_falling:
  "resolveBallCollision portfolio (mkBall 0 400 530 0 30) (mkBall 1 400 515 0 10.5152)
     = (mkBall 0 400 532.5 0 30, mkBall 1 400 512.5 0 10.5152)"
  by (simp add: resolveBallCollision_def mkBall_def portfolio_def Let_def sqrt_225)

lemma ballsAfterPairs_falling:
  "ballsAfterPairs plainPage 1016.67 fallingPairState
     = [mkBall 0 400 532.5 0 30, mkBall 1 400 512.5 0 10.5152]"
proof -
  have a: "active (mkBall 0 400 530 0 30)" "active (mkBall 1 400 515 0 10.5152)"
    "active (mkBall 1 400 512.5 0 10.5152)"
    by (simp_all add: mkBall_def)
  have w: "collideWith portfolio (mkBall 0 400 530 0 30) [mkBall 1 400 515 0 10.5152]
     = (mkBall 0 400 532.5 0 30, [mkBall 1 400 512.5 0 10.5152])"
    unfolding collideWith.simps resolve_falling using a by simp
  show ?thesis
    unfolding ballsAfterPairs_def ballsBeforePairs_falling collidePairs.simps w using a by simp
qed

lemma ballsAfterWalls_falling:
  "ballsAfterWalls plainPage 1016.67 fallingPairState
     = [mkBall 0 400 532.5 0 30, mkBall 1 400 512.5 0 10.5152]"
proof -
  have d: "attached fallingPairState = [0, 1]" by (simp add: fallingPairState_def)
  have w: "wallPass portfolio plainPage [mkBall 0 400 532.5 0 30, mkBall 1 400 512.5 0 10.5152] [0, 1]
     = ([mkBall 0 400 532.5 0 30, mkBall 1 400 512.5 0 10.5152], [0, 1])"
    by (simp add: wallStep_def bounceWalls_def leftWall_def rightWall_def ceilingWall_def mkBall_def
      portfolio_def plainPage_def Let_def)
  show ?thesis unfolding ballsAfterWalls_def ballsAfterPairs_falling d w by simp
qed

lemma applyForces_spatial_falling:
  "applyForces_spatial spatial 0 0 1 (mkBall 0 400 500 0 50)
     = (mkBall 0 400 535 0 35)\<lparr>prevX := Some 400, prevY := Some 500\<rparr>"
  "applyForces_spatial spatial 0 0 1 (mkBall 1 400 509.3535 0 10)
     = (mkBall 1 400 520 0 10.6465)\<lparr>prevX := Some 400, prevY := Some 509.3535\<rparr>"
proof -
  have c: "clampVelocity spatial ((mkBall 0 400 500 0 50.4465)\<lparr>prevX := Some 400, prevY := Some 500\<rparr>)
      = (mkBall 0 400 500 0 35)\<lparr>prevX := Some 400, prevY := Some 500\<rparr>"
    by (simp add: clampVelocity_vertical mkBall_def spatial_def)
  show "applyForces_spatial spatial 0 0 1 (mkBall 0 400 500 0 50)
     = (mkBall 0 400 535 0 35)\<lparr>prevX := Some 400, prevY := Some 500\<rparr>"
    using c
    by (simp add: applyForces_spatial_def applyCursorMagnetism_def Math_pow_def mkBall_def
        spatial_def magneticRadius_def Let_def)
  show "applyForces_spatial spatial 0 0 1 (mkBall 1 400 509.3535 0 10)
     = (mkBall 1 400 520 0 10.6465)\<lparr>prevX := Some 400, prevY := Some 509.3535\<rparr>"
    by (simp add: applyForces_spatial_def applyCursorMagnetism_def clampVelocity_def Math_pow_def
        mkBall_def spatial_def magneticRadius_def Let_def less_sqrt_iff)
qed

lemma ballsBeforePairs_spatial_falling:
  "ballsBeforePairs_spatial plainPage 1016.67 fallingPairState_spatial
     = [(mkBall 0 400 535 0 35)\<lparr>prevX := Some 400, prevY := Some 500\<rparr>,
        (mkBall 1 400 520 0 10.6465)\<lparr>prevX := Some 400, prevY := Some 509.3535\<rparr>]"
proof -
  have dt: "deltaTimeOf (lastTime fallingPairState_spatial) 1016.67 = 1"
    by (simp add: deltaTimeOf_def fallingPairState_spatial_def)
  have o: "obstacleCache (refreshObstacles plainPage 1016.67 fallingPairState_spatial) = []"
    by (simp add: refreshObstacles_def getObstacles_spatial_def plainPage_def
        fallingPairState_spatial_def List.map_filter_simps)
  have b: "balls fallingPairState_spatial = [mkBall 0 400 500 0 50, mkBall 1 400 509.3535 0 10]"
    "cursorX plainPage = 0" "cursorY plainPage = 0"
    by (simp_all add: fallingPairState_spatial_def plainPage_def)
  show ?thesis
    unfolding ballsBeforePairs_spatial_def dt o b list.map applyForces_spatial_falling
    by (simp add: obstaclePass_spatial_def)
qed

lemma resolve_spatial_falling:
  "resolveBallCollision spatial ((mkBall 0 400 535 0 35)\<lparr>prevX := Some 400, prevY := Some 500\<rparr>)
       ((mkBall 1 400 520 0 10.6465)\<lparr>prevX := Some 400, prevY := Some 509.3535\<rparr>)
     = ((mkBall 0 400 539.5 0 35)\<lparr>prevX := Some 400, prevY := Some 500\<rparr>,
        (mkBall 1 400 515.5 0 10.6465)\<lparr>prevX := Some 400, prevY := Some 509.3535\<rparr>)"
  by (simp add: resolveBallCollision_def mkBall_def spatial_def Let_def sqrt_225)

lemma ballsAfterPairs_spatial_falling:
  "ballsAfterPairs_spatial plainPage 1016.67 fallingPairState_spatial
     = [(mkBall 0 400 539.5 0 35)\<lparr>prevX := Some 400, prevY := Some 500\<rparr>,
        (mkBall 1 400 515.5 0 10.6465)\<lparr>prevX := Some 400, prevY := Some 509.3535\<rparr>]"
proof -
  have a: "active ((mkBall 0 400 535 0 35)\<lparr>prevX := Some 400, prevY := Some 500\<rparr>)"
    "active ((mkBall 1 400 520 0 10.6465)\<lparr>prevX := Some 400, prevY := Some 509.3535\<rparr>)"
    "active ((mkBall 1 400 515.5 0 10.6465)\<lparr>prevX := Some 400, prevY := Some 509.3535\<rparr>)"
    by (simp_all add: mkBall_def)
  have w: "collideWith spatial ((mkBall 0 400 535 0 35)\<lparr>prevX := Some 400, prevY := Some 500\<rparr>)
       [(mkBall 1 400 520 0 10.6465)\<lparr>prevX := Some 400, prevY := Some 509.3535\<rparr>]
     = ((mkBall 0 400 539.5 0 35)\<lparr>prevX := Some 400, prevY := Some 500\<rparr>,
        [(mkBall 1 400 515.5 0 10.6465)\<lparr>prevX := Some 400, prevY := Some 509.3535\<rparr>])"
    unfolding collideWith.simps resolve_spatial_falling using a by simp
  show ?thesis
    unfolding ballsAfterPairs_spatial_def ballsBeforePairs_spatial_falling collidePairs.simps w
    using a by simp
qed

lemma ballsAfterWalls_spatial_falling:
  "ballsAfterWalls_spatial plainPage 1016.67 fallingPairState_spatial
     = [(mkBall 0 400 539.5 0 35)\<lparr>prevX := Some 400, prevY := Some 500\<rparr>,
        (mkBall 1 400 515.5 0 10.6465)\<lparr>prevX := Some 400, prevY := Some 509.3535\<rparr>]"
proof -
  have d: "pendingRemovals fallingPairState_spatial = []" by (simp add: fallingPairState_spatial_def)
  have w: "wallPass_spatial spatial plainPage 1016.67
        [(mkBall 0 400 539.5 0 35)\<lparr>prevX := Some 400, prevY := Some 500\<rparr>,
         (mkBall 1 400 515.5 0 10.6465)\<lparr>prevX := Some 400, prevY := Some 509.3535\<rparr>] []
     = ([(mkBall 0 400 539.5 0 35)\<lparr>prevX := Some 400, prevY := Some 500\<rparr>,
         (mkBall 1 400 515.5 0 10.6465)\<lparr>prevX := Some 400, prevY := Some 509.3535\<rparr>], [])"
    by (simp add: wallStep_spatial_def floorStep_def bounceWalls_def leftWall_def rightWall_def
        ceilingWall_def mkBall_def spatial_def plainPage_def Let_def)
  show ?thesis unfolding ballsAfterWalls_spatial_def ballsAfterPairs_spatial_falling d w by simp
qed

text \<open>
  Witness for C2: in both scripts the clamp and the pair loop act on the falling pair,
  the pair loop moves both balls and changes no velocity, both balls are still tracked
  after the step, and each is within the maximum.
\<close>

theorem step_speed_bound_witness:
  "(ballsBeforePairs plainPage 1016.67 fallingPairState
      = [mkBall 0 400 530 0 30, mkBall 1 400 515 0 10.5152]
    \<and> ballsAfterPairs plainPage 1016.67 fallingPairState
      = [mkBall 0 400 532.5 0 30, mkBall 1 400 512.5 0 10.5152]
    \<and> balls (animateAll plainPage 1016.67 fallingPairState)
      = [mkBall 0 400 532.5 0 30, mkBall 1 400 512.5 0 10.5152]
    \<and> maxVelocity portfolio < speed (mkBall 0 400 500 0 40)
    \<and> speed (mkBall 0 400 532.5 0 30) \<le> maxVelocity portfolio
    \<and> speed (mkBall 1 400 512.5 0 10.5152) \<le> maxVelocity portfolio)
   \<and> (ballsBeforePairs_spatial plainPage 1016.67 fallingPairState_spatial
      = [(mkBall 0 400 535 0 35)\<lparr>prevX := Some 400, prevY := Some 500\<rparr>,
         (mkBall 1 400 520 0 10.6465)\<lparr>prevX := Some 400, prevY := Some 509.3535\<rparr>]
    \<and> ballsAfterPairs_spatial plainPage 1016.67 fallingPairState_spatial
      = [(mkBall 0 400 539.5 0 35)\<lparr>prevX := Some 400, prevY := Some 500\<rparr>,
         (mkBall 1 400 515.5 0 10.6465)\<lparr>prevX := Some 400, prevY := Some 509.3535\<rparr>]
    \<and> balls (animateAll_spatial plainPage 1016.67 fallingPairState_spatial)
      = [(mkBall 0 400 539.5 0 35)\<lparr>prevX := Some 400, prevY := Some 500\<rparr>,
         (mkBall 1 400 515.5 0 10.6465)\<lparr>prevX := Some 400, prevY := Some 509.3535\<rparr>]
    \<and> maxVelocity spatial < speed (mkBall 0 400 500 0 50)
    \<and> speed ((mkBall 0 400 539.5 0 35)\<lparr>prevX := Some 400, prevY := Some 500\<rparr>) \<le> maxVelocity spatial
    \<and> speed ((mkBall 1 400 515.5 0 10.6465)\<lparr>prevX := Some 400, prevY := Some 509.3535\<rparr>)
        \<le> maxVelocity spatial)"
proof -
  note t = step_speed_bound[where s = fallingPairState and u = fallingPairState_spatial
      and pg = plainPage and t = "1016.67"]
  note tp = t[THEN conjunct1]
  note ts = t[THEN conjunct2]
  note ip = tp[THEN conjunct2, THEN conjunct2, THEN conjunct2, rule_format]
  note isp = ts[THEN conjunct2, THEN conjunct2, THEN conjunct2, rule_format]
  have fp: "balls (animateAll plainPage 1016.67 fallingPairState)
      = [mkBall 0 400 532.5 0 30, mkBall 1 400 512.5 0 10.5152]"
    using tp[THEN conjunct1] unfolding ballsAfterWalls_falling by (simp add: mkBall_def)
  have fs: "balls (animateAll_spatial plainPage 1016.67 fallingPairState_spatial)
      = [(mkBall 0 400 539.5 0 35)\<lparr>prevX := Some 400, prevY := Some 500\<rparr>,
         (mkBall 1 400 515.5 0 10.6465)\<lparr>prevX := Some 400, prevY := Some 509.3535\<rparr>]"
    using ts[THEN conjunct1] unfolding ballsAfterWalls_spatial_falling by (simp add: mkBall_def)
  have p0: "speed (mkBall 0 400 532.5 0 30) \<le> maxVelocity portfolio"
    using ip[of 0]
    unfolding ballsBeforePairs_falling ballsAfterPairs_falling ballsAfterWalls_falling
    by (simp add: mkBall_def)
  have p1: "speed (mkBall 1 400 512.5 0 10.5152) \<le> maxVelocity portfolio"
    using ip[of 1]
    unfolding ballsBeforePairs_falling ballsAfterPairs_falling ballsAfterWalls_falling
    by (simp add: mkBall_def)
  have s0: "speed ((mkBall 0 400 539.5 0 35)\<lparr>prevX := Some 400, prevY := Some 500\<rparr>) \<le> maxVelocity spatial"
    using isp[of 0]
    unfolding ballsBeforePairs_spatial_falling ballsAfterPairs_spatial_falling
      ballsAfterWalls_spatial_falling
    by (simp add: mkBall_def)
  have s1: "speed ((mkBall 1 400 515.5 0 10.6465)\<lparr>prevX := Some 400, prevY := Some 509.3535\<rparr>)
        \<le> maxVelocity spatial"
    using isp[of 1]
    unfolding ballsBeforePairs_spatial_falling ballsAfterPairs_spatial_falling
      ballsAfterWalls_spatial_falling
    by (simp add: mkBall_def)
  have c: "maxVelocity portfolio < speed (mkBall 0 400 500 0 40)"
    "maxVelocity spatial < speed (mkBall 0 400 500 0 50)"
    by (simp_all add: speed_def mkBall_def portfolio_def spatial_def less_sqrt_iff)
  show ?thesis
    using ballsBeforePairs_falling ballsAfterPairs_falling fp c p0 p1
      ballsBeforePairs_spatial_falling ballsAfterPairs_spatial_falling fs s0 s1
    by blast
qed

end
